(* ===== verification/Bishop_Prelude.thy ===== *)
theory Bishop_Prelude
  imports Complex_Main
begin

text \<open>
  Shared vocabulary of the development: the numeric type that stands for the
  C++ \<^verbatim>\<open>float\<close>, the named collections of unfolding rules that the component
  theories fill, and the facts about \<open>sin\<close>, \<open>cos\<close> and \<open>arctan\<close> that the
  proofs about frame changes and bearings share.

  \<^verbatim>\<open>float\<close> is modelled by \<^typ>\<open>real\<close>: rounding, overflow to infinity and NaN are
  outside the model, so every equation proved here is the exact law that the
  floating-point code approximates.
\<close>

section \<open>Numeric type\<close>

type_synonym float = real

section \<open>Collections of rules\<close>

named_theorems geom_defs \<open>definitions of the frame-change operations\<close>
named_theorems cmd_defs \<open>definitions of the command constructors\<close>
named_theorems bishop_defs \<open>definitions of the locals and the result of the role function\<close>
named_theorems frame_simps \<open>component-wise equations of frame changes\<close>

section \<open>Rotation algebra\<close>

text \<open>
  Rotating by \<open>- t\<close> and then by \<open>t\<close> (or the other way round) is the identity,
  and a rotation keeps the squared length. The four cancellation laws are
  stated on components, in the shape in which the frame changes produce them.
\<close>

lemma cos_sq_eq: "cos t * cos t = 1 - sin t * sin t" for t :: real
  using sin_cos_squared_add [of t] by (simp add: power2_eq_square algebra_simps)

lemma rot_unrot_fst [frame_simps]:
  "(a * cos t + b * sin t) * cos t - (b * cos t - a * sin t) * sin t = a" for a b t :: real
  by (simp add: algebra_simps cos_sq_eq)

lemma rot_unrot_snd [frame_simps]:
  "(a * cos t + b * sin t) * sin t + (b * cos t - a * sin t) * cos t = b" for a b t :: real
  by (simp add: algebra_simps cos_sq_eq)

lemma unrot_rot_fst [frame_simps]:
  "(a * cos t - b * sin t) * cos t + (a * sin t + b * cos t) * sin t = a" for a b t :: real
  by (simp add: algebra_simps cos_sq_eq)

lemma unrot_rot_snd [frame_simps]:
  "(a * sin t + b * cos t) * cos t - (a * cos t - b * sin t) * sin t = b" for a b t :: real
  by (simp add: algebra_simps cos_sq_eq)

lemma rot_norm:
  "(a * cos t + b * sin t)\<^sup>2 + (b * cos t - a * sin t)\<^sup>2 = a\<^sup>2 + b\<^sup>2" for a b t :: real
  by (simp add: algebra_simps power2_eq_square cos_sq_eq)

section \<open>Length of a non-zero vector, and \<open>arctan\<close> of a slope\<close>

lemma hyp_pos: "0 < sqrt (a\<^sup>2 + b\<^sup>2)" if "a \<noteq> 0 \<or> b \<noteq> 0" for a b :: real
  using that by (auto simp: sum_power2_gt_zero_iff)

lemma sqrt_slope: "sqrt (1 + (b / a)\<^sup>2) = sqrt (a\<^sup>2 + b\<^sup>2) / \<bar>a\<bar>" if "a \<noteq> 0" for a b :: real
proof -
  have "1 + (b / a)\<^sup>2 = (a\<^sup>2 + b\<^sup>2) / a\<^sup>2"
    using that by (simp add: field_simps)
  then show ?thesis
    by (simp add: real_sqrt_divide)
qed

lemma cos_arctan_div:
  "cos (arctan (b / a)) = \<bar>a\<bar> / sqrt (a\<^sup>2 + b\<^sup>2)" if "a \<noteq> 0" for a b :: real
  using that by (simp add: cos_arctan sqrt_slope)

lemma sin_arctan_div:
  "sin (arctan (b / a)) = (b / a) * \<bar>a\<bar> / sqrt (a\<^sup>2 + b\<^sup>2)" if "a \<noteq> 0" for a b :: real
  using that by (simp add: sin_arctan sqrt_slope)

lemma arctan_le_self: "arctan t \<le> t" if "0 \<le> t" for t :: real
proof -
  have "(\<lambda>s. s - arctan s) 0 \<le> (\<lambda>s. s - arctan s) t"
  proof (rule DERIV_nonneg_imp_nondecreasing [OF that])
    fix s :: real
    have "((\<lambda>s. s - arctan s) has_real_derivative 1 - inverse (1 + s\<^sup>2)) (at s)"
      by (auto intro!: derivative_eq_intros)
    moreover have "0 \<le> 1 - inverse (1 + s\<^sup>2)"
      by (simp add: inverse_le_1_iff)
    ultimately show "\<exists>r. ((\<lambda>s. s - arctan s) has_real_derivative r) (at s) \<and> 0 \<le> r"
      by blast
  qed
  then show ?thesis by simp
qed

lemma arctan_slope_bounds: "- (pi / 2) < arctan (b / a)" "arctan (b / a) < pi / 2"
  by (rule arctan_lbound arctan_ubound)+

section \<open>Angles\<close>

text \<open>
  The chord of the unit circle under the angle \<open>a\<close>, the fact that a part of
  a normalised angle is normalised, and the bound of a normalised angle by
  \<open>pi / 2\<close> times its chord (from the bound of the sine by its chord on the
  first quarter turn).
\<close>

lemma cmod_cis_diff_1: "cmod (cis a - 1) = 2 * \<bar>sin (a / 2)\<bar>"
proof -
  have "(cos a - 1)\<^sup>2 + (sin a)\<^sup>2 = (2 * sin (a / 2))\<^sup>2"
    using cos_double_sin [of "a / 2"] sin_cos_squared_add [of a]
    by (simp add: power2_eq_square algebra_simps)
  then have "cmod (cis a - 1) = sqrt ((2 * sin (a / 2))\<^sup>2)"
    unfolding cmod_def by simp
  then show ?thesis
    by (simp add: real_sqrt_mult)
qed

lemma part_of_angle: "- pi < k * t \<and> k * t \<le> pi"
  if "- pi < t" "t \<le> pi" "0 \<le> k" "k \<le> 1" for k t :: real
proof (cases "0 \<le> t")
  case True
  with that have "0 \<le> k * t" "k * t \<le> t"
    by (simp_all add: mult_left_le_one_le)
  with that pi_gt_zero show ?thesis by linarith
next
  case False
  with that have "k * t \<le> 0" "t \<le> k * t"
    by (simp_all add: mult_nonneg_nonpos mult_left_le_one_le [of "- t" k, simplified])
  with that pi_gt_zero show ?thesis by linarith
qed

lemma sin_ge_chord: "2 / pi * t \<le> sin t" if "0 \<le> t" "t \<le> pi / 2" for t :: real
proof -
  let ?c = "arccos (2 / pi)"
  define f where "f = (\<lambda>s::real. sin s - 2 / pi * s)"
  have q: "0 \<le> 2 / pi" "2 / pi \<le> 1" "- 1 \<le> 2 / pi"
    using pi_ge_two by (simp_all add: order_trans [of "- 1" 0])
  note c = arccos_lbound [OF q(3,2)] arccos_le_pi2 [OF q(1,2)] cos_arccos [OF q(3,2)]
  have deriv: "(f has_real_derivative cos s - 2 / pi) (at s)" for s
    unfolding f_def by (auto intro!: derivative_eq_intros)
  show ?thesis
  proof (cases "t \<le> ?c")
    case True
    have "f 0 \<le> f t"
    proof (rule DERIV_nonneg_imp_nondecreasing [OF that(1)])
      fix s assume "0 \<le> s" "s \<le> t"
      with True c have "cos ?c \<le> cos s"
        by (intro cos_monotone_0_pi_le) simp_all
      with deriv [of s] c show "\<exists>r. (f has_real_derivative r) (at s) \<and> 0 \<le> r"
        by (intro exI [of _ "cos s - 2 / pi"]) simp
    qed
    then show ?thesis
      by (simp add: f_def)
  next
    case False
    have "f (pi / 2) \<le> f t"
    proof (rule DERIV_nonpos_imp_nonincreasing [OF that(2)])
      fix s assume "t \<le> s" "s \<le> pi / 2"
      with False c have "cos s \<le> cos ?c"
        by (intro cos_monotone_0_pi_le) simp_all
      with deriv [of s] c show "\<exists>r. (f has_real_derivative r) (at s) \<and> r \<le> 0"
        by (intro exI [of _ "cos s - 2 / pi"]) simp
    qed
    then show ?thesis
      by (simp add: f_def)
  qed
qed

lemma abs_le_chord: "\<bar>t\<bar> \<le> pi / 2 * cmod (cis t - 1)" if "- pi \<le> t" "t \<le> pi"
proof -
  have "2 / pi * (\<bar>t\<bar> / 2) \<le> sin (\<bar>t\<bar> / 2)"
    using that by (intro sin_ge_chord) auto
  also have "\<dots> = \<bar>sin (t / 2)\<bar>"
  proof -
    have "0 \<le> sin (\<bar>t\<bar> / 2)"
      using that by (intro sin_ge_zero) auto
    then show ?thesis
      by (cases "0 \<le> t") (simp_all add: abs_if)
  qed
  finally have "\<bar>t\<bar> \<le> pi / 2 * (2 * \<bar>sin (t / 2)\<bar>)"
    using pi_gt_zero by (simp add: field_simps)
  then show ?thesis
    by (simp only: cmod_cis_diff_1)
qed

section \<open>Directions\<close>

text \<open>
  The direction of a vector moves by at most twice the relative change of the
  vector; in particular the directions from two points \<open>r\<close> and \<open>t\<close> to a third
  point \<open>b\<close> differ by at most twice the distance between \<open>r\<close> and \<open>t\<close>, relative to
  the distance between \<open>t\<close> and \<open>b\<close>.
\<close>

lemma sgn_diff_bound:
  "norm (sgn w - sgn z) \<le> 2 * norm (w - z) / norm z" if "z \<noteq> 0" "w \<noteq> 0"
  for w z :: "'a::real_normed_vector"
proof -
  have "sgn w - sgn z = (w - z) /\<^sub>R norm z + ((norm z - norm w) / norm z) *\<^sub>R sgn w"
    using that
    by (simp add: sgn_div_norm algebra_simps diff_divide_distrib inverse_eq_divide)
  then have "norm (sgn w - sgn z)
      \<le> norm ((w - z) /\<^sub>R norm z) + norm (((norm z - norm w) / norm z) *\<^sub>R sgn w)"
    by (simp only: norm_triangle_ineq)
  also have "\<dots> = norm (w - z) / norm z + \<bar>norm z - norm w\<bar> / norm z"
    using that by (simp add: norm_sgn abs_mult divide_inverse mult.commute)
  also have "\<dots> \<le> norm (w - z) / norm z + norm (w - z) / norm z"
    using that norm_triangle_ineq3 [of z w]
    by (intro add_left_mono divide_right_mono) (simp_all add: norm_minus_commute)
  finally show ?thesis by simp
qed

lemma direction_lag:
  "dist (sgn (b - r)) (sgn (b - t)) \<le> 2 * dist r t / dist b t" if "b \<noteq> r" "b \<noteq> t"
  for b r t :: "'a::real_normed_vector"
  using sgn_diff_bound [of "b - t" "b - r"] that by (simp add: dist_norm norm_minus_commute)

section \<open>Decay\<close>

text \<open>
  A quantity that shrinks by the factor \<open>q < 1\<close> per step, up to a disturbance
  that shrinks by the same factor, vanishes.
\<close>

lemma decay_limit: "(\<lambda>n. q ^ n * a + real n * q ^ (n - 1) * c) \<longlonglongrightarrow> 0"
  if "0 \<le> q" "q < 1" for q a c :: real
proof -
  have "(\<lambda>n. real n * q ^ n) \<longlonglongrightarrow> 0" "(\<lambda>n. q ^ n) \<longlonglongrightarrow> 0"
    using that by (simp_all add: powser_times_n_limit_0 LIMSEQ_realpow_zero)
  then have "(\<lambda>n. real n * q ^ n + q ^ n) \<longlonglongrightarrow> 0"
    using tendsto_add by fastforce
  then have "(\<lambda>n. real (Suc n) * q ^ (Suc n - 1)) \<longlonglongrightarrow> 0"
    by (simp add: algebra_simps)
  then have "(\<lambda>n. real n * q ^ (n - 1)) \<longlonglongrightarrow> 0"
    by (rule LIMSEQ_imp_Suc)
  from tendsto_add [OF tendsto_mult_right [OF \<open>(\<lambda>n. q ^ n) \<longlonglongrightarrow> 0\<close>, of a] tendsto_mult_right [OF this, of c]]
  show ?thesis
    by simp
qed

end
