(* ===== verification/Geometry.thy ===== *)
theory Geometry
  imports Bishop_Prelude
begin

text \<open>
  Points, poses and the change between the field frame and the robot frame.

  \<open>Vector2f\<close> has the two accessors the role function calls (\<^verbatim>\<open>x()\<close>, \<^verbatim>\<open>y()\<close>);
  \<open>Pose\<close> is the pair that the constructor call \<^verbatim>\<open>Pose(v, angle)\<close> builds.
  \<open>fieldToRobot\<close> is the method the role function calls on the robot's pose
  estimate: its body is not part of the sources, so it follows the contract
  "translate by minus the position, then rotate by minus the heading";
  \<open>robotToField\<close> is the inverse change of that contract's round-trip law.

  \<open>toComplex\<close>, \<open>wf_Pose\<close> and \<open>movePose\<close> model no code: the first reads a vector as a
  point of the complex plane, where a frame change is a multiplication by \<open>cis\<close>,
  and is the abstraction under which the component formulas are compared with
  that specification; the second is the normalisation invariant of a pose's
  heading; the third expresses a pose given in the frame of \<open>t\<close> in the frame that
  \<open>t\<close> itself is given in (a robot-relative pose as a field pose, or a field pose
  in a moved field frame).
\<close>

section \<open>Data\<close>

record Vector2f =
  x :: float
  y :: float

record Pose =
  position :: Vector2f
  heading :: float

section \<open>Frame changes\<close>

definition rotate :: "float \<Rightarrow> Vector2f \<Rightarrow> Vector2f" where
  "rotate a v = \<lparr>x = x v * cos a - y v * sin a, y = x v * sin a + y v * cos a\<rparr>"

definition fieldToRobot :: "Pose \<Rightarrow> Vector2f \<Rightarrow> Vector2f" where
  "fieldToRobot p q =
     rotate (- heading p) \<lparr>x = x q - x (position p), y = y q - y (position p)\<rparr>"

definition robotToField :: "Pose \<Rightarrow> Vector2f \<Rightarrow> Vector2f" where
  "robotToField p v =
     \<lparr>x = x (position p) + x (rotate (heading p) v),
      y = y (position p) + y (rotate (heading p) v)\<rparr>"

declare rotate_def [geom_defs] fieldToRobot_def [geom_defs] robotToField_def [geom_defs]

section \<open>Specification vocabulary\<close>

definition toComplex :: "Vector2f \<Rightarrow> complex" where
  "toComplex v = Complex (x v) (y v)"

definition wf_Pose :: "Pose \<Rightarrow> bool" where
  "wf_Pose p \<longleftrightarrow> - pi < heading p \<and> heading p \<le> pi"

definition movePose :: "Pose \<Rightarrow> Pose \<Rightarrow> Pose" where
  "movePose t p = \<lparr>position = robotToField t (position p), heading = heading t + heading p\<rparr>"

section \<open>Components of the frame changes\<close>

lemma x_rotate [frame_simps]: "x (rotate a v) = x v * cos a - y v * sin a"
  and y_rotate [frame_simps]: "y (rotate a v) = x v * sin a + y v * cos a"
  by (simp_all add: rotate_def)

lemma x_fieldToRobot [frame_simps]:
  "x (fieldToRobot p q) =
     (x q - x (position p)) * cos (heading p) + (y q - y (position p)) * sin (heading p)"
  and y_fieldToRobot [frame_simps]:
  "y (fieldToRobot p q) =
     (y q - y (position p)) * cos (heading p) - (x q - x (position p)) * sin (heading p)"
  by (simp_all add: fieldToRobot_def rotate_def)

lemma x_robotToField [frame_simps]:
  "x (robotToField p v) = x (position p) + (x v * cos (heading p) - y v * sin (heading p))"
  and y_robotToField [frame_simps]:
  "y (robotToField p v) = y (position p) + (x v * sin (heading p) + y v * cos (heading p))"
  by (simp_all add: robotToField_def rotate_def)

lemma Vector2f_eqI: "v = w" if "x v = x w" and "y v = y w" for v w :: Vector2f
  using that by simp

lemma Vector2f_eta [simp]: "\<lparr>x = x v, y = y v\<rparr> = v"
  by simp

section \<open>Rotations\<close>

lemma rotate_0 [simp]: "rotate 0 v = v"
  by (simp add: rotate_def)

lemma rotate_add: "rotate a (rotate b v) = rotate (a + b) v"
  by (rule Vector2f_eqI) (simp_all add: frame_simps cos_add sin_add algebra_simps)

lemma rotate_inverse [simp]: "rotate a (rotate (- a) v) = v" "rotate (- a) (rotate a v) = v"
  by (simp_all add: rotate_add)

lemma rotate_origin [simp]: "rotate a \<lparr>x = 0, y = 0\<rparr> = \<lparr>x = 0, y = 0\<rparr>"
  by (simp add: rotate_def)

lemma rotate_zero_iff [simp]: "rotate a v = \<lparr>x = 0, y = 0\<rparr> \<longleftrightarrow> v = \<lparr>x = 0, y = 0\<rparr>"
  by (metis rotate_inverse(2) rotate_origin)

lemma rotate_polar:
  "rotate a \<lparr>x = r * cos h, y = r * sin h\<rparr> = \<lparr>x = r * cos (h + a), y = r * sin (h + a)\<rparr>"
  by (simp add: rotate_def cos_add sin_add algebra_simps)

section \<open>The complex plane as the specification of the frame changes\<close>

lemma toComplex_inj [simp]: "toComplex v = toComplex w \<longleftrightarrow> v = w"
  by (auto simp: toComplex_def intro: Vector2f_eqI)

lemma toComplex_sel [simp]: "Re (toComplex v) = x v" "Im (toComplex v) = y v"
  by (simp_all add: toComplex_def)

lemma toComplex_rotate: "toComplex (rotate a v) = cis a * toComplex v"
  by (simp add: complex_eq_iff frame_simps algebra_simps)

lemma toComplex_fieldToRobot:
  "toComplex (fieldToRobot p q) = cis (- heading p) * (toComplex q - toComplex (position p))"
  by (simp add: complex_eq_iff frame_simps algebra_simps)

lemma toComplex_robotToField:
  "toComplex (robotToField p v) = toComplex (position p) + cis (heading p) * toComplex v"
  by (simp add: complex_eq_iff frame_simps algebra_simps)

lemmas toComplex_frame = toComplex_rotate toComplex_fieldToRobot toComplex_robotToField

lemma cis_cancel [simp]: "cis a * (cis (- a) * z) = z" "cis (- a) * (cis a * z) = z"
  by (simp_all add: cis_mult flip: mult.assoc)

section \<open>Round trips\<close>

lemma robotToField_fieldToRobot [simp]: "robotToField p (fieldToRobot p q) = q"
  by (simp add: toComplex_frame flip: toComplex_inj)

lemma fieldToRobot_robotToField [simp]: "fieldToRobot p (robotToField p v) = v"
  by (simp add: toComplex_frame flip: toComplex_inj)

lemma fieldToRobot_eq_iff: "fieldToRobot p q = v \<longleftrightarrow> q = robotToField p v"
  by auto

lemma fieldToRobot_inj [simp]: "fieldToRobot p q = fieldToRobot p q' \<longleftrightarrow> q = q'"
  by (metis robotToField_fieldToRobot)

section \<open>Distances and special poses\<close>

lemma cmod_toComplex: "cmod (toComplex v) = sqrt ((x v)\<^sup>2 + (y v)\<^sup>2)"
  by (simp add: toComplex_def cmod_def)

lemma cmod_fieldToRobot:
  "cmod (toComplex (fieldToRobot p q)) = dist (toComplex q) (toComplex (position p))"
  by (simp add: toComplex_fieldToRobot norm_mult dist_norm)

lemma fieldToRobot_dist:
  "dist (toComplex (fieldToRobot p q)) (toComplex (fieldToRobot p q'))
     = dist (toComplex q) (toComplex q')"
proof -
  have "toComplex (fieldToRobot p q) - toComplex (fieldToRobot p q')
          = cis (- heading p) * (toComplex q - toComplex q')"
    by (simp add: toComplex_fieldToRobot algebra_simps)
  then show ?thesis
    by (simp add: dist_norm norm_mult)
qed

lemma fieldToRobot_dist_anchor:
  "dist (toComplex (fieldToRobot (p\<lparr>position := a\<rparr>) q)) (toComplex (fieldToRobot p q))
     = dist (toComplex a) (toComplex (position p))"
proof -
  have "toComplex (fieldToRobot (p\<lparr>position := a\<rparr>) q) - toComplex (fieldToRobot p q)
          = cis (- heading p) * (toComplex (position p) - toComplex a)"
    by (simp add: toComplex_fieldToRobot algebra_simps)
  then show ?thesis
    by (simp add: dist_norm norm_mult norm_minus_commute)
qed

lemma robotToField_polar:
  "x (robotToField p \<lparr>x = r * cos h, y = r * sin h\<rparr>) = x (position p) + r * cos (heading p + h)"
  "y (robotToField p \<lparr>x = r * cos h, y = r * sin h\<rparr>) = y (position p) + r * sin (heading p + h)"
  by (simp_all add: frame_simps cos_add sin_add algebra_simps)

lemma fieldToRobot_heading_0:
  "fieldToRobot p q = \<lparr>x = x q - x (position p), y = y q - y (position p)\<rparr>" if "heading p = 0"
  using that by (simp add: fieldToRobot_def)

lemma fieldToRobot_position [simp]: "fieldToRobot p (position p) = \<lparr>x = 0, y = 0\<rparr>"
  by (simp add: fieldToRobot_def rotate_def)

lemma fieldToRobot_zero_iff: "fieldToRobot p q = \<lparr>x = 0, y = 0\<rparr> \<longleftrightarrow> q = position p"
  by (metis fieldToRobot_position fieldToRobot_inj)

section \<open>Poses given relative to a pose\<close>

lemma toComplex_movePose:
  "toComplex (position (movePose t p))
     = toComplex (position t) + cis (heading t) * toComplex (position p)"
  by (simp add: movePose_def toComplex_robotToField)

lemma fieldToRobot_movePose [simp]:
  "fieldToRobot (movePose t p) (robotToField t q) = fieldToRobot p q"
proof -
  have turn: "cis (- (heading t + heading p)) * cis (heading t) = cis (- heading p)"
    by (simp add: cis_mult)
  have "toComplex (fieldToRobot (movePose t p) (robotToField t q))
      = (cis (- (heading t + heading p)) * cis (heading t))
          * (toComplex q - toComplex (position p))"
    by (simp add: toComplex_fieldToRobot toComplex_robotToField toComplex_movePose movePose_def
        algebra_simps)
  also have "\<dots> = toComplex (fieldToRobot p q)"
    by (simp only: turn toComplex_fieldToRobot)
  finally show ?thesis by simp
qed

lemma movePose_sel [simp]:
  "position (movePose t p) = robotToField t (position p)"
  "heading (movePose t p) = heading t + heading p"
  by (simp_all add: movePose_def)

lemma fieldToRobot_compose: "fieldToRobot (movePose t p) q = fieldToRobot p (fieldToRobot t q)"
  by (metis fieldToRobot_movePose robotToField_fieldToRobot)

lemma robotToField_origin [simp]: "robotToField p \<lparr>x = 0, y = 0\<rparr> = position p"
  by (rule Vector2f_eqI) (simp_all add: frame_simps)

lemma movePose_origin [simp]: "movePose p \<lparr>position = \<lparr>x = 0, y = 0\<rparr>, heading = 0\<rparr> = p"
  by (simp add: movePose_def)

section \<open>A pose with another heading\<close>

lemma fieldToRobot_turn:
  "fieldToRobot (p\<lparr>heading := heading p + e\<rparr>) q = rotate (- e) (fieldToRobot p q)"
proof -
  have "cis (- (heading p + e)) = cis (- e) * cis (- heading p)"
    by (simp add: cis_mult add.commute)
  then have "toComplex (fieldToRobot (p\<lparr>heading := heading p + e\<rparr>) q)
      = toComplex (rotate (- e) (fieldToRobot p q))"
    by (simp add: toComplex_frame mult.assoc)
  then show ?thesis
    by simp
qed

lemma toComplex_rotate_about:
  "toComplex (robotToField p (rotate a (fieldToRobot p q)))
     = toComplex (position p) + cis a * (toComplex q - toComplex (position p))"
proof -
  have "cis (heading p) * (cis a * (cis (- heading p) * z)) = cis a * z" for z
    by (simp add: mult.left_commute [of "cis (heading p)"])
  then show ?thesis
    by (simp add: toComplex_frame)
qed

lemma robotToField_movePose: "robotToField (movePose t p) v = robotToField t (robotToField p v)"
  by (simp add: toComplex_frame toComplex_movePose movePose_def cis_mult algebra_simps
      flip: toComplex_inj)

end
