(* ===== verification/Units.thy ===== *)
theory Units
  imports Geometry
begin

text \<open>
  What the role function obtains from \<^verbatim>\<open>Behavior/Units.hpp\<close>: the per-cycle
  snapshot \<open>DataSet\<close> it reads and the command primitives it calls.

  \<open>DataSet\<close>, \<open>TeamBallModel\<close> and \<open>BishopPosition\<close> hold exactly the fields that
  the role function reads (\<^verbatim>\<open>d.robotPosition\<close>, \<^verbatim>\<open>d.teamBallModel.position\<close>,
  \<^verbatim>\<open>d.bishopPosition.position\<close>); the robot's pose estimate is a \<open>Pose\<close>, the
  frame-anchoring pose of the transform contract.

  The primitives are collaborators whose bodies are outside the sources; each
  follows its contract. \<open>walkToPose\<close> returns the locomotion command that
  records its five request arguments in the order of the call; of the walk
  modes only \<open>PATH\<close> occurs in the sources, and \<open>DIRECT\<close> stands for the direct,
  positional walk that the specification sets against it. \<open>trackBall\<close> returns
  the ball-tracking request for the snapshot it is called with: where the
  head is pointed is derived from that snapshot by the head subsystem and is
  not modelled, so the request only records the snapshot. \<open>combineHead\<close>
  packages a locomotion command and a head command into an \<open>ActionCommand\<close>
  with two independent sub-fields. \<open>Velocity\<close> is the velocity-limit vector, and
  the constant of the same name is the value of the default construction
  \<^verbatim>\<open>Velocity()\<close>, the zero hint of the specification.
\<close>

section \<open>The snapshot of one decision cycle\<close>

record TeamBallModel =
  position :: Vector2f

record BishopPosition =
  position :: Vector2f

record DataSet =
  robotPosition :: Pose
  teamBallModel :: TeamBallModel
  bishopPosition :: BishopPosition

section \<open>Commands\<close>

datatype WalkMode = PATH | DIRECT

type_synonym Velocity = Vector2f

record LocomotionCommand =
  targetPose :: Pose
  avoidanceBypass :: bool
  walkMode :: WalkMode
  velocityHint :: Velocity
  speedCap :: float

datatype HeadCommand = BallTracking DataSet

record ActionCommand =
  body :: LocomotionCommand
  head :: HeadCommand

section \<open>Primitives\<close>

definition Velocity :: Velocity where
  "Velocity = \<lparr>x = 0, y = 0\<rparr>"

definition walkToPose ::
  "DataSet \<Rightarrow> Pose \<Rightarrow> bool \<Rightarrow> WalkMode \<Rightarrow> Velocity \<Rightarrow> float \<Rightarrow> LocomotionCommand" where
  "walkToPose d pose bypass mode velocity cap =
     \<lparr>targetPose = pose, avoidanceBypass = bypass, walkMode = mode,
      velocityHint = velocity, speedCap = cap\<rparr>"

definition trackBall :: "DataSet \<Rightarrow> HeadCommand" where
  "trackBall d = BallTracking d"

definition combineHead :: "LocomotionCommand \<Rightarrow> HeadCommand \<Rightarrow> ActionCommand" where
  "combineHead cmd h = \<lparr>body = cmd, head = h\<rparr>"

declare Velocity_def [cmd_defs] walkToPose_def [cmd_defs] trackBall_def [cmd_defs]
  combineHead_def [cmd_defs]

section \<open>Composition keeps both commands\<close>

lemma body_combineHead [simp]: "body (combineHead cmd h) = cmd"
  and head_combineHead [simp]: "head (combineHead cmd h) = h"
  by (simp_all add: combineHead_def)

section \<open>The locomotion request is recorded argument by argument\<close>

lemma walkToPose_sel [simp]:
  "targetPose (walkToPose d pose bypass mode velocity cap) = pose"
  "avoidanceBypass (walkToPose d pose bypass mode velocity cap) = bypass"
  "walkMode (walkToPose d pose bypass mode velocity cap) = mode"
  "velocityHint (walkToPose d pose bypass mode velocity cap) = velocity"
  "speedCap (walkToPose d pose bypass mode velocity cap) = cap"
  by (simp_all add: walkToPose_def)

end
