(* ===== verification/Bearing.thy ===== *)
theory Bearing
  imports Bishop_Prelude
begin

text \<open>
  The two-argument arctangent that the role function calls to turn a
  robot-relative displacement into a bearing. \<^verbatim>\<open>std::atan2\<close> belongs to the C++
  library, so \<open>atan2\<close> follows its contract on real numbers: the angle of the
  point \<open>(a, b)\<close> in \<open>(- pi, pi]\<close>, argument order "ordinate first", and the value
  \<open>0\<close> for the zero vector. Signed zeros do not exist in \<^typ>\<open>real\<close>: on the
  negative abscissa the result is \<open>pi\<close>.

  \<open>normalizeAngle\<close> models no code of the sources: it is the reduction of an
  angle to \<open>(- pi, pi]\<close> by full turns, the reference against which the bearing
  that the role function computes in the robot frame is compared with a
  bearing computed in the field frame.

  The lemmas give the range, the polar decomposition that makes the result
  the direction of \<open>(a, b)\<close>, uniqueness (hence agreement with \<^const>\<open>Arg\<close> of the
  complex library), the values on the axes, and the symmetries; for
  \<open>normalizeAngle\<close>, that it yields the one angle of the range with the same
  point on the unit circle.
\<close>

section \<open>Definition\<close>

definition atan2 :: "float \<Rightarrow> float \<Rightarrow> float" where
  "atan2 b a =
     (if 0 < a then arctan (b / a)
      else if a < 0 then (if 0 \<le> b then arctan (b / a) + pi else arctan (b / a) - pi)
      else if 0 < b then pi / 2
      else if b < 0 then - (pi / 2)
      else 0)"

definition normalizeAngle :: "float \<Rightarrow> float" where
  "normalizeAngle a = a - 2 * pi * of_int \<lceil>(a - pi) / (2 * pi)\<rceil>"

section \<open>Values on the axes\<close>

lemma atan2_0_0 [simp]: "atan2 0 0 = 0"
  by (simp add: atan2_def)

lemma atan2_ahead [simp]: "atan2 0 a = 0" if "0 < a"
  using that by (simp add: atan2_def)

lemma atan2_behind [simp]: "atan2 0 a = pi" if "a < 0"
  using that by (simp add: atan2_def)

lemma atan2_left [simp]: "atan2 b 0 = pi / 2" if "0 < b"
  using that by (simp add: atan2_def)

lemma atan2_right [simp]: "atan2 b 0 = - (pi / 2)" if "b < 0"
  using that by (simp add: atan2_def)

section \<open>Range\<close>

lemma atan2_range: "- pi < atan2 b a \<and> atan2 b a \<le> pi"
proof -
  note arctan_slope_bounds [of b a]
  moreover have "arctan (b / a) \<le> 0" if "a < 0" "0 \<le> b"
    using that by (simp add: divide_nonneg_neg)
  moreover have "0 < arctan (b / a)" if "a < 0" "b < 0"
    using that by (simp add: divide_neg_neg)
  ultimately show ?thesis
    using pi_gt_zero by (auto simp: atan2_def)
qed

lemmas atan2_gt = atan2_range [THEN conjunct1]
  and atan2_le = atan2_range [THEN conjunct2]

section \<open>Polar decomposition\<close>

lemma cos_atan2: "cos (atan2 b a) = a / sqrt (a\<^sup>2 + b\<^sup>2)" if "a \<noteq> 0 \<or> b \<noteq> 0"
  using that by (auto simp: atan2_def cos_arctan_div)

lemma sin_atan2: "sin (atan2 b a) = b / sqrt (a\<^sup>2 + b\<^sup>2)" if "a \<noteq> 0 \<or> b \<noteq> 0"
  using that by (auto simp: atan2_def sin_arctan_div)

lemma atan2_polar:
  "sqrt (a\<^sup>2 + b\<^sup>2) * cos (atan2 b a) = a" "sqrt (a\<^sup>2 + b\<^sup>2) * sin (atan2 b a) = b"
proof -
  consider "a = 0 \<and> b = 0" | "a \<noteq> 0 \<or> b \<noteq> 0" by blast
  then have "sqrt (a\<^sup>2 + b\<^sup>2) * cos (atan2 b a) = a \<and> sqrt (a\<^sup>2 + b\<^sup>2) * sin (atan2 b a) = b"
  proof cases
    case 1
    then show ?thesis by simp
  next
    case 2
    with hyp_pos [OF 2] show ?thesis
      by (simp add: cos_atan2 sin_atan2)
  qed
  then show "sqrt (a\<^sup>2 + b\<^sup>2) * cos (atan2 b a) = a" "sqrt (a\<^sup>2 + b\<^sup>2) * sin (atan2 b a) = b"
    by simp_all
qed

section \<open>Agreement with the argument of a complex number\<close>

lemma sgn_Complex_atan2: "sgn (Complex a b) = cis (atan2 b a)" if "a \<noteq> 0 \<or> b \<noteq> 0"
  by (simp add: complex_eq_iff Complex.sgn_eq cos_atan2 [OF that] sin_atan2 [OF that] cmod_def)

lemma atan2_Arg: "atan2 b a = Arg (Complex a b)"
proof (cases "a = 0 \<and> b = 0")
  case True
  then show ?thesis
    by (simp add: Arg_zero Complex_eq_0 [THEN iffD2])
next
  case False
  then have "sgn (Complex a b) = cis (atan2 b a)"
    by (intro sgn_Complex_atan2) simp
  then show ?thesis
    using atan2_range [of b a] by (intro cis_Arg_unique [symmetric]) auto
qed

lemma atan2_unique: "atan2 (r * sin t) (r * cos t) = t" if "0 < r" "- pi < t" "t \<le> pi"
proof -
  have "Complex (r * cos t) (r * sin t) = of_real r * cis t"
    by (simp add: complex_eq_iff)
  with \<open>0 < r\<close> have "sgn (Complex (r * cos t) (r * sin t)) = cis t"
    by (simp add: sgn_mult sgn_of_real)
  with that(2,3) show ?thesis
    by (simp add: atan2_Arg cis_Arg_unique)
qed

section \<open>Symmetries\<close>

lemma atan2_scale: "atan2 (k * b) (k * a) = atan2 b a" if "0 < k"
  using that by (simp add: atan2_def zero_less_mult_iff mult_less_0_iff zero_le_mult_iff)

lemma atan2_mirror: "atan2 (- b) a = - atan2 b a" if "b \<noteq> 0 \<or> 0 < a"
  using that by (auto simp: atan2_def arctan_minus)

lemma atan2_mirror_ahead: "atan2 (- b) a = - atan2 b a" if "b \<noteq> 0 \<or> 0 \<le> a"
  using that atan2_mirror [of b a] by (cases "a = 0 \<and> b = 0") auto

lemma atan2_behind_left: "atan2 b a = pi - arctan (b / - a)" if "a < 0" and "0 \<le> b"
  using that by (simp add: atan2_def arctan_minus)

lemma atan2_pos_iff: "0 < atan2 b a \<longleftrightarrow> 0 < b \<or> (b = 0 \<and> a < 0)"
proof -
  note arctan_slope_bounds [of b a]
  moreover have "0 < arctan (b / a) \<longleftrightarrow> 0 < b" if "0 < a"
    using that by (simp add: zero_less_divide_iff)
  ultimately show ?thesis
    using pi_gt_zero by (auto simp: atan2_def)
qed

lemma atan2_neg_iff: "atan2 b a < 0 \<longleftrightarrow> b < 0"
proof -
  note arctan_slope_bounds [of b a]
  moreover have "arctan (b / a) < 0 \<longleftrightarrow> b < 0" if "0 < a"
    using that by (simp add: divide_less_0_iff)
  moreover have "arctan (b / a) \<le> 0" if "a < 0" "0 \<le> b"
    using that by (simp add: divide_nonneg_neg)
  ultimately show ?thesis
    using pi_gt_zero by (auto simp: atan2_def)
qed

lemma atan2_eq_0_iff: "atan2 b a = 0 \<longleftrightarrow> b = 0 \<and> 0 \<le> a"
  using atan2_pos_iff [of b a] atan2_neg_iff [of b a] by (auto simp: not_less)

lemma atan2_field:
  "cis (atan2 b a - h) = cis (- h) * sgn (Complex a b)" if "a \<noteq> 0 \<or> b \<noteq> 0"
  by (simp add: sgn_Complex_atan2 [OF that] cis_mult)

section \<open>Normalisation of an angle\<close>

lemma normalizeAngle_range: "- pi < normalizeAngle a \<and> normalizeAngle a \<le> pi"
proof -
  define k where "k = \<lceil>(a - pi) / (2 * pi)\<rceil>"
  have "of_int k - 1 < (a - pi) / (2 * pi)" "(a - pi) / (2 * pi) \<le> of_int k"
    unfolding k_def by linarith+
  then have "(of_int k - 1) * (2 * pi) < a - pi" "a - pi \<le> of_int k * (2 * pi)"
    using pi_gt_zero by (simp_all add: pos_less_divide_eq pos_divide_le_eq)
  then show ?thesis
    unfolding normalizeAngle_def k_def [symmetric] by (simp add: algebra_simps)
qed

lemma cis_turns [simp]: "cis (a + 2 * pi * of_int k) = cis a"
  by (simp flip: cis_mult)

lemma cis_normalizeAngle [simp]: "cis (normalizeAngle a) = cis a"
  using cis_turns [of a "- \<lceil>(a - pi) / (2 * pi)\<rceil>"] by (simp add: normalizeAngle_def)

lemma normalizeAngle_Arg: "normalizeAngle a = Arg (cis a)"
  using normalizeAngle_range [of a] by (intro cis_Arg_unique [symmetric]) simp_all

lemma normalizeAngle_unique: "normalizeAngle a = t" if "cis t = cis a" "- pi < t" "t \<le> pi"
  unfolding normalizeAngle_Arg using that by (intro cis_Arg_unique) simp_all

lemma normalizeAngle_id: "normalizeAngle a = a" if "- pi < a" "a \<le> pi"
  using that by (intro normalizeAngle_unique) simp_all

lemma normalizeAngle_idem [simp]: "normalizeAngle (normalizeAngle a) = normalizeAngle a"
  using normalizeAngle_range [of a] by (intro normalizeAngle_id) simp_all

lemma normalizeAngle_turns [simp]: "normalizeAngle (a + 2 * pi * of_int k) = normalizeAngle a"
  using normalizeAngle_range [of a] by (intro normalizeAngle_unique) simp_all

lemma normalizeAngle_eq_iff: "normalizeAngle a = normalizeAngle b \<longleftrightarrow> cis a = cis b"
  by (metis cis_normalizeAngle normalizeAngle_Arg)

lemma normalizeAngle_abs_le: "\<bar>normalizeAngle a\<bar> \<le> \<bar>a\<bar>"
proof (cases "- pi < a \<and> a \<le> pi")
  case True
  then show ?thesis
    by (simp add: normalizeAngle_id)
next
  case False
  with normalizeAngle_range [of a] show ?thesis
    by auto
qed

lemma normalizeAngle_diff_chord: "\<bar>normalizeAngle (a - b)\<bar> \<le> pi / 2 * dist (cis a) (cis b)"
proof -
  have "cis (a - b) - 1 = (cis a - cis b) * cis (- b)"
    by (simp add: algebra_simps cis_mult)
  then have "cmod (cis (normalizeAngle (a - b)) - 1) = dist (cis a) (cis b)"
    by (simp add: norm_mult dist_norm)
  with abs_le_chord [of "normalizeAngle (a - b)"] normalizeAngle_range [of "a - b"]
  show ?thesis
    by simp
qed

lemma normalizeAngle_diff_bound:
  "\<bar>normalizeAngle (a - b)\<bar> \<le> pi * q" if "dist (cis a) (cis b) \<le> 2 * q"
proof -
  have "\<bar>normalizeAngle (a - b)\<bar> \<le> pi / 2 * dist (cis a) (cis b)"
    by (rule normalizeAngle_diff_chord)
  also have "\<dots> \<le> pi / 2 * (2 * q)"
    using that by (intro mult_left_mono) simp_all
  finally show ?thesis
    by simp
qed

lemma abs_le_abs_chord:
  "\<bar>s\<bar> \<le> \<bar>t\<bar> + pi * q" if "- pi < s" "s \<le> pi" "dist (cis s) (cis t) \<le> 2 * q"
proof -
  have "cis (normalizeAngle (s - t) + t) = cis (normalizeAngle (s - t)) * cis t"
    by (simp only: cis_mult)
  then have "normalizeAngle (normalizeAngle (s - t) + t) = s"
    using that by (intro normalizeAngle_unique) (simp_all add: cis_mult)
  then have "\<bar>s\<bar> \<le> \<bar>normalizeAngle (s - t)\<bar> + \<bar>t\<bar>"
    using normalizeAngle_abs_le [of "normalizeAngle (s - t) + t"] by simp
  with normalizeAngle_diff_bound [OF that(3)] show ?thesis
    by simp
qed

lemma normalizeAngle_atan2 [simp]: "normalizeAngle (atan2 b a) = atan2 b a"
  using atan2_range [of b a] by (intro normalizeAngle_id) simp_all

end
