(* ===== verification/Bishop.thy ===== *)
theory Bishop
  imports Units Bearing
begin

text \<open>
  The role function \<^verbatim>\<open>bishop\<close> of \<^verbatim>\<open>Roles/Bishop.hpp\<close>, one definition per
  statement: the three locals \<open>relBallPosition\<close>, \<open>relBallAngle\<close> and
  \<open>relPlayingPose\<close>, and the returned command. The function reads its snapshot
  and returns a value; it keeps no state.

  The lemmas say what each local means: the ball and the playing position are
  expressed in the robot frame (changing back to the field frame recovers the
  inputs, distances are kept), the angle is the normalised bearing of the ball
  and really points at it, it is the bearing that one obtains in the field
  frame by subtracting the robot's heading and reducing by full turns, the
  pose stands where the role assignment says and faces where the ball is,
  errors of the positions are passed on without amplification except by the
  nearness of the ball, and the command carries that pose.

  \<open>float\<close> is read as a real number here. Two statements below depend on what
  \<open>atan2\<close> returns where the reals and IEEE arithmetic part ways, and say so:
  the clause on a ball straight behind the robot in \<open>relBallAngle_sign\<close> (a
  negative zero ordinate gives \<open>- pi\<close> in C++) and the value at the zero vector
  in \<open>relBallAngle_Arg\<close> and \<open>relBallAngle_zero_iff\<close>.
\<close>

section \<open>The function\<close>

definition relBallPosition :: "DataSet \<Rightarrow> Vector2f" where
  "relBallPosition d =
     fieldToRobot (robotPosition d) (TeamBallModel.position (teamBallModel d))"

definition relBallAngle :: "DataSet \<Rightarrow> float" where
  "relBallAngle d = atan2 (y (relBallPosition d)) (x (relBallPosition d))"

definition relPlayingPose :: "DataSet \<Rightarrow> Pose" where
  "relPlayingPose d =
     \<lparr>Pose.position =
        fieldToRobot (robotPosition d) (BishopPosition.position (bishopPosition d)),
      heading = relBallAngle d\<rparr>"

definition bishop :: "DataSet \<Rightarrow> ActionCommand" where
  "bishop d =
     combineHead (walkToPose d (relPlayingPose d) False PATH Velocity 5) (trackBall d)"

declare relBallPosition_def [bishop_defs] relBallAngle_def [bishop_defs]
  relPlayingPose_def [bishop_defs] bishop_def [bishop_defs]

section \<open>Selectors of the locals\<close>

lemma position_relPlayingPose [simp]:
  "Pose.position (relPlayingPose d) =
     fieldToRobot (robotPosition d) (BishopPosition.position (bishopPosition d))"
  and heading_relPlayingPose [simp]: "heading (relPlayingPose d) = relBallAngle d"
  by (simp_all add: relPlayingPose_def)

lemma body_bishop: "body (bishop d) = walkToPose d (relPlayingPose d) False PATH Velocity 5"
  and head_bishop: "head (bishop d) = trackBall d"
  by (simp_all add: bishop_def)

lemma targetPose_bishop [simp]: "targetPose (body (bishop d)) = relPlayingPose d"
  by (simp add: body_bishop)

lemma relBallPosition_zero_iff:
  "relBallPosition d = \<lparr>x = 0, y = 0\<rparr>
     \<longleftrightarrow> TeamBallModel.position (teamBallModel d) = Pose.position (robotPosition d)"
  by (simp add: relBallPosition_def fieldToRobot_zero_iff)

lemma relBallPosition_polar:
  "relBallPosition d =
     \<lparr>x = sqrt ((x (relBallPosition d))\<^sup>2 + (y (relBallPosition d))\<^sup>2) * cos (relBallAngle d),
      y = sqrt ((x (relBallPosition d))\<^sup>2 + (y (relBallPosition d))\<^sup>2) * sin (relBallAngle d)\<rparr>"
  by (simp add: relBallAngle_def atan2_polar)

lemma relBallPosition_nonzero:
  "0 < sqrt ((x (relBallPosition d))\<^sup>2 + (y (relBallPosition d))\<^sup>2)"
  if "TeamBallModel.position (teamBallModel d) \<noteq> Pose.position (robotPosition d)"
proof -
  from that have "relBallPosition d \<noteq> \<lparr>x = 0, y = 0\<rparr>"
    by (simp add: relBallPosition_zero_iff)
  then have "x (relBallPosition d) \<noteq> 0 \<or> y (relBallPosition d) \<noteq> 0"
    by (metis Vector2f_eta)
  then show ?thesis
    by (rule hyp_pos)
qed

lemma cis_relBallAngle:
  "cis (relBallAngle d) = sgn (toComplex (relBallPosition d))"
  if "TeamBallModel.position (teamBallModel d) \<noteq> Pose.position (robotPosition d)"
proof -
  have "x (relBallPosition d) \<noteq> 0 \<or> y (relBallPosition d) \<noteq> 0"
    using relBallPosition_nonzero [OF that] by auto
  then show ?thesis
    by (simp add: relBallAngle_def sgn_Complex_atan2 toComplex_def)
qed

lemma cis_field_heading:
  "cis (heading (robotPosition d) + relBallAngle d)
     = sgn (toComplex (TeamBallModel.position (teamBallModel d))
              - toComplex (Pose.position (robotPosition d)))"
  if "TeamBallModel.position (teamBallModel d) \<noteq> Pose.position (robotPosition d)"
proof -
  have "cis (relBallAngle d)
      = cis (- heading (robotPosition d))
          * sgn (toComplex (TeamBallModel.position (teamBallModel d))
                   - toComplex (Pose.position (robotPosition d)))"
    using that by (simp add: cis_relBallAngle relBallPosition_def toComplex_fieldToRobot sgn_mult)
  then show ?thesis
    by (simp flip: cis_mult)
qed

lemma dist_cis_shift: "dist (cis (h + s)) (cis (h + t)) = dist (cis s) (cis t)"
proof -
  have "cis (h + s) - cis (h + t) = cis h * (cis s - cis t)"
    by (simp add: algebra_simps flip: cis_mult)
  then show ?thesis
    by (simp add: dist_norm norm_mult)
qed

section \<open>The ball in the robot frame\<close>

text \<open>
  C7. \<open>relBallPosition\<close> is the ball in the robot frame: changing it back to the
  field frame, anchored at the robot's pose estimate, gives the team ball
  position that was read, for every pose and every ball; and its length is
  the distance on the field between the robot and the ball, so that the
  change of frame neither stretches nor shrinks.
\<close>

theorem relBallPosition_roundtrip:
  "robotToField (robotPosition d) (relBallPosition d) = TeamBallModel.position (teamBallModel d)
   \<and> sqrt ((x (relBallPosition d))\<^sup>2 + (y (relBallPosition d))\<^sup>2)
     = sqrt ((x (TeamBallModel.position (teamBallModel d)) - x (Pose.position (robotPosition d)))\<^sup>2
           + (y (TeamBallModel.position (teamBallModel d)) - y (Pose.position (robotPosition d)))\<^sup>2)"
  unfolding relBallPosition_def by (rule conjI) (simp, simp add: frame_simps rot_norm)

text \<open>
  For a robot whose heading is zero the change of frame is the translation
  alone: \<open>relBallPosition\<close> is the ball position minus the robot position,
  exactly.
\<close>

lemma relBallPosition_heading_zero:
  "relBallPosition d =
     \<lparr>x = x (TeamBallModel.position (teamBallModel d)) - x (Pose.position (robotPosition d)),
      y = y (TeamBallModel.position (teamBallModel d)) - y (Pose.position (robotPosition d))\<rparr>"
  if "heading (robotPosition d) = 0"
  using that unfolding relBallPosition_def by (simp add: fieldToRobot_heading_0)

section \<open>The bearing of the ball\<close>

text \<open>
  C4. \<open>relBallAngle\<close> is a normalised angle: greater than \<open>- pi\<close> and at most
  \<open>pi\<close>, whatever the snapshot holds.
\<close>

theorem relBallAngle_range: "- pi < relBallAngle d \<and> relBallAngle d \<le> pi"
  unfolding relBallAngle_def by (rule atan2_range)

text \<open>
  C15. \<open>relBallAngle\<close> is exact: when the ball lies at distance \<open>r > 0\<close> in the
  direction \<open>t\<close> of the robot frame, with \<open>t\<close> normalised, the computed bearing is
  \<open>t\<close> itself.
\<close>

theorem relBallAngle_unique:
  assumes "TeamBallModel.position (teamBallModel d)
             = robotToField (robotPosition d) \<lparr>x = r * cos t, y = r * sin t\<rparr>"
    and "0 < r" and "- pi < t" and "t \<le> pi"
  shows "relBallAngle d = t"
  using assms unfolding relBallAngle_def relBallPosition_def by (simp add: atan2_unique)

theorem relBallAngle_unique_witness:
  "relBallAngle \<lparr>robotPosition = \<lparr>Pose.position = \<lparr>x = 1, y = 1\<rparr>, heading = pi / 2\<rparr>,
                 teamBallModel = \<lparr>TeamBallModel.position = \<lparr>x = - 1, y = 1\<rparr>\<rparr>,
                 bishopPosition = \<lparr>BishopPosition.position = \<lparr>x = 0, y = 0\<rparr>\<rparr>\<rparr> = pi / 2"
  using relBallAngle_unique [of
      "\<lparr>robotPosition = \<lparr>Pose.position = \<lparr>x = 1, y = 1\<rparr>, heading = pi / 2\<rparr>,
        teamBallModel = \<lparr>TeamBallModel.position = \<lparr>x = - 1, y = 1\<rparr>\<rparr>,
        bishopPosition = \<lparr>BishopPosition.position = \<lparr>x = 0, y = 0\<rparr>\<rparr>\<rparr>" 2 "pi / 2"]
  by (simp add: geom_defs)

text \<open>
  C16. \<open>relBallAngle\<close> agrees with the reference definition of the direction of a
  point: it is the argument \<open>Arg\<close> of \<open>relBallPosition\<close> read as a complex number,
  the zero vector included.
\<close>

theorem relBallAngle_Arg: "relBallAngle d = Arg (toComplex (relBallPosition d))"
  unfolding relBallAngle_def by (simp add: atan2_Arg toComplex_def)

text \<open>
  C9. \<open>relBallAngle\<close> agrees with the bearing computed in the field frame: when
  the ball is not at the robot's position, it is the direction from the robot
  to the ball on the field, minus the robot's heading, reduced to \<open>(- pi, pi]\<close>
  by full turns. The change of frame makes the reduction unnecessary.
\<close>

theorem relBallAngle_field_bearing:
  "relBallAngle d
     = normalizeAngle
         (atan2 (y (TeamBallModel.position (teamBallModel d)) - y (Pose.position (robotPosition d)))
                (x (TeamBallModel.position (teamBallModel d)) - x (Pose.position (robotPosition d)))
          - heading (robotPosition d))"
  if "TeamBallModel.position (teamBallModel d) \<noteq> Pose.position (robotPosition d)"
proof -
  define a b where "a = x (TeamBallModel.position (teamBallModel d)) - x (Pose.position (robotPosition d))"
    and "b = y (TeamBallModel.position (teamBallModel d)) - y (Pose.position (robotPosition d))"
  have nz: "a \<noteq> 0 \<or> b \<noteq> 0"
    using that unfolding a_def b_def by (auto intro: Vector2f_eqI)
  have "toComplex (relBallPosition d) = cis (- heading (robotPosition d)) * Complex a b"
    unfolding relBallPosition_def a_def b_def
    by (simp add: complex_eq_iff frame_simps algebra_simps)
  then have "cis (relBallAngle d) = cis (atan2 b a - heading (robotPosition d))"
    using that by (simp add: cis_relBallAngle sgn_mult atan2_field [OF nz])
  moreover have "- pi < relBallAngle d" "relBallAngle d \<le> pi"
    unfolding relBallAngle_def by (simp_all add: atan2_range)
  ultimately show ?thesis
    unfolding a_def b_def by (intro normalizeAngle_unique [symmetric]) simp_all
qed

theorem relBallAngle_field_bearing_witness:
  "relBallAngle \<lparr>robotPosition = \<lparr>Pose.position = \<lparr>x = 0, y = 0\<rparr>, heading = pi\<rparr>,
                 teamBallModel = \<lparr>TeamBallModel.position = \<lparr>x = 0, y = - 1\<rparr>\<rparr>,
                 bishopPosition = \<lparr>BishopPosition.position = \<lparr>x = 0, y = 2\<rparr>\<rparr>\<rparr> = pi / 2"
  using relBallAngle_field_bearing [of
      "\<lparr>robotPosition = \<lparr>Pose.position = \<lparr>x = 0, y = 0\<rparr>, heading = pi\<rparr>,
        teamBallModel = \<lparr>TeamBallModel.position = \<lparr>x = 0, y = - 1\<rparr>\<rparr>,
        bishopPosition = \<lparr>BishopPosition.position = \<lparr>x = 0, y = 2\<rparr>\<rparr>\<rparr>"]
  by (simp add: normalizeAngle_def)

text \<open>
  The bearing is zero exactly when the ball is on the robot's forward axis,
  not behind it: at the robot's own position or straight ahead.
\<close>

lemma relBallAngle_zero_iff:
  "relBallAngle d = 0 \<longleftrightarrow> y (relBallPosition d) = 0 \<and> 0 \<le> x (relBallPosition d)"
  unfolding relBallAngle_def by (simp add: atan2_eq_0_iff)

text \<open>
  C19. The sign of the bearing tells the side of the ball: negative exactly
  when the ball is to the right of the forward axis (negative ordinate in the
  robot frame), positive exactly when it is to the left or straight behind.
\<close>

theorem relBallAngle_sign:
  "(relBallAngle d < 0 \<longleftrightarrow> y (relBallPosition d) < 0)
   \<and> (0 < relBallAngle d \<longleftrightarrow> 0 < y (relBallPosition d)
         \<or> (y (relBallPosition d) = 0 \<and> x (relBallPosition d) < 0))"
  unfolding relBallAngle_def by (simp add: atan2_neg_iff atan2_pos_iff)

section \<open>The target pose\<close>

text \<open>
  C1. The target pose faces the ball: the heading of \<open>relPlayingPose\<close> is the
  direction of \<open>relBallPosition\<close>, that is, the ball lies at its distance along
  the ray that leaves the robot under this heading (abscissa distance times
  cosine, ordinate distance times sine).
\<close>

theorem relPlayingPose_faces_ball:
  "sqrt ((x (relBallPosition d))\<^sup>2 + (y (relBallPosition d))\<^sup>2) * cos (heading (relPlayingPose d))
     = x (relBallPosition d)
   \<and> sqrt ((x (relBallPosition d))\<^sup>2 + (y (relBallPosition d))\<^sup>2) * sin (heading (relPlayingPose d))
     = y (relBallPosition d)"
  unfolding relPlayingPose_def relBallAngle_def by (simp add: atan2_polar)

text \<open>
  C2. The target pose stands at the assigned position: the position of
  \<open>relPlayingPose\<close>, changed back to the field frame, is the bishop position of
  the snapshot.
\<close>

theorem relPlayingPose_stands_at_bishopPosition:
  "robotToField (robotPosition d) (Pose.position (relPlayingPose d))
     = BishopPosition.position (bishopPosition d)"
  unfolding relPlayingPose_def by simp

text \<open>
  \<open>relPlayingPose\<close> is a well-formed pose: its heading is normalised to the
  half-open interval from \<open>- pi\<close> to \<open>pi\<close>.
\<close>

lemma relPlayingPose_wf: "wf_Pose (relPlayingPose d)"
  unfolding relPlayingPose_def relBallAngle_def by (simp add: wf_Pose_def atan2_range)

text \<open>
  C14. Where to stand and where to face are decoupled: the position of
  \<open>relPlayingPose\<close> does not change when the ball estimate is replaced, and its
  heading does not change when the assigned position is replaced.
\<close>

theorem relPlayingPose_decoupled:
  "Pose.position (relPlayingPose (d\<lparr>teamBallModel := b\<rparr>)) = Pose.position (relPlayingPose d)
   \<and> heading (relPlayingPose (d\<lparr>bishopPosition := p\<rparr>)) = heading (relPlayingPose d)"
  unfolding relPlayingPose_def relBallAngle_def relBallPosition_def by simp

text \<open>
  C17. The position of \<open>relPlayingPose\<close> is the origin of the robot frame exactly
  when the assigned position is the robot's own position: a robot that has
  arrived is asked to turn on the spot.
\<close>

theorem relPlayingPose_at_target_iff:
  "Pose.position (relPlayingPose d) = \<lparr>x = 0, y = 0\<rparr>
     \<longleftrightarrow> BishopPosition.position (bishopPosition d) = Pose.position (robotPosition d)"
  unfolding relPlayingPose_def by (simp add: fieldToRobot_zero_iff)

text \<open>
  C23. Errors of the position estimates are passed on unchanged, neither
  amplified nor damped: replacing the assigned position moves the position of
  \<open>relPlayingPose\<close> by the distance between the two assigned positions, and
  replacing the position of the robot's pose estimate (heading kept) moves it
  by the distance between the two robot positions. The heading of
  \<open>relPlayingPose\<close> is moved by an error of the robot's position as by an error
  of the ball: on the unit circle by at most twice the distance between the
  two robot positions, divided by the distance between the robot and the ball.
\<close>

theorem relPlayingPose_position_error:
  "dist (toComplex (Pose.position (relPlayingPose
            (d\<lparr>bishopPosition := \<lparr>BishopPosition.position = q\<rparr>\<rparr>))))
        (toComplex (Pose.position (relPlayingPose d)))
     = dist (toComplex q) (toComplex (BishopPosition.position (bishopPosition d)))
   \<and> dist (toComplex (Pose.position (relPlayingPose
            (d\<lparr>robotPosition := (robotPosition d)\<lparr>Pose.position := a\<rparr>\<rparr>))))
        (toComplex (Pose.position (relPlayingPose d)))
     = dist (toComplex a) (toComplex (Pose.position (robotPosition d)))
   \<and> (TeamBallModel.position (teamBallModel d) \<noteq> Pose.position (robotPosition d)
        \<and> TeamBallModel.position (teamBallModel d) \<noteq> a
      \<longrightarrow> dist (cis (heading (relPlayingPose
                  (d\<lparr>robotPosition := (robotPosition d)\<lparr>Pose.position := a\<rparr>\<rparr>))))
               (cis (heading (relPlayingPose d)))
          \<le> 2 * dist (toComplex a) (toComplex (Pose.position (robotPosition d)))
              / dist (toComplex (TeamBallModel.position (teamBallModel d)))
                     (toComplex (Pose.position (robotPosition d))))"
proof (intro conjI impI)
  let ?d = "d\<lparr>robotPosition := (robotPosition d)\<lparr>Pose.position := a\<rparr>\<rparr>"
  assume apart: "TeamBallModel.position (teamBallModel d) \<noteq> Pose.position (robotPosition d)
    \<and> TeamBallModel.position (teamBallModel d) \<noteq> a"
  have "dist (cis (relBallAngle ?d)) (cis (relBallAngle d))
      = dist (cis (heading (robotPosition d) + relBallAngle ?d))
             (cis (heading (robotPosition d) + relBallAngle d))"
    by (simp only: dist_cis_shift)
  also have "\<dots> = dist (sgn (toComplex (TeamBallModel.position (teamBallModel d)) - toComplex a))
      (sgn (toComplex (TeamBallModel.position (teamBallModel d))
              - toComplex (Pose.position (robotPosition d))))"
    using apart cis_field_heading [of d] cis_field_heading [of ?d] by simp
  also have "\<dots> \<le> 2 * dist (toComplex a) (toComplex (Pose.position (robotPosition d)))
              / dist (toComplex (TeamBallModel.position (teamBallModel d)))
                     (toComplex (Pose.position (robotPosition d)))"
    using apart by (intro direction_lag) simp_all
  finally show "dist (cis (heading (relPlayingPose ?d))) (cis (heading (relPlayingPose d)))
          \<le> 2 * dist (toComplex a) (toComplex (Pose.position (robotPosition d)))
              / dist (toComplex (TeamBallModel.position (teamBallModel d)))
                     (toComplex (Pose.position (robotPosition d)))"
    unfolding relPlayingPose_def by simp
qed (simp_all add: relPlayingPose_def fieldToRobot_dist fieldToRobot_dist_anchor)

theorem relPlayingPose_position_error_witness:
  "dist (cis (heading (relPlayingPose
            \<lparr>robotPosition = \<lparr>Pose.position = \<lparr>x = 0, y = 1\<rparr>, heading = 0\<rparr>,
             teamBallModel = \<lparr>TeamBallModel.position = \<lparr>x = 4, y = 0\<rparr>\<rparr>,
             bishopPosition = \<lparr>BishopPosition.position = \<lparr>x = 1, y = 1\<rparr>\<rparr>\<rparr>)))
        (cis (heading (relPlayingPose
            \<lparr>robotPosition = \<lparr>Pose.position = \<lparr>x = 0, y = 0\<rparr>, heading = 0\<rparr>,
             teamBallModel = \<lparr>TeamBallModel.position = \<lparr>x = 4, y = 0\<rparr>\<rparr>,
             bishopPosition = \<lparr>BishopPosition.position = \<lparr>x = 1, y = 1\<rparr>\<rparr>\<rparr>)))
     \<le> 1 / 2"
  using relPlayingPose_position_error [where a = "\<lparr>x = 0, y = 1\<rparr>" and d =
       "\<lparr>robotPosition = \<lparr>Pose.position = \<lparr>x = 0, y = 0\<rparr>, heading = 0\<rparr>,
         teamBallModel = \<lparr>TeamBallModel.position = \<lparr>x = 4, y = 0\<rparr>\<rparr>,
         bishopPosition = \<lparr>BishopPosition.position = \<lparr>x = 1, y = 1\<rparr>\<rparr>\<rparr>"]
  by (simp add: dist_norm toComplex_def cmod_def)

section \<open>The command\<close>

text \<open>
  C3. In the field frame the commanded heading is the direction from the robot
  to the ball: the robot's heading plus the heading of the target pose of
  \<open>bishop\<close> is an angle under which the ball is seen from the robot's position,
  at the distance of \<open>relBallPosition\<close>.
\<close>

theorem bishop_field_heading:
  "x (TeamBallModel.position (teamBallModel d)) - x (Pose.position (robotPosition d))
     = sqrt ((x (relBallPosition d))\<^sup>2 + (y (relBallPosition d))\<^sup>2)
         * cos (heading (robotPosition d) + heading (targetPose (body (bishop d))))
   \<and> y (TeamBallModel.position (teamBallModel d)) - y (Pose.position (robotPosition d))
     = sqrt ((x (relBallPosition d))\<^sup>2 + (y (relBallPosition d))\<^sup>2)
         * sin (heading (robotPosition d) + heading (targetPose (body (bishop d))))"
proof -
  define r where "r = sqrt ((x (relBallPosition d))\<^sup>2 + (y (relBallPosition d))\<^sup>2)"
  have "TeamBallModel.position (teamBallModel d) = robotToField (robotPosition d) (relBallPosition d)"
    unfolding relBallPosition_def by simp
  also have "relBallPosition d = \<lparr>x = r * cos (relBallAngle d), y = r * sin (relBallAngle d)\<rparr>"
    unfolding r_def by (rule relBallPosition_polar)
  finally show ?thesis
    unfolding r_def [symmetric] bishop_def relPlayingPose_def by (simp add: robotToField_polar)
qed

end
