(* ===== verification/Frames.thy ===== *)
theory Frames
  imports Bishop
begin

text \<open>
  The frame discipline of the role function, as a type system. Every point
  that the function handles is given either in the field frame or in the robot
  frame, and the two must not be mixed without a change of frame. \<open>PointExpr\<close>,
  \<open>AngleExpr\<close> and \<open>PoseExpr\<close> are the expressions that can be built from the three
  inputs of the snapshot with the two changes of frame, the bearing and the
  pose constructor; \<open>frameOfPoint\<close>, \<open>frameOfAngle\<close> and \<open>frameOfPose\<close> assign a frame
  to the expressions that respect the discipline and \<open>None\<close> to the others;
  \<open>evalPoint\<close>, \<open>evalAngle\<close> and \<open>evalPose\<close> give their values in a snapshot.
  \<open>moveDataSet t\<close> re-expresses a snapshot in another field frame: every field
  point \<open>q\<close> becomes \<open>robotToField t q\<close> and every field pose \<open>p\<close> becomes
  \<open>movePose t p\<close>. \<open>mirrorDataSet\<close> re-expresses it in the field frame with the
  opposite orientation: ordinates and headings change their sign.

  The lemmas show that the typing is sound (the value of a robot-frame
  expression does not depend on the choice of the field frame, the value of a
  field-frame expression moves with it), that the target pose of \<open>bishop\<close> is the
  value of a robot-frame expression, and that the variants which skip a change
  of frame are rejected.
\<close>

section \<open>Expressions and their frames\<close>

datatype Frame = FieldFrame | RobotFrame

datatype PointExpr =
  BallPosition | AssignedPosition | RobotPosition | ToRobot PointExpr | ToField PointExpr

datatype AngleExpr = BearingOf PointExpr | RobotHeading

datatype PoseExpr = MkPose PointExpr AngleExpr

fun frameOfPoint :: "PointExpr \<Rightarrow> Frame option" where
  "frameOfPoint BallPosition = Some FieldFrame"
| "frameOfPoint AssignedPosition = Some FieldFrame"
| "frameOfPoint RobotPosition = Some FieldFrame"
| "frameOfPoint (ToRobot e) = (if frameOfPoint e = Some FieldFrame then Some RobotFrame else None)"
| "frameOfPoint (ToField e) = (if frameOfPoint e = Some RobotFrame then Some FieldFrame else None)"

fun frameOfAngle :: "AngleExpr \<Rightarrow> Frame option" where
  "frameOfAngle (BearingOf e) = (if frameOfPoint e = Some RobotFrame then Some RobotFrame else None)"
| "frameOfAngle RobotHeading = Some FieldFrame"

fun frameOfPose :: "PoseExpr \<Rightarrow> Frame option" where
  "frameOfPose (MkPose e a) = (if frameOfPoint e = frameOfAngle a then frameOfPoint e else None)"

section \<open>Values\<close>

fun evalPoint :: "DataSet \<Rightarrow> PointExpr \<Rightarrow> Vector2f" where
  "evalPoint d BallPosition = TeamBallModel.position (teamBallModel d)"
| "evalPoint d AssignedPosition = BishopPosition.position (bishopPosition d)"
| "evalPoint d RobotPosition = Pose.position (robotPosition d)"
| "evalPoint d (ToRobot e) = fieldToRobot (robotPosition d) (evalPoint d e)"
| "evalPoint d (ToField e) = robotToField (robotPosition d) (evalPoint d e)"

fun evalAngle :: "DataSet \<Rightarrow> AngleExpr \<Rightarrow> float" where
  "evalAngle d (BearingOf e) = atan2 (y (evalPoint d e)) (x (evalPoint d e))"
| "evalAngle d RobotHeading = heading (robotPosition d)"

fun evalPose :: "DataSet \<Rightarrow> PoseExpr \<Rightarrow> Pose" where
  "evalPose d (MkPose e a) = \<lparr>Pose.position = evalPoint d e, heading = evalAngle d a\<rparr>"

definition bishopPoseExpr :: PoseExpr where
  "bishopPoseExpr = MkPose (ToRobot AssignedPosition) (BearingOf (ToRobot BallPosition))"

section \<open>Another field frame\<close>

definition moveDataSet :: "Pose \<Rightarrow> DataSet \<Rightarrow> DataSet" where
  "moveDataSet t d =
     \<lparr>robotPosition = movePose t (robotPosition d),
      teamBallModel =
        \<lparr>TeamBallModel.position = robotToField t (TeamBallModel.position (teamBallModel d))\<rparr>,
      bishopPosition =
        \<lparr>BishopPosition.position = robotToField t (BishopPosition.position (bishopPosition d))\<rparr>\<rparr>"

definition mirrorV :: "Vector2f \<Rightarrow> Vector2f" where
  "mirrorV v = \<lparr>x = x v, y = - y v\<rparr>"

definition mirrorP :: "Pose \<Rightarrow> Pose" where
  "mirrorP p = \<lparr>Pose.position = mirrorV (Pose.position p), heading = - heading p\<rparr>"

definition mirrorDataSet :: "DataSet \<Rightarrow> DataSet" where
  "mirrorDataSet d =
     \<lparr>robotPosition = mirrorP (robotPosition d),
      teamBallModel =
        \<lparr>TeamBallModel.position = mirrorV (TeamBallModel.position (teamBallModel d))\<rparr>,
      bishopPosition =
        \<lparr>BishopPosition.position = mirrorV (BishopPosition.position (bishopPosition d))\<rparr>\<rparr>"

lemma moveDataSet_sel [simp]:
  "robotPosition (moveDataSet t d) = movePose t (robotPosition d)"
  "TeamBallModel.position (teamBallModel (moveDataSet t d))
     = robotToField t (TeamBallModel.position (teamBallModel d))"
  "BishopPosition.position (bishopPosition (moveDataSet t d))
     = robotToField t (BishopPosition.position (bishopPosition d))"
  by (simp_all add: moveDataSet_def)

lemma mirrorV_sel [simp]: "x (mirrorV v) = x v" "y (mirrorV v) = - y v"
  by (simp_all add: mirrorV_def)

lemma mirrorDataSet_sel [simp]:
  "robotPosition (mirrorDataSet d) = mirrorP (robotPosition d)"
  "TeamBallModel.position (teamBallModel (mirrorDataSet d))
     = mirrorV (TeamBallModel.position (teamBallModel d))"
  "BishopPosition.position (bishopPosition (mirrorDataSet d))
     = mirrorV (BishopPosition.position (bishopPosition d))"
  by (simp_all add: mirrorDataSet_def)

lemma fieldToRobot_mirror: "fieldToRobot (mirrorP p) (mirrorV q) = mirrorV (fieldToRobot p q)"
  by (rule Vector2f_eqI) (simp_all add: frame_simps mirrorP_def algebra_simps)

section \<open>Soundness of the frames\<close>

lemma evalPoint_moveDataSet:
  "(frameOfPoint e = Some RobotFrame \<longrightarrow> evalPoint (moveDataSet t d) e = evalPoint d e)
   \<and> (frameOfPoint e = Some FieldFrame
        \<longrightarrow> evalPoint (moveDataSet t d) e = robotToField t (evalPoint d e))"
  by (induction e) (simp_all add: robotToField_movePose)

lemmas evalPoint_robot = evalPoint_moveDataSet [THEN conjunct1, rule_format]
  and evalPoint_field = evalPoint_moveDataSet [THEN conjunct2, rule_format]

lemma evalAngle_moveDataSet:
  "(frameOfAngle a = Some RobotFrame \<longrightarrow> evalAngle (moveDataSet t d) a = evalAngle d a)
   \<and> (frameOfAngle a = Some FieldFrame
        \<longrightarrow> evalAngle (moveDataSet t d) a = heading t + evalAngle d a)"
  by (cases a) (simp_all add: evalPoint_robot)

lemmas evalAngle_robot = evalAngle_moveDataSet [THEN conjunct1, rule_format]
  and evalAngle_field = evalAngle_moveDataSet [THEN conjunct2, rule_format]

lemma frameOfPose_Some:
  "frameOfPose (MkPose e a) = Some f \<longleftrightarrow> frameOfPoint e = Some f \<and> frameOfAngle a = Some f"
  by auto

lemma evalPose_field:
  "evalPose (moveDataSet t d) e = movePose t (evalPose d e)" if "frameOfPose e = Some FieldFrame"
  using that
  by (cases e) (simp add: frameOfPose_Some evalPoint_field evalAngle_field movePose_def
      del: frameOfPose.simps)

lemma frameOf_rejects:
  "frameOfPose (MkPose AssignedPosition (BearingOf (ToRobot BallPosition))) = None"
  "frameOfPose (MkPose (ToRobot AssignedPosition) (BearingOf BallPosition)) = None"
  "frameOfPose (MkPose (ToRobot (ToRobot AssignedPosition)) (BearingOf (ToRobot BallPosition))) = None"
  by simp_all

text \<open>
  C31. The typing of frames is sound: the value of a pose expression that is
  typed as robot-relative is the same in every field frame, that is, it does
  not change when the robot pose, the ball and the assigned position of the
  snapshot are all moved by one rotation and translation of the field.
\<close>

theorem frameOfPose_sound:
  "evalPose (moveDataSet t d) e = evalPose d e" if "frameOfPose e = Some RobotFrame"
  using that
  by (cases e) (simp add: frameOfPose_Some evalPoint_robot evalAngle_robot
      del: frameOfPose.simps)

theorem frameOfPose_sound_witness:
  "evalPose (moveDataSet \<lparr>Pose.position = \<lparr>x = 1, y = 2\<rparr>, heading = pi / 2\<rparr>
       \<lparr>robotPosition = \<lparr>Pose.position = \<lparr>x = 0, y = 0\<rparr>, heading = 0\<rparr>,
        teamBallModel = \<lparr>TeamBallModel.position = \<lparr>x = 2, y = 0\<rparr>\<rparr>,
        bishopPosition = \<lparr>BishopPosition.position = \<lparr>x = 0, y = 2\<rparr>\<rparr>\<rparr>)
     (MkPose (ToRobot AssignedPosition) (BearingOf (ToRobot BallPosition)))
   = \<lparr>Pose.position = \<lparr>x = 0, y = 2\<rparr>, heading = 0\<rparr>"
  using frameOfPose_sound [of "MkPose (ToRobot AssignedPosition) (BearingOf (ToRobot BallPosition))"
       "\<lparr>Pose.position = \<lparr>x = 1, y = 2\<rparr>, heading = pi / 2\<rparr>"
       "\<lparr>robotPosition = \<lparr>Pose.position = \<lparr>x = 0, y = 0\<rparr>, heading = 0\<rparr>,
         teamBallModel = \<lparr>TeamBallModel.position = \<lparr>x = 2, y = 0\<rparr>\<rparr>,
         bishopPosition = \<lparr>BishopPosition.position = \<lparr>x = 0, y = 2\<rparr>\<rparr>\<rparr>"]
  by (simp add: geom_defs)

text \<open>
  The target pose of the role function is the value of \<open>bishopPoseExpr\<close>, an
  expression typed as robot-relative: the soundness of the typing applies to
  it.
\<close>

lemma evalPose_bishopPoseExpr:
  "frameOfPose bishopPoseExpr = Some RobotFrame \<and> evalPose d bishopPoseExpr = relPlayingPose d"
  unfolding relPlayingPose_def relBallAngle_def relBallPosition_def
  by (simp add: bishopPoseExpr_def)

end
