(* ===== verification/Cycle.thy ===== *)
theory Cycle
  imports Bishop
begin

text \<open>
  The control cycle around the role function, as far as the function's own
  output determines it. The walking engine is not part of the sources, so it
  appears only through an assumption on what one cycle can do to the robot's
  pose: \<open>walk_step l\<close> lets the robot cover the fraction \<open>l\<close>, between nothing and
  all, of the straight way to the commanded target position, turn to any
  heading, and lets the ball estimate change arbitrarily; the assigned position
  stays. \<open>walk_run\<close> is a finite sequence of such cycles, each with a fresh
  command of \<open>bishop\<close>; \<open>brisk_run m n\<close> is a run of \<open>n\<close> cycles that each cover at
  least the fraction \<open>m\<close>. \<open>idealStep\<close> is the cycle of an ideal walker that
  reaches the commanded pose exactly while the scene stands still.

  The lemmas show that commands of \<open>bishop\<close> never lead away from the assigned
  position (the distance \<open>offTarget\<close> cannot grow along a run), that a brisk run
  shrinks this distance by the factor \<open>1 - m\<close> per cycle and so brings the robot
  arbitrarily close, that the ideal walker arrives after one cycle, and that
  after two cycles it has settled: the ball is straight ahead, the command is
  "stay as you are", and further cycles change nothing.
\<close>

section \<open>One cycle of walking\<close>

definition advance :: "float \<Rightarrow> Pose \<Rightarrow> Vector2f \<Rightarrow> Vector2f" where
  "advance l p v = robotToField p \<lparr>x = l * x v, y = l * y v\<rparr>"

definition offTarget :: "DataSet \<Rightarrow> real" where
  "offTarget d =
     dist (toComplex (Pose.position (robotPosition d)))
          (toComplex (BishopPosition.position (bishopPosition d)))"

inductive walk_step :: "real \<Rightarrow> DataSet \<Rightarrow> DataSet \<Rightarrow> bool" where
  progress: "walk_step l d
      (d\<lparr>robotPosition :=
           \<lparr>Pose.position =
              advance l (robotPosition d) (Pose.position (targetPose (body (bishop d)))),
            heading = h\<rparr>,
         teamBallModel := b\<rparr>)" if "0 \<le> l" and "l \<le> 1"

inductive walk_run :: "DataSet \<Rightarrow> DataSet \<Rightarrow> bool" where
  start: "walk_run d d"
| step: "walk_run d d''" if "walk_run d d'" and "walk_step l d' d''"

inductive brisk_run :: "real \<Rightarrow> nat \<Rightarrow> DataSet \<Rightarrow> DataSet \<Rightarrow> bool" where
  start: "brisk_run m 0 d d"
| step: "brisk_run m (Suc n) d d''" if "brisk_run m n d d'" and "walk_step l d' d''" and "m \<le> l"

definition idealStep :: "DataSet \<Rightarrow> DataSet" where
  "idealStep d = d\<lparr>robotPosition := movePose (robotPosition d) (targetPose (body (bishop d)))\<rparr>"

section \<open>Moving along the commanded way\<close>

inductive_cases walk_stepE: "walk_step l d d'"

lemma toComplex_advance:
  "toComplex (advance l p (fieldToRobot p q))
     = toComplex (Pose.position p) + of_real l * (toComplex q - toComplex (Pose.position p))"
proof -
  have "toComplex \<lparr>x = l * x v, y = l * y v\<rparr> = of_real l * toComplex v" for v
    by (simp add: complex_eq_iff)
  then show ?thesis
    by (simp add: advance_def toComplex_robotToField toComplex_fieldToRobot)
qed

lemma dist_advance:
  "dist (toComplex (advance l p (fieldToRobot p q))) (toComplex q)
     = (1 - l) * dist (toComplex (Pose.position p)) (toComplex q)" if "l \<le> 1"
proof -
  have "toComplex (advance l p (fieldToRobot p q)) - toComplex q
      = of_real (1 - l) * (toComplex (Pose.position p) - toComplex q)"
    by (simp add: toComplex_advance algebra_simps)
  with that show ?thesis
    by (simp add: dist_norm norm_mult del: of_real_diff)
qed

lemma walk_step_bishopPosition: "bishopPosition d' = bishopPosition d" if "walk_step l d d'"
  using that by (auto elim: walk_stepE)

lemma walk_step_fraction: "0 \<le> l \<and> l \<le> 1" if "walk_step l d d'"
  using that by (auto elim: walk_stepE)

lemma walk_step_offTarget_eq: "offTarget d' = (1 - l) * offTarget d" if "walk_step l d d'"
  using that by (cases rule: walk_step.cases) (simp add: offTarget_def dist_advance)

lemma offTarget_nonneg [simp]: "0 \<le> offTarget d"
  by (simp add: offTarget_def)

lemma walk_step_offTarget: "offTarget d' \<le> offTarget d" if "walk_step l d d'"
  using walk_step_fraction [OF that]
  by (simp add: walk_step_offTarget_eq [OF that] mult_left_le_one_le)

lemma walk_step_offTarget_brisk:
  "offTarget d' \<le> (1 - m) * offTarget d" if "walk_step l d d'" and "m \<le> l"
  using that(2) by (simp add: walk_step_offTarget_eq [OF that(1)] mult_right_mono)

lemma advance_1 [simp]: "advance 1 p v = robotToField p v"
  by (simp add: advance_def)

lemma walk_step_idealStep: "walk_step 1 d (idealStep d)"
proof -
  have "walk_step 1 d (d\<lparr>robotPosition :=
           \<lparr>Pose.position =
              advance 1 (robotPosition d) (Pose.position (targetPose (body (bishop d)))),
            heading = heading (robotPosition d) + relBallAngle d\<rparr>,
         teamBallModel := teamBallModel d\<rparr>)"
    by (rule walk_step.progress) simp_all
  then show ?thesis
    by (simp add: idealStep_def movePose_def)
qed

lemma walk_run_idealStep2: "walk_run d (idealStep (idealStep d))"
  by (intro walk_run.step [OF _ walk_step_idealStep] walk_run.start)

section \<open>Runs never lead away from the assigned position\<close>

text \<open>
  C21. Along every run of cycles, whatever fraction of the commanded way the
  robot covers in each cycle, however it turns and however the ball estimate
  changes, the assigned position stays the same and the distance between the
  robot and the assigned position never grows. That the assigned position
  stays is what \<open>walk_step\<close> assumes of the role assignment; that the distance
  does not grow is what the commands of \<open>bishop\<close> add.
\<close>

theorem walk_run_invariant:
  "bishopPosition d' = bishopPosition d \<and> offTarget d' \<le> offTarget d" if "walk_run d d'"
  using that
proof (induction rule: walk_run.induct)
  case (start d)
  show ?case by simp
next
  case (step d d' l d'')
  with walk_step_bishopPosition [of l d' d''] walk_step_offTarget [of l d' d'']
  show ?case by simp
qed

theorem walk_run_invariant_witness:
  "bishopPosition (idealStep (idealStep
       \<lparr>robotPosition = \<lparr>Pose.position = \<lparr>x = 0, y = 0\<rparr>, heading = 0\<rparr>,
        teamBallModel = \<lparr>TeamBallModel.position = \<lparr>x = 2, y = 0\<rparr>\<rparr>,
        bishopPosition = \<lparr>BishopPosition.position = \<lparr>x = 0, y = 2\<rparr>\<rparr>\<rparr>))
     = \<lparr>BishopPosition.position = \<lparr>x = 0, y = 2\<rparr>\<rparr>
   \<and> offTarget (idealStep (idealStep
       \<lparr>robotPosition = \<lparr>Pose.position = \<lparr>x = 0, y = 0\<rparr>, heading = 0\<rparr>,
        teamBallModel = \<lparr>TeamBallModel.position = \<lparr>x = 2, y = 0\<rparr>\<rparr>,
        bishopPosition = \<lparr>BishopPosition.position = \<lparr>x = 0, y = 2\<rparr>\<rparr>\<rparr>))
     \<le> offTarget
       \<lparr>robotPosition = \<lparr>Pose.position = \<lparr>x = 0, y = 0\<rparr>, heading = 0\<rparr>,
        teamBallModel = \<lparr>TeamBallModel.position = \<lparr>x = 2, y = 0\<rparr>\<rparr>,
        bishopPosition = \<lparr>BishopPosition.position = \<lparr>x = 0, y = 2\<rparr>\<rparr>\<rparr>"
  using walk_run_invariant [OF walk_run_idealStep2] by simp

section \<open>Runs with a least progress per cycle\<close>

lemma brisk_run_bound:
  "offTarget d' \<le> (1 - m) ^ n * offTarget d" if "brisk_run m n d d'" and "m \<le> 1"
  using that
proof (induction rule: brisk_run.induct)
  case (start m d)
  show ?case by simp
next
  case (step m n d d' l d'')
  have "offTarget d'' \<le> (1 - m) * offTarget d'"
    using step.hyps by (intro walk_step_offTarget_brisk)
  also have "\<dots> \<le> (1 - m) * ((1 - m) ^ n * offTarget d)"
    using step.IH step.prems by (intro mult_left_mono) simp_all
  finally show ?case by (simp add: mult.assoc)
qed

lemma brisk_run_idealStep: "brisk_run 1 (Suc 0) d (idealStep d)"
  by (rule brisk_run.step [OF brisk_run.start walk_step_idealStep]) simp

text \<open>
  With a least progress per cycle the robot comes as close to the assigned
  position as one likes: if every cycle covers at least the fraction \<open>m > 0\<close> of
  the commanded way, then for every tolerance \<open>e > 0\<close> there is a number of
  cycles after which every such run has brought the robot within \<open>e\<close> of the
  assigned position.
\<close>

lemma brisk_run_eventually_near:
  assumes "0 < m" and "m \<le> 1" and "0 < e"
  shows "\<exists>N. \<forall>n d'. N \<le> n \<and> brisk_run m n d d' \<longrightarrow> offTarget d' < e"
proof (cases "offTarget d = 0")
  case True
  with assms show ?thesis
    using brisk_run_bound [of m _ d] by (intro exI [of _ 0]) fastforce
next
  case False
  then have pos: "0 < offTarget d"
    using offTarget_nonneg [of d] by linarith
  with assms obtain N where N: "(1 - m) ^ N < e / offTarget d"
    using real_arch_pow_inv [of "e / offTarget d" "1 - m"] by auto
  show ?thesis
  proof (intro exI [of _ N] allI impI)
    fix n d'
    assume run: "N \<le> n \<and> brisk_run m n d d'"
    then have "offTarget d' \<le> (1 - m) ^ n * offTarget d"
      using assms by (intro brisk_run_bound) simp_all
    also have "\<dots> \<le> (1 - m) ^ N * offTarget d"
      using run assms by (intro mult_right_mono power_decreasing) simp_all
    also have "\<dots> < e"
      using N pos by (simp add: field_simps)
    finally show "offTarget d' < e" .
  qed
qed

section \<open>The ideal walker\<close>

lemma idealStep_sel [simp]:
  "Pose.position (robotPosition (idealStep d)) = BishopPosition.position (bishopPosition d)"
  "heading (robotPosition (idealStep d)) = heading (robotPosition d) + relBallAngle d"
  "teamBallModel (idealStep d) = teamBallModel d"
  "bishopPosition (idealStep d) = bishopPosition d"
  by (simp_all add: idealStep_def)

lemma atan2_0_nonneg: "atan2 0 a = 0" if "0 \<le> a"
  using that by (simp add: atan2_def)

lemma face_forward:
  "fieldToRobot \<lparr>Pose.position = \<lparr>x = 0, y = 0\<rparr>, heading = atan2 (y v) (x v)\<rparr> v
     = \<lparr>x = sqrt ((x v)\<^sup>2 + (y v)\<^sup>2), y = 0\<rparr>"
proof -
  define r h where "r = sqrt ((x v)\<^sup>2 + (y v)\<^sup>2)" and "h = atan2 (y v) (x v)"
  have v: "x v = r * cos h" "y v = r * sin h"
    unfolding r_def h_def by (simp_all add: atan2_polar)
  have "x v * cos h + y v * sin h = r" "y v * cos h - x v * sin h = 0"
    by (simp_all add: v algebra_simps cos_sq_eq)
  then show ?thesis
    unfolding r_def h_def by (simp add: frame_simps)
qed

lemma relBallPosition_idealStep:
  "relBallPosition (idealStep d) = fieldToRobot (relPlayingPose d) (relBallPosition d)"
  by (simp add: relBallPosition_def idealStep_def fieldToRobot_compose)

lemma relPlayingPose_idealStep:
  "relPlayingPose (idealStep d) = \<lparr>Pose.position = \<lparr>x = 0, y = 0\<rparr>, heading = relBallAngle (idealStep d)\<rparr>"
  by (simp add: relPlayingPose_def fieldToRobot_zero_iff)

lemma relBallPosition_settled:
  "relBallPosition (idealStep (idealStep d))
     = \<lparr>x = sqrt ((x (relBallPosition (idealStep d)))\<^sup>2 + (y (relBallPosition (idealStep d)))\<^sup>2), y = 0\<rparr>"
  by (simp add: relBallPosition_idealStep [of "idealStep d"] relPlayingPose_idealStep
      relBallAngle_def face_forward)

lemma relPlayingPose_settled:
  "relPlayingPose (idealStep (idealStep d)) = \<lparr>Pose.position = \<lparr>x = 0, y = 0\<rparr>, heading = 0\<rparr>"
proof -
  have "relBallAngle (idealStep (idealStep d)) = 0"
    by (subst relBallAngle_def, subst (1 2) relBallPosition_settled) (simp add: atan2_0_nonneg)
  then show ?thesis
    by (simp add: relPlayingPose_idealStep)
qed

section \<open>Arrival and rest\<close>

lemma idealStep_faces_ball:
  "y (relBallPosition (idealStep (idealStep d))) = 0
   \<and> 0 \<le> x (relBallPosition (idealStep (idealStep d)))"
  by (subst (1 2) relBallPosition_settled) simp

text \<open>
  After two cycles of the ideal walker the command of \<open>bishop\<close> asks for no
  motion: its target pose is the origin of the robot frame with heading \<open>0\<close>.
\<close>

lemma idealStep_settles:
  "targetPose (body (bishop (idealStep (idealStep d))))
     = \<lparr>Pose.position = \<lparr>x = 0, y = 0\<rparr>, heading = 0\<rparr>"
  unfolding bishop_def by (simp add: relPlayingPose_settled)

text \<open>
  C22. Two cycles of the ideal walker reach a fixed point: a third cycle leaves
  the snapshot as it is, so the commands do not oscillate. For a ball that
  lies on the assigned position the statement rests on the value \<open>0\<close> of \<open>atan2\<close>
  at the zero vector.
\<close>

theorem idealStep_fixpoint: "idealStep (idealStep (idealStep d)) = idealStep (idealStep d)"
  by (subst idealStep_def) (simp add: relPlayingPose_settled)

end
