(* ===== verification/Settle.thy ===== *)
theory Settle
  imports Cycle "HOL-Library.While_Combinator"
begin

text \<open>
  The loop "repeat the cycle of the ideal walker until \<open>bishop\<close> asks for no
  motion", kept as a loop: \<open>settle\<close> is \<open>while_option\<close> over \<open>idealStep\<close> with the
  guard \<open>\<not> atRest\<close>, so that not returning would be the value \<open>None\<close>.

  The lemmas show that the loop returns for every snapshot (the measure
  \<open>cyclesLeft\<close> decreases in every iteration), that it runs its body at most
  twice, and that the snapshot it returns has the robot at the assigned
  position with the ball straight ahead.
\<close>

section \<open>The loop\<close>

definition restPose :: Pose where
  "restPose = \<lparr>Pose.position = \<lparr>x = 0, y = 0\<rparr>, heading = 0\<rparr>"

definition atRest :: "DataSet \<Rightarrow> bool" where
  "atRest d \<longleftrightarrow> targetPose (body (bishop d)) = restPose"

definition settle :: "DataSet \<Rightarrow> DataSet option" where
  "settle d = while_option (\<lambda>d. \<not> atRest d) idealStep d"

definition cyclesLeft :: "DataSet \<Rightarrow> nat" where
  "cyclesLeft d = (if atRest d then 0 else if atRest (idealStep d) then 1 else 2)"

section \<open>Rest\<close>

lemma atRest_iff:
  "atRest d \<longleftrightarrow>
     Pose.position (robotPosition d) = BishopPosition.position (bishopPosition d)
     \<and> relBallAngle d = 0"
  by (auto simp: atRest_def restPose_def relPlayingPose_def fieldToRobot_zero_iff)

lemma atRest_settled [simp]: "atRest (idealStep (idealStep d))"
  by (simp add: atRest_def restPose_def relPlayingPose_settled)

lemma idealStep_atRest: "idealStep d = d" if "atRest d"
  using that
  by (simp add: atRest_def restPose_def idealStep_def del: targetPose_bishop)

lemma cyclesLeft_decreases: "cyclesLeft (idealStep d) < cyclesLeft d" if "\<not> atRest d"
  using that by (simp add: cyclesLeft_def)

lemma settle_unfold: "settle d = (if atRest d then Some d else settle (idealStep d))"
  unfolding settle_def by (subst while_option_unfold) simp

section \<open>The loop returns\<close>

text \<open>
  C30. The loop \<open>settle\<close> terminates for every snapshot: it returns a snapshot,
  and in it the robot stands at the assigned position of the initial snapshot,
  the ball is where it was and lies straight ahead, so that \<open>bishop\<close> asks for
  no motion. For a ball that lies on the assigned position "straight ahead"
  is the value \<open>0\<close> of \<open>atan2\<close> at the zero vector.
\<close>

theorem settle_terminates:
  "\<exists>d'. settle d = Some d'
      \<and> Pose.position (robotPosition d') = BishopPosition.position (bishopPosition d)
      \<and> teamBallModel d' = teamBallModel d
      \<and> relBallAngle d' = 0"
proof -
  obtain d' where ret: "while_option (\<lambda>d. \<not> atRest d) idealStep d = Some d'"
    using measure_while_option_Some [of "\<lambda>_. True" "\<lambda>d. \<not> atRest d" idealStep cyclesLeft d]
    by (auto simp: cyclesLeft_decreases)
  have "bishopPosition d' = bishopPosition d \<and> teamBallModel d' = teamBallModel d"
    by (rule while_option_rule [OF _ ret]) simp_all
  moreover have "atRest d'"
    using while_option_stop [OF ret] by simp
  ultimately show ?thesis
    unfolding settle_def using ret by (simp add: atRest_iff)
qed

text \<open>
  The loop \<open>settle\<close> runs its body at most twice: its result is the initial
  snapshot, or the snapshot after one cycle of the ideal walker, or the one
  after two cycles.
\<close>

lemma settle_two_cycles:
  "settle d = Some d \<or> settle d = Some (idealStep d)
     \<or> settle d = Some (idealStep (idealStep d))"
  by (simp add: settle_unfold [of d] settle_unfold [of "idealStep d"]
      settle_unfold [of "idealStep (idealStep d)"])

end
