(* ===== verification/Robustness.thy ===== *)
theory Robustness
  imports Cycle
begin

text \<open>
  The effect of a wrong heading estimate and of a wrong ball estimate on the
  command. \<open>turnRobot e d\<close> is the
  snapshot \<open>d\<close> with the heading of the robot's pose estimate changed by \<open>e\<close>: read
  as an error of the estimator it is the snapshot that \<open>bishop\<close> receives when the
  true heading is that of \<open>d\<close>, read as a motion it is the snapshot after the
  robot has turned by \<open>e\<close> on the spot.

  The lemmas show that both locals are turned back by \<open>e\<close>: the commanded
  heading is the bearing minus \<open>e\<close>, reduced by full turns, and the commanded
  position, walked to from the true pose, misses the assigned position by the
  chord \<open>2 * \<bar>sin (e / 2)\<bar>\<close> of the distance still to go. An error of the ball
  estimate moves the commanded direction by at most twice its size relative to
  the distance of the ball, and the commanded angle, up to full turns, by at
  most \<open>pi\<close> times that ratio; for a ball behind the robot this does not bound
  the commanded angle itself, which jumps by almost a full turn when the ball
  crosses the robot's axis.
\<close>

section \<open>A changed heading\<close>

definition turnRobot :: "float \<Rightarrow> DataSet \<Rightarrow> DataSet" where
  "turnRobot e d =
     d\<lparr>robotPosition := (robotPosition d)\<lparr>heading := heading (robotPosition d) + e\<rparr>\<rparr>"

section \<open>The locals under a changed heading\<close>

lemma turnRobot_sel [simp]:
  "Pose.position (robotPosition (turnRobot e d)) = Pose.position (robotPosition d)"
  "heading (robotPosition (turnRobot e d)) = heading (robotPosition d) + e"
  "teamBallModel (turnRobot e d) = teamBallModel d"
  "bishopPosition (turnRobot e d) = bishopPosition d"
  by (simp_all add: turnRobot_def)

lemma turnRobot_0 [simp]: "turnRobot 0 d = d"
  by (simp add: turnRobot_def)

lemma relBallPosition_turnRobot:
  "relBallPosition (turnRobot e d) = rotate (- e) (relBallPosition d)"
  by (simp add: relBallPosition_def turnRobot_def fieldToRobot_turn)

lemma relBallAngle_turnRobot:
  "relBallAngle (turnRobot e d) = relBallAngle d - e"
  if "- pi < relBallAngle d - e" "relBallAngle d - e \<le> pi"
    and "TeamBallModel.position (teamBallModel d) \<noteq> Pose.position (robotPosition d)"
proof -
  define r where "r = sqrt ((x (relBallPosition d))\<^sup>2 + (y (relBallPosition d))\<^sup>2)"
  have "relBallPosition (turnRobot e d)
      = rotate (- e) \<lparr>x = r * cos (relBallAngle d), y = r * sin (relBallAngle d)\<rparr>"
    unfolding r_def relBallPosition_turnRobot by (subst relBallPosition_polar) simp
  then have "relBallPosition (turnRobot e d)
      = \<lparr>x = r * cos (relBallAngle d - e), y = r * sin (relBallAngle d - e)\<rparr>"
    by (simp add: rotate_polar)
  moreover have "0 < r"
    unfolding r_def using that(3) by (rule relBallPosition_nonzero)
  ultimately show ?thesis
    using that(1,2) by (simp add: relBallAngle_def [of "turnRobot e d"] atan2_unique)
qed

lemma relBallAngle_turnRobot_coincide:
  "relBallAngle (turnRobot e d) = 0"
  if "TeamBallModel.position (teamBallModel d) = Pose.position (robotPosition d)"
proof -
  from that have "relBallPosition d = \<lparr>x = 0, y = 0\<rparr>"
    by (simp add: relBallPosition_zero_iff)
  then show ?thesis
    by (simp add: relBallAngle_def relBallPosition_turnRobot)
qed

section \<open>The commanded heading\<close>

text \<open>
  C28. An error of the heading estimate is passed on to the commanded heading
  with the opposite sign: when the heading of the robot's pose is changed by
  \<open>e\<close> and the ball is not at the robot's position, \<open>relBallAngle\<close> becomes
  \<open>relBallAngle\<close> minus \<open>e\<close>, reduced to \<open>(- pi, pi]\<close> by full turns.
\<close>

theorem relBallAngle_heading_error:
  "relBallAngle (turnRobot e d) = normalizeAngle (relBallAngle d - e)"
  if "TeamBallModel.position (teamBallModel d) \<noteq> Pose.position (robotPosition d)"
proof -
  have turned: "relBallPosition (turnRobot e d) = rotate (- e) (relBallPosition d)"
    unfolding relBallPosition_def by (simp add: turnRobot_def fieldToRobot_turn)
  have "cis (relBallAngle (turnRobot e d)) = sgn (toComplex (relBallPosition (turnRobot e d)))"
    using that by (intro cis_relBallAngle) simp
  also have "\<dots> = cis (- e) * sgn (toComplex (relBallPosition d))"
    by (simp add: turned toComplex_rotate sgn_mult)
  also have "\<dots> = cis (- e) * cis (relBallAngle d)"
    using that unfolding relBallAngle_def
    by (simp add: cis_relBallAngle [unfolded relBallAngle_def])
  finally have "cis (relBallAngle (turnRobot e d)) = cis (relBallAngle d - e)"
    by (simp add: cis_mult)
  moreover have "- pi < relBallAngle (turnRobot e d)" "relBallAngle (turnRobot e d) \<le> pi"
    unfolding relBallAngle_def by (simp_all add: atan2_range)
  ultimately show ?thesis
    by (intro normalizeAngle_unique [symmetric]) simp_all
qed

theorem relBallAngle_heading_error_witness:
  "relBallAngle (turnRobot (3 * pi / 2)
       \<lparr>robotPosition = \<lparr>Pose.position = \<lparr>x = 0, y = 0\<rparr>, heading = 0\<rparr>,
        teamBallModel = \<lparr>TeamBallModel.position = \<lparr>x = 2, y = 0\<rparr>\<rparr>,
        bishopPosition = \<lparr>BishopPosition.position = \<lparr>x = 0, y = 2\<rparr>\<rparr>\<rparr>) = pi / 2"
  using relBallAngle_heading_error [of
       "\<lparr>robotPosition = \<lparr>Pose.position = \<lparr>x = 0, y = 0\<rparr>, heading = 0\<rparr>,
         teamBallModel = \<lparr>TeamBallModel.position = \<lparr>x = 2, y = 0\<rparr>\<rparr>,
         bishopPosition = \<lparr>BishopPosition.position = \<lparr>x = 0, y = 2\<rparr>\<rparr>\<rparr>" "3 * pi / 2"]
  by (simp add: relBallAngle_def relBallPosition_def geom_defs normalizeAngle_def)

section \<open>The commanded position\<close>

text \<open>
  C29. An error \<open>e\<close> of the heading estimate turns the commanded position about
  the robot: the field point that the position of \<open>relPlayingPose\<close> denotes in
  the true robot frame lies at the distance \<open>2 * \<bar>sin (e / 2)\<bar>\<close> times the
  robot's distance from the assigned position away from the assigned
  position. A robot that has arrived is not sent away, and the miss vanishes
  with the error.
\<close>

theorem relPlayingPose_heading_error:
  "dist (toComplex (robotToField (robotPosition d) (Pose.position (relPlayingPose (turnRobot e d)))))
        (toComplex (BishopPosition.position (bishopPosition d)))
     = 2 * \<bar>sin (e / 2)\<bar> * offTarget d"
proof -
  define zr zt tgt where "zr = toComplex (Pose.position (robotPosition d))"
    and "zt = toComplex (BishopPosition.position (bishopPosition d))"
    and "tgt = toComplex (robotToField (robotPosition d)
        (Pose.position (relPlayingPose (turnRobot e d))))"
  have "tgt = zr + cis (- e) * (zt - zr)"
    unfolding relPlayingPose_def tgt_def zr_def zt_def
    by (simp add: turnRobot_def fieldToRobot_turn toComplex_rotate_about)
  then have "tgt - zt = (cis (- e) - 1) * (zt - zr)"
    by (simp add: algebra_simps)
  then have "dist tgt zt = cmod (cis (- e) - 1) * dist zr zt"
    by (simp add: dist_norm norm_mult norm_minus_commute)
  also have "cmod (cis (- e) - 1) = 2 * \<bar>sin (e / 2)\<bar>"
    by (simp add: cmod_cis_diff_1)
  finally show ?thesis
    unfolding tgt_def zr_def zt_def offTarget_def .
qed

section \<open>An error of the ball estimate\<close>

text \<open>
  C32. An error of the ball estimate moves the commanded direction by at most
  twice its size relative to the distance of the ball: when the ball position
  is replaced by \<open>b\<close>, and neither position is the robot's own, the points of
  the old and the new \<open>relBallAngle\<close> on the unit circle are at most twice the
  distance between the two ball positions, divided by the distance between
  the robot and the ball, apart; the angle between them, that is the
  difference of the two values of \<open>relBallAngle\<close> reduced by full turns, is at
  most \<open>pi\<close> times that ratio.
\<close>

theorem relBallAngle_ball_error:
  assumes "TeamBallModel.position (teamBallModel d) \<noteq> Pose.position (robotPosition d)"
    and "b \<noteq> Pose.position (robotPosition d)"
  shows "dist (cis (relBallAngle (d\<lparr>teamBallModel := \<lparr>TeamBallModel.position = b\<rparr>\<rparr>)))
              (cis (relBallAngle d))
       \<le> 2 * dist (toComplex b) (toComplex (TeamBallModel.position (teamBallModel d)))
           / dist (toComplex (TeamBallModel.position (teamBallModel d)))
                  (toComplex (Pose.position (robotPosition d)))
     \<and> \<bar>normalizeAngle (relBallAngle (d\<lparr>teamBallModel := \<lparr>TeamBallModel.position = b\<rparr>\<rparr>)
                         - relBallAngle d)\<bar>
       \<le> pi * dist (toComplex b) (toComplex (TeamBallModel.position (teamBallModel d)))
           / dist (toComplex (TeamBallModel.position (teamBallModel d)))
                  (toComplex (Pose.position (robotPosition d)))"
proof -
  define d' where "d' = d\<lparr>teamBallModel := \<lparr>TeamBallModel.position = b\<rparr>\<rparr>"
  define w z where "w = toComplex (relBallPosition d')" and "z = toComplex (relBallPosition d)"
  have nz: "z \<noteq> 0" "w \<noteq> 0"
    using assms relBallPosition_nonzero [of d] relBallPosition_nonzero [of d']
    by (auto simp: w_def z_def d'_def complex_eq_iff)
  have "norm (w - z) = dist (toComplex b) (toComplex (TeamBallModel.position (teamBallModel d)))"
    and "norm z = dist (toComplex (TeamBallModel.position (teamBallModel d)))
                    (toComplex (Pose.position (robotPosition d)))"
    unfolding w_def z_def d'_def relBallPosition_def
    by (simp_all add: fieldToRobot_dist cmod_fieldToRobot flip: dist_norm)
  moreover have "cis (relBallAngle d') = sgn w" "cis (relBallAngle d) = sgn z"
    unfolding w_def z_def using assms by (simp_all add: cis_relBallAngle d'_def)
  ultimately have "dist (cis (relBallAngle d')) (cis (relBallAngle d))
      \<le> 2 * (dist (toComplex b) (toComplex (TeamBallModel.position (teamBallModel d)))
          / dist (toComplex (TeamBallModel.position (teamBallModel d)))
                 (toComplex (Pose.position (robotPosition d))))"
    using sgn_diff_bound [OF nz] by (simp add: dist_norm)
  from this normalizeAngle_diff_bound [OF this] show ?thesis
    by (simp add: d'_def)
qed

theorem relBallAngle_ball_error_witness:
  "dist (cis (relBallAngle
            \<lparr>robotPosition = \<lparr>Pose.position = \<lparr>x = 0, y = 0\<rparr>, heading = 0\<rparr>,
             teamBallModel = \<lparr>TeamBallModel.position = \<lparr>x = 0, y = 2\<rparr>\<rparr>,
             bishopPosition = \<lparr>BishopPosition.position = \<lparr>x = 1, y = 1\<rparr>\<rparr>\<rparr>))
        (cis (relBallAngle
            \<lparr>robotPosition = \<lparr>Pose.position = \<lparr>x = 0, y = 0\<rparr>, heading = 0\<rparr>,
             teamBallModel = \<lparr>TeamBallModel.position = \<lparr>x = 2, y = 0\<rparr>\<rparr>,
             bishopPosition = \<lparr>BishopPosition.position = \<lparr>x = 1, y = 1\<rparr>\<rparr>\<rparr>))
     \<le> 2 * dist (toComplex \<lparr>x = 0, y = 2\<rparr>) (toComplex \<lparr>x = 2, y = 0\<rparr>)
         / dist (toComplex \<lparr>x = 2, y = 0\<rparr>) (toComplex \<lparr>x = 0, y = 0\<rparr>)"
  using relBallAngle_ball_error [of
       "\<lparr>robotPosition = \<lparr>Pose.position = \<lparr>x = 0, y = 0\<rparr>, heading = 0\<rparr>,
         teamBallModel = \<lparr>TeamBallModel.position = \<lparr>x = 2, y = 0\<rparr>\<rparr>,
         bishopPosition = \<lparr>BishopPosition.position = \<lparr>x = 1, y = 1\<rparr>\<rparr>\<rparr>" "\<lparr>x = 0, y = 2\<rparr>"]
  by simp

section \<open>The ball behind the robot\<close>

text \<open>
  C18. Behind the robot the commanded heading jumps: for two snapshots in
  which the ball lies behind the robot at the same depth and at the same
  lateral distance, once to the left and once to the right, the two values of
  \<open>relBallAngle\<close> are opposite and differ by at least a full turn minus twice
  the ratio of the lateral distance to the depth. However small the lateral
  distance is, the command switches between almost \<open>pi\<close> and almost \<open>- pi\<close>.
\<close>

theorem relBallAngle_jump_behind:
  assumes "x (relBallPosition d') = x (relBallPosition d)"
    and "y (relBallPosition d') = - y (relBallPosition d)"
    and "x (relBallPosition d) < 0" and "0 < y (relBallPosition d)"
  shows "relBallAngle d' = - relBallAngle d
       \<and> 2 * pi - 2 * (y (relBallPosition d) / - x (relBallPosition d))
           \<le> relBallAngle d - relBallAngle d'"
proof -
  define t where "t = y (relBallPosition d) / - x (relBallPosition d)"
  have "0 \<le> t"
    using assms by (simp add: t_def divide_le_0_iff)
  then have "arctan t \<le> t"
    by (rule arctan_le_self)
  moreover have "relBallAngle d = pi - arctan t" "relBallAngle d' = - relBallAngle d"
    unfolding relBallAngle_def t_def using assms
    by (simp_all add: atan2_behind_left atan2_mirror_ahead)
  ultimately show ?thesis
    unfolding t_def by simp
qed

theorem relBallAngle_jump_behind_witness:
  "relBallAngle
       \<lparr>robotPosition = \<lparr>Pose.position = \<lparr>x = 0, y = 0\<rparr>, heading = 0\<rparr>,
        teamBallModel = \<lparr>TeamBallModel.position = \<lparr>x = - 100, y = - 1\<rparr>\<rparr>,
        bishopPosition = \<lparr>BishopPosition.position = \<lparr>x = 0, y = 2\<rparr>\<rparr>\<rparr>
     = - relBallAngle
       \<lparr>robotPosition = \<lparr>Pose.position = \<lparr>x = 0, y = 0\<rparr>, heading = 0\<rparr>,
        teamBallModel = \<lparr>TeamBallModel.position = \<lparr>x = - 100, y = 1\<rparr>\<rparr>,
        bishopPosition = \<lparr>BishopPosition.position = \<lparr>x = 0, y = 2\<rparr>\<rparr>\<rparr>
   \<and> 2 * pi - 2 * (1 / 100)
     \<le> relBallAngle
       \<lparr>robotPosition = \<lparr>Pose.position = \<lparr>x = 0, y = 0\<rparr>, heading = 0\<rparr>,
        teamBallModel = \<lparr>TeamBallModel.position = \<lparr>x = - 100, y = 1\<rparr>\<rparr>,
        bishopPosition = \<lparr>BishopPosition.position = \<lparr>x = 0, y = 2\<rparr>\<rparr>\<rparr>
     - relBallAngle
       \<lparr>robotPosition = \<lparr>Pose.position = \<lparr>x = 0, y = 0\<rparr>, heading = 0\<rparr>,
        teamBallModel = \<lparr>TeamBallModel.position = \<lparr>x = - 100, y = - 1\<rparr>\<rparr>,
        bishopPosition = \<lparr>BishopPosition.position = \<lparr>x = 0, y = 2\<rparr>\<rparr>\<rparr>"
  using relBallAngle_jump_behind [of
       "\<lparr>robotPosition = \<lparr>Pose.position = \<lparr>x = 0, y = 0\<rparr>, heading = 0\<rparr>,
         teamBallModel = \<lparr>TeamBallModel.position = \<lparr>x = - 100, y = - 1\<rparr>\<rparr>,
         bishopPosition = \<lparr>BishopPosition.position = \<lparr>x = 0, y = 2\<rparr>\<rparr>\<rparr>"
       "\<lparr>robotPosition = \<lparr>Pose.position = \<lparr>x = 0, y = 0\<rparr>, heading = 0\<rparr>,
         teamBallModel = \<lparr>TeamBallModel.position = \<lparr>x = - 100, y = 1\<rparr>\<rparr>,
         bishopPosition = \<lparr>BishopPosition.position = \<lparr>x = 0, y = 2\<rparr>\<rparr>\<rparr>"]
  by (simp add: relBallPosition_def geom_defs)

end
