(* ===== verification/Turning.thy ===== *)
theory Turning
  imports Robustness
begin

text \<open>
  A walker that turns only part of the commanded way. \<open>turnStep l\<close> is one cycle
  in which the robot stays where it is and turns by the fraction \<open>l\<close> of the
  heading that \<open>bishop\<close> commands, while the scene stands still; \<open>turnStep l ^^ n\<close>
  is \<open>n\<close> such cycles, each with a fresh command. \<open>partStep l\<close> is the cycle in
  which the robot also walks the fraction \<open>l\<close> of the commanded way.

  The lemmas show that the bearing of the ball, and with it the commanded
  heading, shrinks by the factor \<open>1 - l\<close> per cycle without ever leaving the
  normalised range, so that the robot ends up facing the ball as closely as
  one likes; and that \<open>partStep\<close> is a cycle of \<open>Cycle\<close>, which shrinks the distance
  to the assigned position by the same factor, is the cycle of the ideal
  walker for \<open>l = 1\<close>, and is \<open>turnStep\<close> for a robot that has arrived.
\<close>

section \<open>One cycle of turning\<close>

definition turnStep :: "real \<Rightarrow> DataSet \<Rightarrow> DataSet" where
  "turnStep l d = turnRobot (l * heading (targetPose (body (bishop d)))) d"

definition partStep :: "real \<Rightarrow> DataSet \<Rightarrow> DataSet" where
  "partStep l d =
     d\<lparr>robotPosition :=
         \<lparr>Pose.position =
            advance l (robotPosition d) (Pose.position (targetPose (body (bishop d)))),
          heading = heading (robotPosition d) + l * heading (targetPose (body (bishop d)))\<rparr>\<rparr>"

section \<open>The bearing after turning\<close>

lemma turnStep_sel [simp]:
  "Pose.position (robotPosition (turnStep l d)) = Pose.position (robotPosition d)"
  "teamBallModel (turnStep l d) = teamBallModel d"
  "bishopPosition (turnStep l d) = bishopPosition d"
  by (simp_all add: turnStep_def)

lemma relBallAngle_turnStep:
  "relBallAngle (turnStep l d) = (1 - l) * relBallAngle d" if "0 \<le> l" and "l \<le> 1"
proof (cases "TeamBallModel.position (teamBallModel d) = Pose.position (robotPosition d)")
  case True
  then have "relBallAngle (turnRobot e d) = 0" for e
    by (rule relBallAngle_turnRobot_coincide)
  from this [of 0] this [of "l * relBallAngle d"] show ?thesis
    by (simp add: turnStep_def)
next
  case False
  have "- pi < (1 - l) * relBallAngle d \<and> (1 - l) * relBallAngle d \<le> pi"
    using that atan2_range by (intro part_of_angle) (simp_all add: relBallAngle_def)
  then have "relBallAngle (turnRobot (l * relBallAngle d) d) = relBallAngle d - l * relBallAngle d"
    using False by (intro relBallAngle_turnRobot) (simp_all add: algebra_simps)
  then show ?thesis
    by (simp add: turnStep_def algebra_simps)
qed

lemma robotPosition_turnStep:
  "robotPosition (turnStep l d)
     = (robotPosition d)\<lparr>heading := heading (robotPosition d) + l * relBallAngle d\<rparr>"
  by (simp add: turnStep_def turnRobot_def)

lemma relBallAngle_turnStep_funpow:
  "relBallAngle ((turnStep l ^^ n) d) = (1 - l) ^ n * relBallAngle d" if "0 \<le> l" and "l \<le> 1"
  by (induction n) (simp_all add: relBallAngle_turnStep [OF that])

lemma turnStep_funpow_sel [simp]:
  "Pose.position (robotPosition ((turnStep l ^^ n) d)) = Pose.position (robotPosition d)"
  "teamBallModel ((turnStep l ^^ n) d) = teamBallModel d"
  "bishopPosition ((turnStep l ^^ n) d) = bishopPosition d"
  by (induction n) simp_all

section \<open>Walking and turning in one cycle\<close>

lemma walk_step_partStep: "walk_step l d (partStep l d)" if "0 \<le> l" and "l \<le> 1"
proof -
  have "walk_step l d (d\<lparr>robotPosition :=
           \<lparr>Pose.position =
              advance l (robotPosition d) (Pose.position (targetPose (body (bishop d)))),
            heading = heading (robotPosition d) + l * heading (targetPose (body (bishop d)))\<rparr>,
         teamBallModel := teamBallModel d\<rparr>)"
    using that by (rule walk_step.progress)
  then show ?thesis
    by (simp add: partStep_def)
qed

lemma offTarget_partStep: "offTarget (partStep l d) = (1 - l) * offTarget d" if "0 \<le> l" and "l \<le> 1"
  using walk_step_partStep [OF that] by (rule walk_step_offTarget_eq)

lemma brisk_run_partStep: "brisk_run l n d ((partStep l ^^ n) d)" if "0 \<le> l" and "l \<le> 1"
proof (induction n)
  case 0
  show ?case by (simp add: brisk_run.start)
next
  case (Suc n)
  show ?case
    by (simp add: brisk_run.step [OF Suc walk_step_partStep [OF that]])
qed

lemma partStep_sel [simp]:
  "Pose.position (robotPosition (partStep l d))
     = advance l (robotPosition d) (Pose.position (relPlayingPose d))"
  "heading (robotPosition (partStep l d)) = heading (robotPosition d) + l * relBallAngle d"
  "teamBallModel (partStep l d) = teamBallModel d"
  "bishopPosition (partStep l d) = bishopPosition d"
  by (simp_all add: partStep_def)

lemma partStep_funpow_sel [simp]:
  "teamBallModel ((partStep l ^^ n) d) = teamBallModel d"
  "bishopPosition ((partStep l ^^ n) d) = bishopPosition d"
  by (induction n) simp_all

lemma offTarget_partStep_funpow:
  "offTarget ((partStep l ^^ n) d) = (1 - l) ^ n * offTarget d" if "0 \<le> l" and "l \<le> 1"
  by (induction n) (simp_all add: offTarget_partStep [OF that])

lemma offTarget_partStep_funpow_le:
  "offTarget ((partStep l ^^ n) d) \<le> offTarget d" if "0 \<le> l" and "l \<le> 1"
  using that by (simp add: offTarget_partStep_funpow mult_left_le_one_le power_le_one)

lemma partStep_1: "partStep 1 d = idealStep d"
  by (simp add: partStep_def idealStep_def movePose_def)

lemma partStep_arrived: "partStep l d = turnStep l d"
  if "Pose.position (robotPosition d) = BishopPosition.position (bishopPosition d)"
proof -
  have "advance l (robotPosition d) (Pose.position (targetPose (body (bishop d))))
      = Pose.position (robotPosition d)"
    using that by (simp add: advance_def fieldToRobot_zero_iff [THEN iffD2])
  then show ?thesis
    by (simp add: partStep_def turnStep_def turnRobot_def)
qed

section \<open>The commanded heading shrinks\<close>

text \<open>
  Turning part of the commanded way leaves the rest: after a cycle in
  which the robot has turned by the fraction \<open>l\<close> of the commanded heading,
  \<open>bishop\<close> commands the heading \<open>1 - l\<close> times the former one, with no jump at
  the ends of the normalised range, and the same position turned back by the
  angle covered.
\<close>

lemma bishop_turnStep:
  assumes "0 \<le> l" and "l \<le> 1"
  shows "heading (targetPose (body (bishop (turnStep l d))))
           = (1 - l) * heading (targetPose (body (bishop d)))
       \<and> Pose.position (targetPose (body (bishop (turnStep l d))))
           = rotate (- (l * heading (targetPose (body (bishop d)))))
               (Pose.position (targetPose (body (bishop d))))"
  unfolding bishop_def
  by (simp add: cmd_defs relBallAngle_turnStep [OF assms] robotPosition_turnStep
      fieldToRobot_turn)

text \<open>
  A robot that turns at least the fraction \<open>l > 0\<close> of the commanded heading
  in every cycle ends up facing the ball: for every tolerance \<open>e > 0\<close> there is
  a number of cycles after which the heading that \<open>bishop\<close> commands stays
  within \<open>e\<close> of zero.
\<close>

lemma turnStep_eventually_faces_ball:
  assumes "0 < l" and "l \<le> 1" and "0 < e"
  shows "\<exists>N. \<forall>n. N \<le> n \<longrightarrow> \<bar>heading (targetPose (body (bishop ((turnStep l ^^ n) d))))\<bar> < e"
proof -
  obtain N where N: "(1 - l) ^ N * \<bar>relBallAngle d\<bar> < e"
  proof (cases "relBallAngle d = 0")
    case True
    with assms that [of 0] show ?thesis by simp
  next
    case False
    with assms obtain N where "(1 - l) ^ N < e / \<bar>relBallAngle d\<bar>"
      using real_arch_pow_inv [of "e / \<bar>relBallAngle d\<bar>" "1 - l"] by auto
    with False that [of N] show ?thesis by (simp add: field_simps)
  qed
  show ?thesis
  proof (intro exI [of _ N] allI impI)
    fix n
    assume "N \<le> n"
    have "\<bar>heading (targetPose (body (bishop ((turnStep l ^^ n) d))))\<bar>
        = (1 - l) ^ n * \<bar>relBallAngle d\<bar>"
      unfolding bishop_def relPlayingPose_def using assms
      by (simp add: cmd_defs relBallAngle_turnStep_funpow abs_mult)
    also have "\<dots> \<le> (1 - l) ^ N * \<bar>relBallAngle d\<bar>"
      using \<open>N \<le> n\<close> assms by (intro mult_right_mono power_decreasing) simp_all
    finally show "\<bar>heading (targetPose (body (bishop ((turnStep l ^^ n) d))))\<bar> < e"
      using N by simp
  qed
qed

end
