(* ===== verification/Approach.thy ===== *)
theory Approach
  imports Turning
begin

text \<open>
  Where the robot is told to face while it is on its way. The heading of the
  target pose is the bearing of the ball from the robot's present position;
  the bearing that the robot needs once it stands at the assigned position is
  that of the ball from there. \<open>commandedFacing\<close> is the first direction and
  \<open>finalFacing\<close> the second, both as points of the unit circle in the field
  frame.

  The lemmas show that the two directions differ by at most twice the
  distance still to go, relative to the distance between the assigned
  position and the ball, and hence that along a run with a least progress per
  cycle the commanded direction converges to the final one. For the robot
  that walks and turns a fixed part of the commanded way (\<open>partStep\<close>), the
  heading that remains to be turned obeys a contraction with a vanishing
  disturbance: it shrinks by the factor \<open>1 - l\<close> per cycle, up to the angle by
  which the step of that cycle moves the direction of the ball.
\<close>

section \<open>Directions in the field frame\<close>

definition commandedFacing :: "DataSet \<Rightarrow> complex" where
  "commandedFacing d = cis (heading (robotPosition d) + heading (targetPose (body (bishop d))))"

definition finalFacing :: "DataSet \<Rightarrow> complex" where
  "finalFacing d =
     sgn (toComplex (TeamBallModel.position (teamBallModel d))
            - toComplex (BishopPosition.position (bishopPosition d)))"

section \<open>The commanded direction points from the robot to the ball\<close>

lemma commandedFacing_ball:
  "commandedFacing d
     = sgn (toComplex (TeamBallModel.position (teamBallModel d))
              - toComplex (Pose.position (robotPosition d)))"
  if "TeamBallModel.position (teamBallModel d) \<noteq> Pose.position (robotPosition d)"
  using that by (simp add: commandedFacing_def cis_field_heading)

lemma facing_lag:
  "dist (commandedFacing d) (finalFacing d)
     \<le> 2 * offTarget d
         / dist (toComplex (TeamBallModel.position (teamBallModel d)))
                (toComplex (BishopPosition.position (bishopPosition d)))"
  if "TeamBallModel.position (teamBallModel d) \<noteq> Pose.position (robotPosition d)"
    and "TeamBallModel.position (teamBallModel d) \<noteq> BishopPosition.position (bishopPosition d)"
  using that direction_lag [of "toComplex (TeamBallModel.position (teamBallModel d))"
      "toComplex (Pose.position (robotPosition d))"
      "toComplex (BishopPosition.position (bishopPosition d))"]
  by (simp add: commandedFacing_ball finalFacing_def offTarget_def)

section \<open>The direction that is commanded on the way\<close>

text \<open>
  C24. The heading of the target pose lags behind the heading needed at the
  assigned position by no more than the distance still to go allows: in the
  field frame, the direction that the robot is told to face and the direction
  from the assigned position to the ball are, as points of the unit circle,
  at most twice the distance between the robot and the assigned position,
  divided by the distance between the assigned position and the ball, apart.
  For a robot that has arrived they are equal.
\<close>

theorem relPlayingPose_facing_lag:
  assumes "TeamBallModel.position (teamBallModel d) \<noteq> Pose.position (robotPosition d)"
    and "TeamBallModel.position (teamBallModel d) \<noteq> BishopPosition.position (bishopPosition d)"
  shows "dist (cis (heading (robotPosition d) + heading (relPlayingPose d))) (finalFacing d)
       \<le> 2 * offTarget d
           / dist (toComplex (TeamBallModel.position (teamBallModel d)))
                  (toComplex (BishopPosition.position (bishopPosition d)))"
proof -
  have "cis (heading (robotPosition d) + heading (relPlayingPose d))
      = sgn (toComplex (TeamBallModel.position (teamBallModel d))
               - toComplex (Pose.position (robotPosition d)))"
    unfolding relPlayingPose_def using assms(1) by (simp add: cis_field_heading)
  with assms direction_lag [of "toComplex (TeamBallModel.position (teamBallModel d))"
      "toComplex (Pose.position (robotPosition d))"
      "toComplex (BishopPosition.position (bishopPosition d))"]
  show ?thesis
    by (simp add: finalFacing_def offTarget_def)
qed

theorem relPlayingPose_facing_lag_witness:
  "dist (cis (heading \<lparr>Pose.position = \<lparr>x = 0, y = 0\<rparr>, heading = 0\<rparr>
              + heading (relPlayingPose
                  \<lparr>robotPosition = \<lparr>Pose.position = \<lparr>x = 0, y = 0\<rparr>, heading = 0\<rparr>,
                   teamBallModel = \<lparr>TeamBallModel.position = \<lparr>x = 8, y = 0\<rparr>\<rparr>,
                   bishopPosition = \<lparr>BishopPosition.position = \<lparr>x = 0, y = 1\<rparr>\<rparr>\<rparr>)))
        (finalFacing
           \<lparr>robotPosition = \<lparr>Pose.position = \<lparr>x = 0, y = 0\<rparr>, heading = 0\<rparr>,
            teamBallModel = \<lparr>TeamBallModel.position = \<lparr>x = 8, y = 0\<rparr>\<rparr>,
            bishopPosition = \<lparr>BishopPosition.position = \<lparr>x = 0, y = 1\<rparr>\<rparr>\<rparr>)
     \<le> 2 * 1 / sqrt 65"
  using relPlayingPose_facing_lag [of
      "\<lparr>robotPosition = \<lparr>Pose.position = \<lparr>x = 0, y = 0\<rparr>, heading = 0\<rparr>,
        teamBallModel = \<lparr>TeamBallModel.position = \<lparr>x = 8, y = 0\<rparr>\<rparr>,
        bishopPosition = \<lparr>BishopPosition.position = \<lparr>x = 0, y = 1\<rparr>\<rparr>\<rparr>"]
  by (simp add: offTarget_def dist_norm toComplex_def cmod_def)

section \<open>Convergence along a run\<close>

text \<open>
  C26. While the robot approaches the assigned position, the direction that it
  is told to face converges to the direction from the assigned position to
  the ball: after \<open>n\<close> cycles that each cover at least the fraction \<open>m\<close> of the
  commanded way, with the ball estimate at least \<open>r\<close> away from the assigned
  position and the robot closer than \<open>r\<close> to it, the two directions are at most
  \<open>2 * (1 - m) ^ n\<close> times the initial distance, divided by \<open>r\<close>, apart, however
  the robot turned and the ball estimate changed on the way.
\<close>

theorem brisk_run_facing:
  assumes "brisk_run m n d d'" and "m \<le> 1" and "0 < r"
    and "r \<le> dist (toComplex (TeamBallModel.position (teamBallModel d')))
                    (toComplex (BishopPosition.position (bishopPosition d')))"
    and "(1 - m) ^ n * offTarget d < r"
  shows "dist (commandedFacing d') (finalFacing d') \<le> 2 * ((1 - m) ^ n * offTarget d) / r"
proof -
  define D where "D = dist (toComplex (TeamBallModel.position (teamBallModel d')))
                           (toComplex (BishopPosition.position (bishopPosition d')))"
  have off: "offTarget d' \<le> (1 - m) ^ n * offTarget d"
    using assms(1,2) by (rule brisk_run_bound)
  with assms have "offTarget d' < D"
    by (simp add: D_def)
  then have "TeamBallModel.position (teamBallModel d') \<noteq> Pose.position (robotPosition d')"
    by (auto simp: D_def offTarget_def dist_commute)
  moreover have "TeamBallModel.position (teamBallModel d') \<noteq> BishopPosition.position (bishopPosition d')"
    using assms(3,4) by auto
  ultimately have "dist (commandedFacing d') (finalFacing d') \<le> 2 * offTarget d' / D"
    unfolding D_def by (rule facing_lag)
  also have "\<dots> \<le> 2 * ((1 - m) ^ n * offTarget d) / r"
    using off order_trans [OF offTarget_nonneg off] assms(3,4)
    by (intro frac_le) (simp_all add: D_def)
  finally show ?thesis .
qed

theorem brisk_run_facing_witness:
  "dist (commandedFacing (partStep (1 / 2)
           \<lparr>robotPosition = \<lparr>Pose.position = \<lparr>x = 0, y = 0\<rparr>, heading = 0\<rparr>,
            teamBallModel = \<lparr>TeamBallModel.position = \<lparr>x = 2, y = 0\<rparr>\<rparr>,
            bishopPosition = \<lparr>BishopPosition.position = \<lparr>x = 0, y = 1\<rparr>\<rparr>\<rparr>))
        (finalFacing (partStep (1 / 2)
           \<lparr>robotPosition = \<lparr>Pose.position = \<lparr>x = 0, y = 0\<rparr>, heading = 0\<rparr>,
            teamBallModel = \<lparr>TeamBallModel.position = \<lparr>x = 2, y = 0\<rparr>\<rparr>,
            bishopPosition = \<lparr>BishopPosition.position = \<lparr>x = 0, y = 1\<rparr>\<rparr>\<rparr>)) \<le> 1 / 2"
  using brisk_run_facing [OF brisk_run_partStep [of "1 / 2" "Suc 0"], of 2
      "\<lparr>robotPosition = \<lparr>Pose.position = \<lparr>x = 0, y = 0\<rparr>, heading = 0\<rparr>,
        teamBallModel = \<lparr>TeamBallModel.position = \<lparr>x = 2, y = 0\<rparr>\<rparr>,
        bishopPosition = \<lparr>BishopPosition.position = \<lparr>x = 0, y = 1\<rparr>\<rparr>\<rparr>"]
  by (simp add: offTarget_def dist_norm toComplex_def cmod_def real_le_rsqrt)

section \<open>The heading of a robot that walks and turns\<close>

lemma far_from_ball:
  "r \<le> dist (toComplex (TeamBallModel.position (teamBallModel d)))
              (toComplex (Pose.position (robotPosition d)))"
  if "offTarget d + r \<le> dist (toComplex (TeamBallModel.position (teamBallModel d)))
                               (toComplex (BishopPosition.position (bishopPosition d)))"
  using that
    dist_triangle [of "toComplex (TeamBallModel.position (teamBallModel d))"
      "toComplex (BishopPosition.position (bishopPosition d))"
      "toComplex (Pose.position (robotPosition d))"]
  by (simp add: offTarget_def dist_commute)

lemma partStep_far:
  "r \<le> dist (toComplex (TeamBallModel.position (teamBallModel d)))
              (toComplex (Pose.position (robotPosition (partStep l d))))"
  if "0 \<le> l" and "l \<le> 1"
    and "offTarget d + r \<le> dist (toComplex (TeamBallModel.position (teamBallModel d)))
                                 (toComplex (BishopPosition.position (bishopPosition d)))"
proof -
  have "offTarget (partStep l d) \<le> offTarget d"
    by (rule walk_step_offTarget [OF walk_step_partStep [OF that(1,2)]])
  with that(3) show ?thesis
    using far_from_ball [of "partStep l d" r] by simp
qed

lemma cis_relBallAngle_partStep:
  assumes "TeamBallModel.position (teamBallModel d) \<noteq> Pose.position (robotPosition d)"
    and "TeamBallModel.position (teamBallModel d) \<noteq> Pose.position (robotPosition (partStep l d))"
  shows "dist (cis (relBallAngle (partStep l d))) (cis ((1 - l) * relBallAngle d))
       = norm (sgn (toComplex (TeamBallModel.position (teamBallModel d))
                      - toComplex (Pose.position (robotPosition (partStep l d))))
               - sgn (toComplex (TeamBallModel.position (teamBallModel d))
                        - toComplex (Pose.position (robotPosition d))))"
proof -
  define h e e' where "h = heading (robotPosition d)" and "e = relBallAngle d"
    and "e' = relBallAngle (partStep l d)"
  have "cis ((1 - l) * e) = cis (h + e) * cis (- h - l * e)"
    "cis e' = cis (h + l * e + e') * cis (- h - l * e)"
    by (simp_all add: cis_mult algebra_simps)
  then show ?thesis
    using cis_field_heading [OF assms(1)] cis_field_heading [of "partStep l d"] assms(2)
    by (simp add: h_def e_def e'_def dist_norm norm_mult flip: left_diff_distrib)
qed

lemma relBallAngle_partStep_bound:
  assumes "0 \<le> l" and "l \<le> 1" and "0 < r"
    and "offTarget d + r \<le> dist (toComplex (TeamBallModel.position (teamBallModel d)))
                                 (toComplex (BishopPosition.position (bishopPosition d)))"
  shows "\<bar>relBallAngle (partStep l d)\<bar> \<le> (1 - l) * \<bar>relBallAngle d\<bar> + pi * l * offTarget d / r"
proof -
  define zb zr zr' where "zb = toComplex (TeamBallModel.position (teamBallModel d))"
    and "zr = toComplex (Pose.position (robotPosition d))"
    and "zr' = toComplex (Pose.position (robotPosition (partStep l d)))"
  have far: "r \<le> dist zb zr" "r \<le> dist zb zr'"
    unfolding zb_def zr_def zr'_def
    by (rule far_from_ball [OF assms(4)] partStep_far [OF assms(1,2,4)])+
  with \<open>0 < r\<close> have "zb \<noteq> zr" "zb \<noteq> zr'"
    by auto
  then have "dist (cis (relBallAngle (partStep l d))) (cis ((1 - l) * relBallAngle d))
      = norm (sgn (zb - zr') - sgn (zb - zr))"
    unfolding zb_def zr_def zr'_def by (intro cis_relBallAngle_partStep) auto
  also have "\<dots> \<le> 2 * norm ((zb - zr') - (zb - zr)) / norm (zb - zr)"
    using \<open>zb \<noteq> zr\<close> \<open>zb \<noteq> zr'\<close> by (intro sgn_diff_bound) simp_all
  also have "norm ((zb - zr') - (zb - zr)) = l * offTarget d"
    using assms(1)
    by (simp add: zr_def zr'_def toComplex_advance offTarget_def dist_norm norm_mult norm_minus_commute)
  also have "2 * (l * offTarget d) / norm (zb - zr) \<le> 2 * (l * offTarget d) / r"
    using far assms(1,3) by (intro frac_le) (simp_all add: dist_norm)
  finally have "dist (cis (relBallAngle (partStep l d))) (cis ((1 - l) * relBallAngle d))
      \<le> 2 * (l * offTarget d / r)"
    by simp
  moreover have "- pi < relBallAngle (partStep l d)" "relBallAngle (partStep l d) \<le> pi"
    unfolding relBallAngle_def by (rule atan2_gt atan2_le)+
  ultimately have "\<bar>relBallAngle (partStep l d)\<bar>
      \<le> \<bar>(1 - l) * relBallAngle d\<bar> + pi * (l * offTarget d / r)"
    by (intro abs_le_abs_chord)
  then show ?thesis
    using assms(2) by (simp add: abs_mult)
qed

text \<open>
  The heading that remains to be turned decays: after \<open>n\<close> cycles of a robot
  that walks and turns the fraction \<open>l\<close> of the commanded way, \<open>relBallAngle\<close> is in
  absolute value at most \<open>(1 - l) ^ n\<close> times the initial one plus
  \<open>n * (1 - l) ^ (n - 1)\<close> times \<open>pi * l\<close> times the initial distance to the assigned
  position divided by \<open>r\<close>, if the ball is further from the assigned position
  than the robot is, by at least \<open>r\<close>.
\<close>

lemma partStep_heading_decay:
  assumes "0 \<le> l" and "l \<le> 1" and "0 < r"
    and "offTarget d + r \<le> dist (toComplex (TeamBallModel.position (teamBallModel d)))
                                 (toComplex (BishopPosition.position (bishopPosition d)))"
  shows "\<bar>relBallAngle ((partStep l ^^ n) d)\<bar>
       \<le> (1 - l) ^ n * \<bar>relBallAngle d\<bar> + real n * (1 - l) ^ (n - 1) * (pi * l * offTarget d / r)"
proof (induction n)
  case 0
  show ?case by simp
next
  case (Suc n)
  let ?d = "(partStep l ^^ n) d"
  define c where "c = pi * l * offTarget d / r"
  have "offTarget ?d + r \<le> dist (toComplex (TeamBallModel.position (teamBallModel ?d)))
                                 (toComplex (BishopPosition.position (bishopPosition ?d)))"
    using assms(4) offTarget_partStep_funpow_le [OF assms(1,2), of n d] by simp
  from relBallAngle_partStep_bound [OF assms(1,2,3) this]
  have "\<bar>relBallAngle (partStep l ?d)\<bar> \<le> (1 - l) * \<bar>relBallAngle ?d\<bar> + (1 - l) ^ n * c"
    by (simp add: offTarget_partStep_funpow [OF assms(1,2)] c_def algebra_simps)
  also have "\<dots> \<le> (1 - l) * ((1 - l) ^ n * \<bar>relBallAngle d\<bar> + real n * (1 - l) ^ (n - 1) * c)
                 + (1 - l) ^ n * c"
    using Suc.IH assms(2) unfolding c_def by (intro add_right_mono mult_left_mono) simp_all
  also have "\<dots> = (1 - l) ^ Suc n * \<bar>relBallAngle d\<bar> + real (Suc n) * (1 - l) ^ n * c"
    by (cases n) (simp_all add: algebra_simps)
  finally show ?case
    by (simp add: c_def)
qed

text \<open>
  C27. A robot that walks and turns a fraction \<open>l > 0\<close> of the commanded way in
  every cycle ends up facing the ball: if the ball is further from the
  assigned position than the robot is, then for every tolerance \<open>e > 0\<close> there
  is a number of cycles after which the heading that \<open>bishop\<close> commands,
  \<open>relBallAngle\<close>, stays within \<open>e\<close> of zero.
\<close>

theorem partStep_eventually_faces_ball:
  assumes "0 < l" and "l \<le> 1" and "0 < r" and "0 < e"
    and "offTarget d + r \<le> dist (toComplex (TeamBallModel.position (teamBallModel d)))
                                 (toComplex (BishopPosition.position (bishopPosition d)))"
  shows "\<exists>N. \<forall>n\<ge>N. \<bar>relBallAngle ((partStep l ^^ n) d)\<bar> < e"
proof -
  define f where "f n = (1 - l) ^ n * \<bar>relBallAngle d\<bar>
      + real n * (1 - l) ^ (n - 1) * (pi * l * offTarget d / r)" for n
  have "f \<longlonglongrightarrow> 0"
    unfolding f_def using assms(1,2) by (intro decay_limit) simp_all
  with \<open>0 < e\<close> obtain N where N: "\<forall>n\<ge>N. norm (f n - 0) < e"
    using LIMSEQ_D by blast
  have bound: "\<bar>relBallAngle ((partStep l ^^ n) d)\<bar> \<le> f n" for n
    unfolding f_def using assms(1,2,3,5) by (intro partStep_heading_decay) simp_all
  show ?thesis
  proof (intro exI [of _ N] allI impI)
    fix n
    assume "N \<le> n"
    with N have "\<bar>f n\<bar> < e"
      by simp
    with bound [of n] show "\<bar>relBallAngle ((partStep l ^^ n) d)\<bar> < e"
      by linarith
  qed
qed

theorem partStep_eventually_faces_ball_witness:
  "\<exists>N. \<forall>n\<ge>N. \<bar>relBallAngle ((partStep (1 / 2) ^^ n)
        \<lparr>robotPosition = \<lparr>Pose.position = \<lparr>x = 0, y = 0\<rparr>, heading = 0\<rparr>,
         teamBallModel = \<lparr>TeamBallModel.position = \<lparr>x = 0, y = 4\<rparr>\<rparr>,
         bishopPosition = \<lparr>BishopPosition.position = \<lparr>x = 1, y = 0\<rparr>\<rparr>\<rparr>)\<bar> < 1 / 100"
  using partStep_eventually_faces_ball [of "1 / 2" 3 "1 / 100"
        "\<lparr>robotPosition = \<lparr>Pose.position = \<lparr>x = 0, y = 0\<rparr>, heading = 0\<rparr>,
          teamBallModel = \<lparr>TeamBallModel.position = \<lparr>x = 0, y = 4\<rparr>\<rparr>,
          bishopPosition = \<lparr>BishopPosition.position = \<lparr>x = 1, y = 0\<rparr>\<rparr>\<rparr>"]
  by (simp add: offTarget_def dist_norm toComplex_def cmod_def real_le_rsqrt power2_eq_square)

end
