(* ===== verification/Special_Values.thy ===== *)
theory Special_Values
  imports Bearing
begin

text \<open>
  The values of a C++ \<^verbatim>\<open>float\<close> that are not numbers. \<open>floatX\<close> adds the two
  infinities and NaN to the reals, and the arithmetic that the role function
  uses is defined on it by the rules of IEEE 754 and of the C library for
  these values: NaN is absorbing, the difference of equal infinities and the
  product of zero and an infinity are NaN, the cosine and the sine of an
  infinity are NaN, and \<^verbatim>\<open>atan2\<close> of infinite arguments is a finite angle. On
  finite arguments every operation is the operation on reals: rounding,
  overflow of a finite result and the sign of zero are not modelled.

  The lemmas show that NaN is absorbing and characterise, for every operation,
  when its result is finite.
\<close>

section \<open>Values and arithmetic\<close>

datatype floatX = Finite float | PInf | MInf | NaN

instantiation floatX :: "{zero, uminus, plus, minus, times}"
begin

definition zero_floatX :: floatX where
  "0 = Finite 0"

fun uminus_floatX :: "floatX \<Rightarrow> floatX" where
  "- Finite a = Finite (- a)"
| "- PInf = MInf"
| "- MInf = PInf"
| "- NaN = NaN"

fun plus_floatX :: "floatX \<Rightarrow> floatX \<Rightarrow> floatX" where
  "Finite a + Finite b = Finite (a + b)"
| "NaN + b = NaN"
| "a + NaN = NaN"
| "PInf + MInf = NaN"
| "MInf + PInf = NaN"
| "PInf + b = PInf"
| "a + PInf = PInf"
| "MInf + b = MInf"
| "a + MInf = MInf"

definition minus_floatX :: "floatX \<Rightarrow> floatX \<Rightarrow> floatX" where
  "minus_floatX a b = a + - b"

fun times_floatX :: "floatX \<Rightarrow> floatX \<Rightarrow> floatX" where
  "Finite a * Finite b = Finite (a * b)"
| "NaN * b = NaN"
| "a * NaN = NaN"
| "PInf * Finite b = (if b = 0 then NaN else if 0 < b then PInf else MInf)"
| "MInf * Finite b = (if b = 0 then NaN else if 0 < b then MInf else PInf)"
| "Finite a * PInf = (if a = 0 then NaN else if 0 < a then PInf else MInf)"
| "Finite a * MInf = (if a = 0 then NaN else if 0 < a then MInf else PInf)"
| "PInf * PInf = PInf"
| "PInf * MInf = MInf"
| "MInf * PInf = MInf"
| "MInf * MInf = PInf"

instance ..

end

fun cosX :: "floatX \<Rightarrow> floatX" where
  "cosX (Finite a) = Finite (cos a)"
| "cosX _ = NaN"

fun sinX :: "floatX \<Rightarrow> floatX" where
  "sinX (Finite a) = Finite (sin a)"
| "sinX _ = NaN"

fun atan2X :: "floatX \<Rightarrow> floatX \<Rightarrow> floatX" where
  "atan2X (Finite b) (Finite a) = Finite (atan2 b a)"
| "atan2X NaN a = NaN"
| "atan2X b NaN = NaN"
| "atan2X (Finite b) PInf = Finite 0"
| "atan2X (Finite b) MInf = Finite (if 0 \<le> b then pi else - pi)"
| "atan2X PInf (Finite a) = Finite (pi / 2)"
| "atan2X MInf (Finite a) = Finite (- (pi / 2))"
| "atan2X PInf PInf = Finite (pi / 4)"
| "atan2X PInf MInf = Finite (3 * pi / 4)"
| "atan2X MInf PInf = Finite (- (pi / 4))"
| "atan2X MInf MInf = Finite (- (3 * pi / 4))"

fun isFinite :: "floatX \<Rightarrow> bool" where
  "isFinite (Finite a) = True"
| "isFinite _ = False"

fun isNaN :: "floatX \<Rightarrow> bool" where
  "isNaN NaN = True"
| "isNaN _ = False"

section \<open>NaN is absorbing\<close>

lemma NaN_absorbing [simp]:
  "a + NaN = NaN" "a - NaN = NaN" "NaN - a = NaN" "a * NaN = NaN" "atan2X a NaN = NaN"
  by (cases a; simp add: minus_floatX_def)+

lemma isNaN_iff [simp]: "isNaN a \<longleftrightarrow> a = NaN"
  by (cases a) simp_all

lemma isFinite_iff: "isFinite a \<longleftrightarrow> (\<exists>r. a = Finite r)"
  by (cases a) simp_all

section \<open>Finite results\<close>

lemma Finite_minus [simp]: "Finite a - Finite b = Finite (a - b)"
  by (simp add: minus_floatX_def)

lemma isFinite_uminus [simp]: "isFinite (- a) \<longleftrightarrow> isFinite a"
  by (cases a) simp_all

lemma isFinite_plus [simp]: "isFinite (a + b) \<longleftrightarrow> isFinite a \<and> isFinite b"
  by (cases a; cases b) simp_all

lemma isFinite_minus [simp]: "isFinite (a - b) \<longleftrightarrow> isFinite a \<and> isFinite b"
  by (simp add: minus_floatX_def)

lemma isFinite_times [simp]: "isFinite (a * b) \<longleftrightarrow> isFinite a \<and> isFinite b"
  by (cases a; cases b) simp_all

lemma isFinite_cosX [simp]: "isFinite (cosX a) \<longleftrightarrow> isFinite a"
  and isFinite_sinX [simp]: "isFinite (sinX a) \<longleftrightarrow> isFinite a"
  by (cases a; simp)+

lemma isFinite_atan2X [simp]: "isFinite (atan2X b a) \<longleftrightarrow> a \<noteq> NaN \<and> b \<noteq> NaN"
  by (cases a; cases b) simp_all

section \<open>Infinite operands\<close>

lemma PInf_minus_Finite [simp]: "PInf - Finite a = PInf" "MInf - Finite a = MInf"
  "Finite a - PInf = MInf" "Finite a - MInf = PInf"
  by (simp_all add: minus_floatX_def)

lemma Inf_plus_Finite [simp]: "PInf + Finite a = PInf" "MInf + Finite a = MInf"
  "Finite a + PInf = PInf" "Finite a + MInf = MInf"
  by simp_all

lemma cosX_uminus [simp]: "cosX (- a) = cosX a"
  and sinX_uminus [simp]: "sinX (- a) = - sinX a"
  by (cases a; simp)+

end
