(* ===== verification/Bishop_Special.thy ===== *)
theory Bishop_Special
  imports Special_Values Bishop
begin

text \<open>
  The three locals of \<^verbatim>\<open>bishop\<close> of \<^verbatim>\<open>Roles/Bishop.hpp\<close> once more, this time over
  \<open>floatX\<close>: the statements of lines 6 to 8, with every number of the snapshot
  allowed to be an infinity or NaN, as the estimators can deliver them. The
  records and the frame change are those of \<open>Geometry\<close> and \<open>Units\<close> with
  \<open>floatX\<close> in place of \<open>float\<close>; \<open>embedD\<close> reads a snapshot over the reals as one
  over \<open>floatX\<close>. The returned command is not modelled a second time: the calls
  of line 9 only pass the target pose on.

  The lemmas show that a NaN of an input reaches exactly the parts of the
  target pose that are computed from that input, that the target position is
  finite exactly when its inputs are, and that an infinite ball coordinate
  makes the ball in the robot frame infinite but the commanded heading a
  finite angle. They hold for the arithmetic of \<open>Special_Values\<close>, which has one
  zero and no overflow: finite inputs near the largest \<^verbatim>\<open>float\<close> can overflow
  in the frame change of the code, and for them the direction of
  \<open>relPlayingPoseX_finite_iff\<close> from finite inputs to a finite result does not
  speak about the code.
\<close>

section \<open>Data\<close>

record Vector2fX =
  xX :: floatX
  yX :: floatX

record PoseX =
  positionX :: Vector2fX
  headingX :: floatX

record TeamBallModelX =
  positionX :: Vector2fX

record BishopPositionX =
  positionX :: Vector2fX

record DataSetX =
  robotPositionX :: PoseX
  teamBallModelX :: TeamBallModelX
  bishopPositionX :: BishopPositionX

section \<open>Primitives\<close>

definition rotateX :: "floatX \<Rightarrow> Vector2fX \<Rightarrow> Vector2fX" where
  "rotateX a v =
     \<lparr>xX = xX v * cosX a - yX v * sinX a, yX = xX v * sinX a + yX v * cosX a\<rparr>"

definition fieldToRobotX :: "PoseX \<Rightarrow> Vector2fX \<Rightarrow> Vector2fX" where
  "fieldToRobotX p q =
     rotateX (- headingX p)
       \<lparr>xX = xX q - xX (PoseX.positionX p), yX = yX q - yX (PoseX.positionX p)\<rparr>"

section \<open>The function\<close>

definition relBallPositionX :: "DataSetX \<Rightarrow> Vector2fX" where
  "relBallPositionX d =
     fieldToRobotX (robotPositionX d) (TeamBallModelX.positionX (teamBallModelX d))"

definition relBallAngleX :: "DataSetX \<Rightarrow> floatX" where
  "relBallAngleX d = atan2X (yX (relBallPositionX d)) (xX (relBallPositionX d))"

definition relPlayingPoseX :: "DataSetX \<Rightarrow> PoseX" where
  "relPlayingPoseX d =
     \<lparr>PoseX.positionX =
        fieldToRobotX (robotPositionX d) (BishopPositionX.positionX (bishopPositionX d)),
      headingX = relBallAngleX d\<rparr>"

section \<open>Finite and invalid snapshots\<close>

definition embedV :: "Vector2f \<Rightarrow> Vector2fX" where
  "embedV v = \<lparr>xX = Finite (x v), yX = Finite (y v)\<rparr>"

definition embedP :: "Pose \<Rightarrow> PoseX" where
  "embedP p = \<lparr>PoseX.positionX = embedV (Pose.position p), headingX = Finite (heading p)\<rparr>"

definition embedD :: "DataSet \<Rightarrow> DataSetX" where
  "embedD d =
     \<lparr>robotPositionX = embedP (robotPosition d),
      teamBallModelX =
        \<lparr>TeamBallModelX.positionX = embedV (TeamBallModel.position (teamBallModel d))\<rparr>,
      bishopPositionX =
        \<lparr>BishopPositionX.positionX = embedV (BishopPosition.position (bishopPosition d))\<rparr>\<rparr>"

definition finiteV :: "Vector2fX \<Rightarrow> bool" where
  "finiteV v \<longleftrightarrow> isFinite (xX v) \<and> isFinite (yX v)"

definition finiteP :: "PoseX \<Rightarrow> bool" where
  "finiteP p \<longleftrightarrow> finiteV (PoseX.positionX p) \<and> isFinite (headingX p)"

definition nanV :: "Vector2fX \<Rightarrow> bool" where
  "nanV v \<longleftrightarrow> xX v = NaN \<or> yX v = NaN"

definition nanP :: "PoseX \<Rightarrow> bool" where
  "nanP p \<longleftrightarrow> nanV (PoseX.positionX p) \<or> headingX p = NaN"

section \<open>Frame change of finite and of invalid values\<close>

lemma embed_make [simp]:
  "embedV \<lparr>x = a, y = b\<rparr> = \<lparr>xX = Finite a, yX = Finite b\<rparr>"
  "embedP \<lparr>Pose.position = v, heading = h\<rparr> = \<lparr>PoseX.positionX = embedV v, headingX = Finite h\<rparr>"
  by (simp_all add: embedV_def embedP_def)

lemma fieldToRobotX_embed [simp]:
  "fieldToRobotX (embedP p) (embedV q) = embedV (fieldToRobot p q)"
  by (simp add: fieldToRobotX_def fieldToRobot_def embedP_def embedV_def rotateX_def rotate_def)

lemma isFinite_fieldToRobotX:
  "isFinite (xX (fieldToRobotX p q)) \<longleftrightarrow> finiteP p \<and> finiteV q"
  "isFinite (yX (fieldToRobotX p q)) \<longleftrightarrow> finiteP p \<and> finiteV q"
  by (auto simp: fieldToRobotX_def rotateX_def finiteP_def finiteV_def)

lemma finite_embed [simp]: "finiteV (embedV v)" "finiteP (embedP p)"
  by (simp_all add: finiteV_def finiteP_def embedV_def embedP_def)

lemma fieldToRobotX_nan:
  "xX (fieldToRobotX p q) = NaN \<and> yX (fieldToRobotX p q) = NaN" if "nanP p \<or> nanV q"
  using that by (auto simp: fieldToRobotX_def rotateX_def nanP_def nanV_def)

lemma embed_sel [simp]:
  "xX (embedV v) = Finite (x v)" "yX (embedV v) = Finite (y v)"
  "PoseX.positionX (embedP p) = embedV (Pose.position p)" "headingX (embedP p) = Finite (heading p)"
  "robotPositionX (embedD d) = embedP (robotPosition d)"
  "TeamBallModelX.positionX (teamBallModelX (embedD d))
     = embedV (TeamBallModel.position (teamBallModel d))"
  "BishopPositionX.positionX (bishopPositionX (embedD d))
     = embedV (BishopPosition.position (bishopPosition d))"
  by (simp_all add: embedV_def embedP_def embedD_def)

section \<open>Finite snapshots\<close>

text \<open>
  The model over \<open>floatX\<close> is conservative: on a snapshot whose numbers are all
  finite the target pose is the target pose over the reals.
\<close>

lemma relPlayingPoseX_embed: "relPlayingPoseX (embedD d) = embedP (relPlayingPose d)"
  unfolding relPlayingPoseX_def relBallAngleX_def relBallPositionX_def
  by (simp add: bishop_defs)

section \<open>Invalid inputs\<close>

text \<open>
  C10. The target position is valid exactly when what it is computed from is
  valid: each coordinate of the position of \<open>relPlayingPoseX\<close> is finite if and
  only if the two coordinates and the heading of the robot's pose estimate
  and the two coordinates of the assigned position are all finite. An
  infinity or a NaN in any of the five reaches both coordinates, and the ball
  has no influence.
\<close>

theorem relPlayingPoseX_finite_iff:
  "(isFinite (xX (PoseX.positionX (relPlayingPoseX d)))
      \<longleftrightarrow> finiteP (robotPositionX d) \<and> finiteV (BishopPositionX.positionX (bishopPositionX d)))
   \<and> (isFinite (yX (PoseX.positionX (relPlayingPoseX d)))
      \<longleftrightarrow> finiteP (robotPositionX d) \<and> finiteV (BishopPositionX.positionX (bishopPositionX d)))"
  unfolding relPlayingPoseX_def by (simp add: isFinite_fieldToRobotX)

text \<open>
  C11. NaN is passed on to what is computed from it and to nothing else: a NaN
  in the robot's pose estimate makes both coordinates and the heading of
  the target pose NaN; a NaN in the assigned position makes both coordinates
  of the target position NaN; a NaN in the ball position makes the target
  heading NaN and leaves the target position as it is.
\<close>

theorem relPlayingPoseX_NaN:
  "(nanP (robotPositionX d)
      \<longrightarrow> xX (PoseX.positionX (relPlayingPoseX d)) = NaN
        \<and> yX (PoseX.positionX (relPlayingPoseX d)) = NaN
        \<and> headingX (relPlayingPoseX d) = NaN)
   \<and> (nanV (BishopPositionX.positionX (bishopPositionX d))
      \<longrightarrow> xX (PoseX.positionX (relPlayingPoseX d)) = NaN
        \<and> yX (PoseX.positionX (relPlayingPoseX d)) = NaN)
   \<and> (nanV (TeamBallModelX.positionX (teamBallModelX d))
      \<longrightarrow> headingX (relPlayingPoseX d) = NaN
        \<and> PoseX.positionX (relPlayingPoseX d)
            = PoseX.positionX (relPlayingPoseX (d\<lparr>teamBallModelX := b\<rparr>)))"
  unfolding relPlayingPoseX_def relBallAngleX_def relBallPositionX_def
  by (simp add: fieldToRobotX_nan)

theorem relPlayingPoseX_NaN_witness:
  "xX (PoseX.positionX (relPlayingPoseX
       \<lparr>robotPositionX = \<lparr>PoseX.positionX = \<lparr>xX = Finite 0, yX = Finite 0\<rparr>, headingX = NaN\<rparr>,
        teamBallModelX = \<lparr>TeamBallModelX.positionX = \<lparr>xX = Finite 2, yX = Finite 0\<rparr>\<rparr>,
        bishopPositionX = \<lparr>BishopPositionX.positionX = \<lparr>xX = Finite 0, yX = Finite 2\<rparr>\<rparr>\<rparr>)) = NaN
   \<and> headingX (relPlayingPoseX
       \<lparr>robotPositionX = \<lparr>PoseX.positionX = \<lparr>xX = Finite 0, yX = Finite 0\<rparr>, headingX = NaN\<rparr>,
        teamBallModelX = \<lparr>TeamBallModelX.positionX = \<lparr>xX = Finite 2, yX = Finite 0\<rparr>\<rparr>,
        bishopPositionX = \<lparr>BishopPositionX.positionX = \<lparr>xX = Finite 0, yX = Finite 2\<rparr>\<rparr>\<rparr>) = NaN"
  using relPlayingPoseX_NaN [of
       "\<lparr>robotPositionX = \<lparr>PoseX.positionX = \<lparr>xX = Finite 0, yX = Finite 0\<rparr>, headingX = NaN\<rparr>,
         teamBallModelX = \<lparr>TeamBallModelX.positionX = \<lparr>xX = Finite 2, yX = Finite 0\<rparr>\<rparr>,
         bishopPositionX = \<lparr>BishopPositionX.positionX = \<lparr>xX = Finite 0, yX = Finite 2\<rparr>\<rparr>\<rparr>"]
  by (simp add: nanP_def)

section \<open>An infinite ball coordinate\<close>

text \<open>
  C12. An infinity is not passed on to the commanded heading: for a finite
  pose estimate of the robot and a ball whose abscissa is plus infinity and
  whose ordinate is finite, \<open>relBallAngleX\<close> is NaN only if the robot's heading is
  a multiple of a right angle (its cosine or sine is zero); for every other
  heading it is the finite angle of the diagonal of a quadrant, which is not
  the direction of the ball.
\<close>

theorem relBallAngleX_infinite_ball:
  assumes "robotPositionX d = embedP p"
    and "TeamBallModelX.positionX (teamBallModelX d) = \<lparr>xX = PInf, yX = Finite b\<rparr>"
  shows "relBallAngleX d =
     (if cos (heading p) = 0 \<or> sin (heading p) = 0 then NaN
      else if 0 < cos (heading p)
        then (if 0 < sin (heading p) then Finite (- (pi / 4)) else Finite (pi / 4))
        else (if 0 < sin (heading p) then Finite (- (3 * pi / 4)) else Finite (3 * pi / 4)))"
  unfolding relBallAngleX_def relBallPositionX_def
  by (simp add: assms fieldToRobotX_def rotateX_def)

theorem relBallAngleX_infinite_ball_witness:
  "relBallAngleX
     \<lparr>robotPositionX = embedP \<lparr>Pose.position = \<lparr>x = 0, y = 0\<rparr>, heading = pi / 6\<rparr>,
      teamBallModelX = \<lparr>TeamBallModelX.positionX = \<lparr>xX = PInf, yX = Finite 0\<rparr>\<rparr>,
      bishopPositionX = \<lparr>BishopPositionX.positionX = \<lparr>xX = Finite 0, yX = Finite 2\<rparr>\<rparr>\<rparr>
   = Finite (- (pi / 4))"
  using relBallAngleX_infinite_ball [of
     "\<lparr>robotPositionX = embedP \<lparr>Pose.position = \<lparr>x = 0, y = 0\<rparr>, heading = pi / 6\<rparr>,
       teamBallModelX = \<lparr>TeamBallModelX.positionX = \<lparr>xX = PInf, yX = Finite 0\<rparr>\<rparr>,
       bishopPositionX = \<lparr>BishopPositionX.positionX = \<lparr>xX = Finite 0, yX = Finite 2\<rparr>\<rparr>\<rparr>"
     "\<lparr>Pose.position = \<lparr>x = 0, y = 0\<rparr>, heading = pi / 6\<rparr>" 0]
  by (simp add: cos_30 sin_30)

end
