(* ===== verification/Rounding.thy ===== *)
theory Rounding
  imports Bishop
begin

text \<open>
  The role function with rounding: lines 6 to 9 of \<^verbatim>\<open>bishop\<close> once more, with the
  value that each of its three floating-point computations delivers (the ball
  in the robot frame, its bearing, the assigned position in the robot frame)
  written as the exact result plus an error. The three errors are the fields
  of a parameter of type \<open>Rounding\<close>; for the errors that the arithmetic commits
  in a call, the definitions give the values that the code computes.
  How large they are depends on the arithmetic inside \<^verbatim>\<open>fieldToRobot\<close> and
  \<^verbatim>\<open>std::atan2\<close>, which the sources do not contain; how they act on the command
  does not.

  The lemmas show that with no error the function is \<open>bishop\<close>, that the error
  of the target position is passed on as it is, that the error of the ball in
  the robot frame turns the commanded heading by at most \<open>pi\<close> times its size
  relative to the distance of the ball, and that the range of the heading is
  kept up to the error of the bearing.
\<close>

section \<open>Errors\<close>

record Rounding =
  errBall :: Vector2f
  errAngle :: float
  errTarget :: Vector2f

definition exact :: Rounding where
  "exact = \<lparr>errBall = \<lparr>x = 0, y = 0\<rparr>, errAngle = 0, errTarget = \<lparr>x = 0, y = 0\<rparr>\<rparr>"

definition nudge :: "Vector2f \<Rightarrow> Vector2f \<Rightarrow> Vector2f" where
  "nudge v e = \<lparr>x = x v + x e, y = y v + y e\<rparr>"

definition vlen :: "Vector2f \<Rightarrow> real" where
  "vlen v = sqrt ((x v)\<^sup>2 + (y v)\<^sup>2)"

section \<open>The function\<close>

definition relBallPositionR :: "Rounding \<Rightarrow> DataSet \<Rightarrow> Vector2f" where
  "relBallPositionR r d =
     nudge (fieldToRobot (robotPosition d) (TeamBallModel.position (teamBallModel d))) (errBall r)"

definition relBallAngleR :: "Rounding \<Rightarrow> DataSet \<Rightarrow> float" where
  "relBallAngleR r d = atan2 (y (relBallPositionR r d)) (x (relBallPositionR r d)) + errAngle r"

definition relPlayingPoseR :: "Rounding \<Rightarrow> DataSet \<Rightarrow> Pose" where
  "relPlayingPoseR r d =
     \<lparr>Pose.position =
        nudge (fieldToRobot (robotPosition d) (BishopPosition.position (bishopPosition d)))
          (errTarget r),
      heading = relBallAngleR r d\<rparr>"

definition bishopR :: "Rounding \<Rightarrow> DataSet \<Rightarrow> ActionCommand" where
  "bishopR r d =
     combineHead (walkToPose d (relPlayingPoseR r d) False PATH Velocity 5) (trackBall d)"

section \<open>Vectors and their errors\<close>

lemma nudge_zero [simp]: "nudge v \<lparr>x = 0, y = 0\<rparr> = v"
  by (simp add: nudge_def)

lemma toComplex_nudge [simp]: "toComplex (nudge v e) = toComplex v + toComplex e"
  by (simp add: nudge_def complex_eq_iff)

lemma toComplex_robotToField_nudge:
  "toComplex (robotToField p (nudge v e))
     = toComplex (robotToField p v) + cis (heading p) * toComplex e"
  by (simp add: toComplex_robotToField algebra_simps)

lemma vlen_cmod: "vlen v = cmod (toComplex v)"
  by (simp add: vlen_def cmod_toComplex)

lemma vlen_relBallPosition:
  "vlen (relBallPosition d)
     = dist (toComplex (TeamBallModel.position (teamBallModel d)))
            (toComplex (Pose.position (robotPosition d)))"
  by (simp add: vlen_cmod relBallPosition_def cmod_fieldToRobot)

lemma exact_sel [simp]:
  "errBall exact = \<lparr>x = 0, y = 0\<rparr>" "errAngle exact = 0" "errTarget exact = \<lparr>x = 0, y = 0\<rparr>"
  by (simp_all add: exact_def)

section \<open>No error\<close>

lemma relBallPositionR_exact [simp]: "relBallPositionR exact d = relBallPosition d"
  by (simp add: relBallPositionR_def relBallPosition_def)

lemma relBallAngleR_exact [simp]: "relBallAngleR exact d = relBallAngle d"
  by (simp add: relBallAngleR_def relBallAngle_def)

lemma relPlayingPoseR_exact [simp]: "relPlayingPoseR exact d = relPlayingPose d"
  by (simp add: relPlayingPoseR_def relPlayingPose_def)

lemma bishopR_exact: "bishopR exact d = bishop d"
  by (simp add: bishopR_def bishop_def)

section \<open>The bearing of a vector with an error\<close>

lemma atan2_error:
  "\<bar>normalizeAngle (atan2 (y w) (x w) - atan2 (y v) (x v))\<bar>
     \<le> pi * (dist (toComplex w) (toComplex v) / vlen v)"
  if "v \<noteq> \<lparr>x = 0, y = 0\<rparr>" "w \<noteq> \<lparr>x = 0, y = 0\<rparr>"
proof -
  have nz: "toComplex v \<noteq> 0" "toComplex w \<noteq> 0"
    using that by (auto simp: complex_eq_iff intro: Vector2f_eqI)
  then have "x v \<noteq> 0 \<or> y v \<noteq> 0" "x w \<noteq> 0 \<or> y w \<noteq> 0"
    by (auto simp: complex_eq_iff)
  then have "cis (atan2 (y v) (x v)) = sgn (toComplex v)" "cis (atan2 (y w) (x w)) = sgn (toComplex w)"
    by (simp_all add: sgn_Complex_atan2 toComplex_def)
  with sgn_diff_bound [OF nz]
  have "dist (cis (atan2 (y w) (x w))) (cis (atan2 (y v) (x v)))
      \<le> 2 * (dist (toComplex w) (toComplex v) / vlen v)"
    by (simp add: dist_norm vlen_cmod)
  then show ?thesis
    by (rule normalizeAngle_diff_bound)
qed

lemma normalizeAngle_add_le: "\<bar>normalizeAngle (s + t)\<bar> \<le> \<bar>normalizeAngle s\<bar> + \<bar>t\<bar>"
proof -
  have "normalizeAngle (s + t) = normalizeAngle (normalizeAngle s + t)"
    by (simp add: normalizeAngle_eq_iff flip: cis_mult)
  with normalizeAngle_abs_le [of "normalizeAngle s + t"] show ?thesis
    by simp
qed

section \<open>Forward error of the target pose\<close>

text \<open>
  C13. Rounding errors are not amplified, except by the nearness of the ball:
  when the three computations of the function carry the errors \<open>r\<close>, and the
  error of the ball in the robot frame is smaller than the distance of the
  ball, the commanded position denotes a field point at exactly the distance
  of its error from the assigned position; the commanded heading differs from
  the exact one, up to full turns, by at most \<open>pi\<close> times the error of the ball
  relative to its distance, plus the error of the bearing; and it leaves the
  range \<open>(- pi, pi]\<close> by no more than the error of the bearing.
\<close>

theorem relPlayingPoseR_forward_error:
  assumes "vlen (errBall r) < vlen (relBallPosition d)"
  shows "dist (toComplex (robotToField (robotPosition d) (Pose.position (relPlayingPoseR r d))))
              (toComplex (BishopPosition.position (bishopPosition d)))
           = vlen (errTarget r)
       \<and> \<bar>normalizeAngle (heading (relPlayingPoseR r d) - heading (relPlayingPose d))\<bar>
           \<le> pi * (vlen (errBall r) / vlen (relBallPosition d)) + \<bar>errAngle r\<bar>
       \<and> - pi - \<bar>errAngle r\<bar> < heading (relPlayingPoseR r d)
       \<and> heading (relPlayingPoseR r d) \<le> pi + \<bar>errAngle r\<bar>"
proof (intro conjI)
  let ?v = "relBallPosition d" and ?w = "relBallPositionR r d"
  have w: "toComplex ?w = toComplex ?v + toComplex (errBall r)"
    by (simp add: relBallPositionR_def relBallPosition_def)
  with assms have "toComplex ?v \<noteq> 0" "toComplex ?w \<noteq> 0"
    using norm_triangle_ineq2 [of "toComplex ?v" "- toComplex (errBall r)"]
    by (auto simp: vlen_cmod)
  then have "?v \<noteq> \<lparr>x = 0, y = 0\<rparr>" "?w \<noteq> \<lparr>x = 0, y = 0\<rparr>"
    by (auto simp: complex_eq_iff)
  then have "\<bar>normalizeAngle (atan2 (y ?w) (x ?w) - atan2 (y ?v) (x ?v))\<bar>
      \<le> pi * (dist (toComplex ?w) (toComplex ?v) / vlen ?v)"
    by (rule atan2_error)
  with normalizeAngle_add_le [of "atan2 (y ?w) (x ?w) - atan2 (y ?v) (x ?v)" "errAngle r"]
  show "\<bar>normalizeAngle (heading (relPlayingPoseR r d) - heading (relPlayingPose d))\<bar>
      \<le> pi * (vlen (errBall r) / vlen (relBallPosition d)) + \<bar>errAngle r\<bar>"
    unfolding relPlayingPoseR_def relBallAngleR_def relPlayingPose_def relBallAngle_def
    by (simp add: w dist_norm vlen_cmod algebra_simps)
  show "dist (toComplex (robotToField (robotPosition d) (Pose.position (relPlayingPoseR r d))))
              (toComplex (BishopPosition.position (bishopPosition d)))
           = vlen (errTarget r)"
    unfolding relPlayingPoseR_def
    by (simp add: toComplex_robotToField_nudge dist_norm norm_mult vlen_cmod)
  show "- pi - \<bar>errAngle r\<bar> < heading (relPlayingPoseR r d)"
    "heading (relPlayingPoseR r d) \<le> pi + \<bar>errAngle r\<bar>"
    unfolding relPlayingPoseR_def relBallAngleR_def
    using atan2_range [of "y ?w" "x ?w"] by (simp_all add: abs_if)
qed

theorem relPlayingPoseR_forward_error_witness:
  "\<bar>normalizeAngle (heading (relPlayingPoseR
        \<lparr>errBall = \<lparr>x = 0, y = 1 / 100\<rparr>, errAngle = 1 / 1000, errTarget = \<lparr>x = 0, y = 0\<rparr>\<rparr>
        \<lparr>robotPosition = \<lparr>Pose.position = \<lparr>x = 0, y = 0\<rparr>, heading = 0\<rparr>,
         teamBallModel = \<lparr>TeamBallModel.position = \<lparr>x = 2, y = 0\<rparr>\<rparr>,
         bishopPosition = \<lparr>BishopPosition.position = \<lparr>x = 0, y = 2\<rparr>\<rparr>\<rparr>)
      - heading (relPlayingPose
        \<lparr>robotPosition = \<lparr>Pose.position = \<lparr>x = 0, y = 0\<rparr>, heading = 0\<rparr>,
         teamBallModel = \<lparr>TeamBallModel.position = \<lparr>x = 2, y = 0\<rparr>\<rparr>,
         bishopPosition = \<lparr>BishopPosition.position = \<lparr>x = 0, y = 2\<rparr>\<rparr>\<rparr>))\<bar>
     \<le> pi * (1 / 200) + 1 / 1000"
  using relPlayingPoseR_forward_error [of
        "\<lparr>errBall = \<lparr>x = 0, y = 1 / 100\<rparr>, errAngle = 1 / 1000, errTarget = \<lparr>x = 0, y = 0\<rparr>\<rparr>"
        "\<lparr>robotPosition = \<lparr>Pose.position = \<lparr>x = 0, y = 0\<rparr>, heading = 0\<rparr>,
          teamBallModel = \<lparr>TeamBallModel.position = \<lparr>x = 2, y = 0\<rparr>\<rparr>,
          bishopPosition = \<lparr>BishopPosition.position = \<lparr>x = 0, y = 2\<rparr>\<rparr>\<rparr>"]
  by (simp add: vlen_def relBallPosition_def geom_defs)

end
