(* ===== verification/Stability.thy ===== *)
theory Stability
  imports Turning Rounding
begin

text \<open>
  The control cycle with rounding. \<open>walk_stepR u l\<close> is the cycle of \<open>Cycle\<close> for
  the command of \<open>bishopR\<close>: the robot covers the fraction \<open>l\<close> of the straight way
  to the target position of a command whose target error is at most \<open>u\<close>; the
  errors may differ from cycle to cycle. \<open>brisk_runR u m n\<close> is a run of \<open>n\<close> such
  cycles that each cover at least the fraction \<open>m\<close>. \<open>stepR r l\<close> is the cycle
  \<open>partStep\<close> of \<open>Turning\<close> for the command with the errors \<open>r\<close>.

  The lemmas show that the errors do not accumulate: a cycle shrinks the
  distance to the assigned position by the factor \<open>1 - l\<close> up to \<open>l * u\<close>, and a run
  brings the robot as close to the assigned position as the size of one error
  allows.
\<close>

section \<open>Cycles with rounding\<close>

inductive walk_stepR :: "real \<Rightarrow> real \<Rightarrow> DataSet \<Rightarrow> DataSet \<Rightarrow> bool" where
  progress: "walk_stepR u l d
      (d\<lparr>robotPosition :=
           \<lparr>Pose.position =
              advance l (robotPosition d) (Pose.position (targetPose (body (bishopR r d)))),
            heading = h\<rparr>,
         teamBallModel := b\<rparr>)" if "0 \<le> l" and "l \<le> 1" and "vlen (errTarget r) \<le> u"

inductive brisk_runR :: "real \<Rightarrow> real \<Rightarrow> nat \<Rightarrow> DataSet \<Rightarrow> DataSet \<Rightarrow> bool" where
  start: "brisk_runR u m 0 d d"
| step: "brisk_runR u m (Suc n) d d''"
    if "brisk_runR u m n d d'" and "walk_stepR u l d' d''" and "m \<le> l"

definition stepR :: "Rounding \<Rightarrow> real \<Rightarrow> DataSet \<Rightarrow> DataSet" where
  "stepR r l d =
     d\<lparr>robotPosition :=
         \<lparr>Pose.position =
            advance l (robotPosition d) (Pose.position (targetPose (body (bishopR r d)))),
          heading = heading (robotPosition d) + l * heading (targetPose (body (bishopR r d)))\<rparr>\<rparr>"

section \<open>One cycle\<close>

lemma toComplex_advance_nudge:
  "toComplex (advance l p (nudge (fieldToRobot p q) e)) - toComplex q
     = of_real (1 - l) * (toComplex (Pose.position p) - toComplex q)
       + of_real l * (cis (heading p) * toComplex e)"
proof -
  have "toComplex \<lparr>x = l * x v, y = l * y v\<rparr> = of_real l * toComplex v" for v
    by (simp add: complex_eq_iff)
  then have adv: "toComplex (advance l p v)
      = toComplex (Pose.position p) + of_real l * (cis (heading p) * toComplex v)" for v
    by (simp add: advance_def toComplex_robotToField)
  have nud: "cis (heading p) * toComplex (nudge (fieldToRobot p q) e)
      = toComplex q - toComplex (Pose.position p) + cis (heading p) * toComplex e"
    by (simp add: toComplex_fieldToRobot distrib_left)
  have "toComplex (advance l p (nudge (fieldToRobot p q) e)) - toComplex q
      = toComplex (Pose.position p)
        + of_real l * (toComplex q - toComplex (Pose.position p) + cis (heading p) * toComplex e)
        - toComplex q"
    by (simp only: adv nud)
  also have "\<dots> = of_real (1 - l) * (toComplex (Pose.position p) - toComplex q)
      + of_real l * (cis (heading p) * toComplex e)"
    by (simp add: algebra_simps)
  finally show ?thesis .
qed

lemma dist_advance_nudge:
  "dist (toComplex (advance l p (nudge (fieldToRobot p q) e))) (toComplex q)
     \<le> (1 - l) * dist (toComplex (Pose.position p)) (toComplex q) + l * vlen e"
  if "0 \<le> l" and "l \<le> 1"
proof -
  have "norm (of_real (1 - l) * (toComplex (Pose.position p) - toComplex q)
          + of_real l * (cis (heading p) * toComplex e))
      \<le> norm (of_real (1 - l) * (toComplex (Pose.position p) - toComplex q))
        + norm (of_real l * (cis (heading p) * toComplex e))"
    by (rule norm_triangle_ineq)
  with that show ?thesis
    by (simp add: dist_norm toComplex_advance_nudge norm_mult vlen_cmod del: of_real_diff)
qed

lemma walk_stepR_offTarget:
  "offTarget d' \<le> (1 - l) * offTarget d + l * u" if "walk_stepR u l d d'"
  using that
proof (cases rule: walk_stepR.cases)
  case (progress r h b)
  have "offTarget d' \<le> (1 - l) * offTarget d + l * vlen (errTarget r)"
    unfolding progress(1) offTarget_def bishopR_def relPlayingPoseR_def
    using progress(2,3) by (simp add: dist_advance_nudge)
  also have "\<dots> \<le> (1 - l) * offTarget d + l * u"
    using progress(2,4) by (intro add_left_mono mult_left_mono)
  finally show ?thesis .
qed

lemma walk_stepR_exact: "walk_stepR 0 l d d'" if "walk_step l d d'"
  using that
proof (cases rule: walk_step.cases)
  case (progress h b)
  with walk_stepR.progress [of l exact 0 d h b] show ?thesis
    by (simp add: bishopR_exact vlen_def)
qed

lemma walk_stepR_stepR: "walk_stepR u l d (stepR r l d)"
  if "0 \<le> l" and "l \<le> 1" and "vlen (errTarget r) \<le> u"
proof -
  have "walk_stepR u l d (d\<lparr>robotPosition :=
           \<lparr>Pose.position =
              advance l (robotPosition d) (Pose.position (targetPose (body (bishopR r d)))),
            heading = heading (robotPosition d) + l * heading (targetPose (body (bishopR r d)))\<rparr>,
         teamBallModel := teamBallModel d\<rparr>)"
    using that by (rule walk_stepR.progress)
  then show ?thesis
    by (simp add: stepR_def)
qed

lemma stepR_exact: "stepR exact l d = partStep l d"
  by (simp add: stepR_def partStep_def bishopR_exact)

lemma brisk_runR_exact: "brisk_runR 0 m n d d'" if "brisk_run m n d d'"
  using that
  by (induction rule: brisk_run.induct) (auto intro: brisk_runR.intros walk_stepR_exact)

section \<open>Errors do not accumulate\<close>

text \<open>
  C25. Rounding errors of the commanded position do not accumulate over the
  cycles: if every cycle covers at least the fraction \<open>m\<close> of the way to the
  target of a command whose position error is at most \<open>u\<close>, then after \<open>n\<close>
  cycles the distance between the robot and the assigned position is at most
  \<open>(1 - m) ^ n\<close> times the initial distance plus \<open>u\<close>, however the robot turned
  and the ball estimate changed on the way.
\<close>

theorem brisk_runR_bound:
  "offTarget d' \<le> (1 - m) ^ n * offTarget d + u"
  if "brisk_runR u m n d d'" and "0 \<le> m" and "0 \<le> u"
  using that
proof (induction rule: brisk_runR.induct)
  case (start u m d)
  then show ?case by simp
next
  case (step u m n d d' l d'')
  from step.hyps(2) have l: "0 \<le> l" "l \<le> 1"
    by (auto elim: walk_stepR.cases)
  have "offTarget d'' \<le> (1 - l) * offTarget d' + l * u"
    using step.hyps(2) by (rule walk_stepR_offTarget)
  also have "\<dots> \<le> (1 - l) * ((1 - m) ^ n * offTarget d + u) + l * u"
    using step.IH step.prems l by (intro add_right_mono mult_left_mono) simp_all
  also have "\<dots> = (1 - l) * ((1 - m) ^ n * offTarget d) + u"
    by (simp add: algebra_simps)
  also have "\<dots> \<le> (1 - m) * ((1 - m) ^ n * offTarget d) + u"
    using step.hyps(3) step.prems l
    by (intro add_right_mono mult_right_mono mult_nonneg_nonneg zero_le_power) simp_all
  finally show ?case
    by (simp add: mult.assoc)
qed

theorem brisk_runR_bound_witness:
  "offTarget (stepR \<lparr>errBall = \<lparr>x = 0, y = 0\<rparr>, errAngle = 0, errTarget = \<lparr>x = 1 / 10, y = 0\<rparr>\<rparr>
       (1 / 2)
       \<lparr>robotPosition = \<lparr>Pose.position = \<lparr>x = 0, y = 0\<rparr>, heading = 0\<rparr>,
        teamBallModel = \<lparr>TeamBallModel.position = \<lparr>x = 2, y = 0\<rparr>\<rparr>,
        bishopPosition = \<lparr>BishopPosition.position = \<lparr>x = 0, y = 2\<rparr>\<rparr>\<rparr>) \<le> 11 / 10"
  using brisk_runR_bound [OF brisk_runR.step [OF brisk_runR.start
        walk_stepR_stepR [of "1 / 2"
          "\<lparr>errBall = \<lparr>x = 0, y = 0\<rparr>, errAngle = 0, errTarget = \<lparr>x = 1 / 10, y = 0\<rparr>\<rparr>" "1 / 10"
          "\<lparr>robotPosition = \<lparr>Pose.position = \<lparr>x = 0, y = 0\<rparr>, heading = 0\<rparr>,
            teamBallModel = \<lparr>TeamBallModel.position = \<lparr>x = 2, y = 0\<rparr>\<rparr>,
            bishopPosition = \<lparr>BishopPosition.position = \<lparr>x = 0, y = 2\<rparr>\<rparr>\<rparr>"], of "1 / 2"]]
  by (simp add: vlen_def offTarget_def [of "\<lparr>robotPosition = _, teamBallModel = _, bishopPosition = _\<rparr>"]
      dist_norm toComplex_def cmod_def)

end
