(* ===== verification/Spec2Isabelle.thy ===== *)
theory Spec2Isabelle
  imports Frames Settle Approach Bishop_Special Stability
begin

text \<open>
  \<^bold>\<open>The program.\<close> The sources hold one function of the behaviour layer of a
  soccer-playing robot, \<^verbatim>\<open>bishop\<close> in
  \<^verbatim>\<open>src/brain/Behavior/BehaviorUnits/Roles/Bishop.hpp\<close>. Once per control cycle it
  reads a snapshot (the robot's pose estimate, the team ball position, the
  position assigned to the bishop role) and returns one action command: walk to
  the assigned position, facing the ball, and track the ball with the head. It
  has four statements: the ball is changed into the robot frame, its bearing is
  taken with the two-argument arctangent, a pose is assembled from the assigned
  position in the robot frame and that bearing, and the locomotion command for
  that pose is combined with the head command. The function keeps no state, does
  not loop and cannot fail; there is no state machine. Its only error
  behaviour is that of its numbers: an input that is NaN or infinite is not
  trapped but computed with.

  \<^bold>\<open>The theories.\<close>
  \<^item> \<open>Bishop_Prelude\<close>: the type \<open>float\<close> (the C++ \<^verbatim>\<open>float\<close>, as \<^typ>\<open>real\<close>), the rule
    collections \<open>geom_defs\<close>, \<open>cmd_defs\<close>, \<open>bishop_defs\<close> and \<open>frame_simps\<close>, and the
    shared facts on rotations, on \<open>arctan\<close> of a slope, on parts of angles and
    chords of the unit circle, on the direction of a vector with an error, and
    on the decay of a contracted sequence.
  \<^item> \<open>Geometry\<close>: \<open>Vector2f\<close> and \<open>Pose\<close>, the frame changes \<open>fieldToRobot\<close> (called
    by the function) and \<open>robotToField\<close> with the helper \<open>rotate\<close>; their
    component equations, the round trips, the preservation of distances, and
    the reading \<open>toComplex\<close> of a vector as a complex number under which a frame
    change is a multiplication by \<open>cis\<close>.
  \<^item> \<open>Bearing\<close>: \<open>atan2\<close>, with its range, its polar decomposition, its agreement
    with \<^const>\<open>Arg\<close>, its values on the axes and its symmetries; and
    \<open>normalizeAngle\<close>, the reduction of an angle to \<open>(- pi, pi]\<close> by full turns,
    with the bound of a reduced angle by \<open>pi / 2\<close> times its chord.
  \<^item> \<open>Units\<close>: what \<^verbatim>\<open>Behavior/Units.hpp\<close> provides to the function: the snapshot
    \<open>DataSet\<close> with the three fields the function reads, the commands, and the
    primitives \<open>walkToPose\<close>, \<open>trackBall\<close>, \<open>combineHead\<close> and the default
    \<open>Velocity\<close>.
  \<^item> \<open>Bishop\<close>: the function itself, one definition per statement
    (\<open>relBallPosition\<close>, \<open>relBallAngle\<close>, \<open>relPlayingPose\<close>, \<open>bishop\<close>), and the
    properties of each.
  \<^item> \<open>Special_Values\<close>: the type \<open>floatX\<close> of the reals with the two infinities and
    NaN, its arithmetic (an instance of the classes of \<open>0\<close>, \<open>+\<close>, \<open>-\<close> and \<open>*\<close>),
    \<open>cosX\<close>, \<open>sinX\<close> and \<open>atan2X\<close>, and when their results are finite or NaN.
  \<^item> \<open>Bishop_Special\<close>: the three locals once more, over \<open>floatX\<close>
    (\<open>relBallPositionX\<close>, \<open>relBallAngleX\<close>, \<open>relPlayingPoseX\<close>, with the records and
    the frame change of \<open>Geometry\<close> and \<open>Units\<close> over \<open>floatX\<close>), and their behaviour
    on invalid inputs.
  \<^item> \<open>Rounding\<close>: lines 6 to 9 of the function with the value that each of the
    three floating-point computations delivers written as its exact result
    plus an error (\<open>relBallPositionR\<close>, \<open>relBallAngleR\<close>, \<open>relPlayingPoseR\<close>,
    \<open>bishopR\<close>, the errors in a record \<open>Rounding\<close>), and what the errors do to the
    target pose.
  \<^item> \<open>Stability\<close>: the cycles of \<open>Cycle\<close> for the command with rounding errors
    (\<open>walk_stepR\<close>, \<open>brisk_runR\<close>, \<open>stepR\<close>), and the bound that shows that the
    errors do not accumulate over the cycles.
  \<^item> \<open>Frames\<close>: the frame discipline as a type system over the expressions that
    the function is built from (\<open>frameOfPoint\<close>, \<open>frameOfAngle\<close>, \<open>frameOfPose\<close> and
    the values \<open>evalPoint\<close>, \<open>evalAngle\<close>, \<open>evalPose\<close>), the change \<open>moveDataSet\<close> of the
    field frame and its reflection \<open>mirrorDataSet\<close>, and the soundness of the
    typing.
  \<^item> \<open>Cycle\<close>: the control cycle around the function, as an assumption on what
    one cycle of walking can do to the robot's pose (\<open>walk_step\<close>, \<open>walk_run\<close>,
    \<open>brisk_run\<close>) and as the cycle of an ideal walker (\<open>idealStep\<close>); the invariant
    of runs and the fixed point of the ideal walker.
  \<^item> \<open>Settle\<close>: the loop \<open>settle\<close> that repeats the ideal cycle until the function
    asks for no motion, as \<open>while_option\<close>, with its termination.
  \<^item> \<open>Robustness\<close>: the snapshot with a changed heading (\<open>turnRobot\<close>) and what an
    error of the heading estimate or of the ball estimate does to the command.
  \<^item> \<open>Turning\<close>: the cycle \<open>turnStep\<close> of a robot that turns part of the commanded
    way, the decay of the commanded heading, and the cycle \<open>partStep\<close> of a robot
    that walks and turns part of the way.
  \<^item> \<open>Approach\<close>: the direction that the robot is told to face while it is on
    its way (\<open>commandedFacing\<close>) against the one it needs at the assigned position
    (\<open>finalFacing\<close>), their convergence along runs, and the decay of the heading
    that remains to be turned under \<open>partStep\<close>.
  \<^item> this theory: the properties that compare two snapshots or refer to a
    specification of their own: independence of the choice of the field frame
    and of its orientation, refinement of a specification in the complex plane,
    and the bearing along a ray.

  \<^bold>\<open>Code and model.\<close> Only \<^verbatim>\<open>bishop\<close> is in the sources. Its four definitions are
  translated statement by statement, and the data they touch carries the names
  the function uses: the fields \<open>robotPosition\<close>, \<open>teamBallModel\<close> and
  \<open>bishopPosition\<close> of \<open>DataSet\<close>, \<open>position\<close> of the ball model and of the assigned
  position, the accessors \<open>x\<close> and \<open>y\<close> of \<open>Vector2f\<close>, the walk mode \<open>PATH\<close>. The
  declarations of \<^verbatim>\<open>DataSet\<close>, \<^verbatim>\<open>Vector2f\<close> and \<^verbatim>\<open>Pose\<close> and the bodies of
  \<^verbatim>\<open>fieldToRobot\<close>, \<^verbatim>\<open>walkToPose\<close>, \<^verbatim>\<open>trackBall\<close>, \<^verbatim>\<open>combineHead\<close>, \<^verbatim>\<open>Velocity\<close> and
  \<^verbatim>\<open>std::atan2\<close> are outside the sources; each is defined from its contract in
  the specification: translate by minus the position and rotate by minus the
  heading; record the five request arguments; return the ball-tracking
  request for the snapshot; package two independent sub-commands; the default
  velocity is the zero hint; the angle of a point in \<open>(- pi, pi]\<close>, \<open>0\<close> for the
  zero vector. \<open>robotToField\<close> is the inverse change of frame that the round-trip
  law of the specification names; the function does not call it. Nothing is
  proved here about the content of the request parameters or of the head
  command: what they mean is decided by code outside the sources.
  The function is modelled three times. Over \<^typ>\<open>real\<close> its definitions state
  the laws that the floating-point code approximates. Over \<open>floatX\<close> the three
  locals are computed with the infinities and NaN as values, by the rules of
  IEEE 754 and of the C library for them (NaN is absorbing, \<open>\<infinity> - \<infinity>\<close> and
  \<open>0 * \<infinity>\<close> are NaN, \<open>cos\<close> and \<open>sin\<close> of an infinity are NaN, \<^verbatim>\<open>atan2\<close> of
  infinite arguments is a multiple of \<open>pi / 4\<close>); on finite values the two models
  agree. In \<open>Rounding\<close> the statements are those of the code with the computed
  value of each floating-point computation written as the exact value plus an
  error; the errors are parameters, and with no error the function is the one
  over the reals.

  \<^bold>\<open>What is proved.\<close> For the locals: \<open>relBallPosition\<close> and the position of
  \<open>relPlayingPose\<close> change back to the field inputs and keep distances;
  \<open>relBallAngle\<close> is normalised, is the direction of \<open>relBallPosition\<close> (polar
  decomposition and uniqueness), equals \<open>Arg\<close>, equals the bearing taken in the
  field frame minus the robot's heading and reduced by full turns, and its sign
  tells the side of the ball. For the command: in the field frame its heading
  is the direction from the robot to the ball; position and heading are
  decoupled. For the frames: the value of every expression that is typed as
  robot-relative is independent of the choice of the field frame, the target
  pose is the value of such an expression, and the variants that skip a change
  of frame are not typable. Across snapshots: the locomotion command is the
  same when the field frame is replaced by any rotated and translated one
  (\<open>moveDataSet\<close>), the target pose
  is mirrored when the field is mirrored (\<open>mirrorDataSet\<close>), except for a ball
  straight behind the robot, the pose refines the complex-plane specification
  \<open>standSpec\<close> and \<open>bearingSpec\<close>, and the bearing is the same for two balls
  exactly when they lie on one ray from the robot (\<open>ballOnRay\<close>). Under errors:
  a position error moves the target by its own length and the commanded
  direction by at most twice its size relative to the distance of the ball, a
  heading error \<open>e\<close> turns the commanded heading to \<open>normalizeAngle\<close> of the
  heading minus \<open>e\<close> and makes the commanded position miss the assigned one by
  the chord \<open>2 * \<bar>sin (e / 2)\<bar>\<close> of the distance to go, and an error of the ball
  estimate moves the commanded direction by at most twice its size relative to
  the distance of the ball (as an angle, by at most \<open>pi\<close> times), but behind the
  robot the commanded heading jumps by almost a full turn when the ball crosses
  the robot's axis. On invalid inputs (\<open>Bishop_Special\<close>): the target position is
  finite exactly when the robot's pose and the assigned position are; a NaN
  reaches exactly the parts of the target pose that are computed from it; an
  infinite ball coordinate
  does not reach the heading, which becomes the diagonal of a quadrant. Across
  cycles: along every run in which the robot covers some part of the commanded
  way per cycle the distance to the assigned position never grows (rule
  induction over \<open>walk_run\<close>); with a least fraction \<open>m\<close> per cycle it shrinks by
  the factor \<open>1 - m\<close> per cycle and falls below every tolerance (\<open>brisk_run\<close>),
  and with a target error of at most \<open>u\<close> in every command it falls below every
  bound above \<open>u\<close> (\<open>brisk_runR\<close>); the direction that the robot is told to face
  differs from the one needed at the assigned position by at most twice the
  distance to go over the distance between the assigned position and the ball,
  and so converges to it along such runs; a robot that turns the fraction \<open>l\<close>
  of the commanded heading is commanded the rest, \<open>1 - l\<close> times the heading, in
  the next cycle, and ends up facing the ball; a robot that also walks the
  fraction \<open>l\<close> of the way performs a cycle of \<open>walk_step\<close>, and the heading that
  remains to be turned is after \<open>n\<close> cycles at most \<open>(1 - l) ^ n\<close> times the
  first one plus a term of the order \<open>n * (1 - l) ^ (n - 1)\<close>, provided the ball
  is further from the assigned position than the robot is, so that this robot
  ends up facing the ball; an ideal walker stands at the assigned position
  after one cycle and has reached a fixed point after two, where the command
  asks for no motion, so that the loop \<open>settle\<close> terminates.

  \<^bold>\<open>Bounds.\<close> The function has no loop and no recursion, hence needs no fuel.
  The only loop of the development is \<open>settle\<close>; it is a \<open>while_option\<close>, its
  termination is proved with the measure \<open>cyclesLeft\<close>, which is at most \<open>2\<close>, and
  its body runs at most twice. Runs of cycles are finite and of any length.
  Numbers are exact reals, in \<open>floatX\<close> extended by the infinities and NaN. The
  size of the rounding errors, the overflow of a finite result to an infinity
  and the signed zeros of \<^verbatim>\<open>std::atan2\<close> are not modelled, so a finite value of
  the model stands for the real number that the floating-point value
  approximates. Three kinds of statement depend on this reading. The range
  \<open>(- pi, pi]\<close> and the value \<open>pi\<close> for a ball straight behind the robot hold for
  a positive zero ordinate; \<^verbatim>\<open>std::atan2\<close> returns \<open>- pi\<close> for a negative zero one,
  so the second clause of \<open>relBallAngle_sign\<close> and the exception in
  \<open>relPlayingPose_mirror\<close> describe the positive zero. The value \<open>0\<close> at the zero
  vector is one of four that the library can return (\<open>0\<close>, \<open>- 0\<close>, \<open>pi\<close>, \<open>- pi\<close>);
  it enters \<open>relBallAngle_Arg\<close> and \<open>bishop_refines_plane_spec\<close> at the zero vector,
  and \<open>idealStep_fixpoint\<close> and \<open>settle_terminates\<close> when the ball lies on the
  assigned position. The direction from finite inputs to a finite result in
  \<open>relPlayingPoseX_finite_iff\<close> holds as long as the frame change does not
  overflow. \<open>Rounding\<close> bounds what errors of a given size do to the command:
  the error of the target position is passed on unchanged, the error of the
  ball in the robot frame turns the heading by at most \<open>pi\<close> times its size
  relative to the distance of the ball, and the heading leaves \<open>(- pi, pi]\<close> by
  at most the error of \<^verbatim>\<open>std::atan2\<close>.

  \<^bold>\<open>Not modelled.\<close> The estimators that fill the snapshot, the path planner and
  walking engine behind \<^verbatim>\<open>walkToPose\<close>, the head motion behind \<^verbatim>\<open>trackBall\<close>, the
  assignment of roles, and the role functions other than \<^verbatim>\<open>bishop\<close>: none of
  their code is in the sources, and the function only passes values to them or
  receives values from them. The fields of the real snapshot that the function
  does not read are left out of \<open>DataSet\<close>. The sources end with \<^verbatim>\<open>bishop\<close>: the
  three lines before it are the include guard, the include of
  \<^verbatim>\<open>Behavior/Units.hpp\<close> and a blank line, which no definition translates. The
  definitions of \<open>Cycle\<close>, \<open>Settle\<close>, \<open>Turning\<close> and \<open>Stability\<close> are assumptions
  about the walking engine, \<open>commandedFacing\<close> and \<open>finalFacing\<close> of \<open>Approach\<close>
  name two directions on the field, and \<open>turnRobot\<close> is an assumption about the
  estimator; none is a model of code. The arithmetic of \<open>floatX\<close> is that of
  the language and of IEEE 754, not of the repository, and the errors of
  \<open>Rounding\<close> are parameters whose size is left to that arithmetic. Likewise
  \<open>toComplex\<close>, \<open>wf_Pose\<close>, \<open>movePose\<close>, \<open>normalizeAngle\<close>, \<open>moveDataSet\<close>,
  \<open>mirrorDataSet\<close>, the expressions of \<open>Frames\<close>, the embeddings and the
  predicates of finiteness of \<open>Bishop_Special\<close>, \<open>standSpec\<close>, \<open>bearingSpec\<close> and
  \<open>ballOnRay\<close> are vocabulary of the specifications, not translations of code.

  \<^bold>\<open>Plan.\<close> Modelled first: the function and the geometry it relies on; then
  the cycle around the function; then the frame discipline, the effect of a
  heading error, the walker that turns part of the way and the terminating
  loop of the ideal walker; then the function over the special values of the
  floating-point type, the reflection of the
  field and the jump of the bearing behind the robot; last the comparison
  with the bearing taken in the field frame, the heading of a robot that is
  still on its way, and the propagation of rounding errors. Nothing of the
  sources is left to model. What remains open concerns numbers and
  collaborators: the size of the rounding errors and the signed zeros, which
  depend on the order of the operations inside \<^verbatim>\<open>fieldToRobot\<close> and on the
  zeros it produces, and a walking engine that is given by code and not by an
  assumption.
\<close>

section \<open>Specification vocabulary\<close>

text \<open>
  The specification in the complex plane, for a robot at \<open>zr\<close> with heading \<open>th\<close>:
  where a field point \<open>zt\<close> lies in the robot frame, and under which normalised
  angle a field point \<open>zb\<close> is seen.
\<close>

definition standSpec :: "complex \<Rightarrow> real \<Rightarrow> complex \<Rightarrow> complex" where
  "standSpec zr th zt = cis (- th) * (zt - zr)"

definition bearingSpec :: "complex \<Rightarrow> real \<Rightarrow> complex \<Rightarrow> real" where
  "bearingSpec zr th zb = Arg (cis (- th) * (zb - zr))"

text \<open>
  The snapshot in which the ball is moved along the ray from the robot through
  the ball, to \<open>k\<close> times its distance.
\<close>

definition ballOnRay :: "float \<Rightarrow> DataSet \<Rightarrow> DataSet" where
  "ballOnRay k d =
     d\<lparr>teamBallModel := \<lparr>TeamBallModel.position =
         \<lparr>x = x (Pose.position (robotPosition d))
                + k * (x (TeamBallModel.position (teamBallModel d)) - x (Pose.position (robotPosition d))),
          y = y (Pose.position (robotPosition d))
                + k * (y (TeamBallModel.position (teamBallModel d)) - y (Pose.position (robotPosition d)))\<rparr>\<rparr>\<rparr>"

section \<open>Changing the field frame\<close>

text \<open>
  C5. The locomotion command does not depend on the choice of the field frame:
  when the robot pose, the ball and the assigned position are all moved by one
  rotation and translation of the field, \<open>bishop\<close> returns the same locomotion
  command, target pose included.
\<close>

theorem bishop_frame_independent: "body (bishop (moveDataSet t d)) = body (bishop d)"
  unfolding bishop_def relPlayingPose_def relBallAngle_def relBallPosition_def
  by (simp add: cmd_defs)

section \<open>Mirroring the field\<close>

text \<open>
  C6. The target pose is mirrored with the scene: when the robot pose, the ball
  and the assigned position are reflected in the abscissa of the field, the
  position of \<open>relPlayingPose\<close> is reflected in the robot's forward axis, and its
  heading changes its sign, unless the ball lies straight behind the robot,
  where the heading is \<open>pi\<close> for the scene and for its mirror image.
\<close>

theorem relPlayingPose_mirror:
  "Pose.position (relPlayingPose (mirrorDataSet d)) = mirrorV (Pose.position (relPlayingPose d))
   \<and> (y (relBallPosition d) \<noteq> 0 \<or> 0 \<le> x (relBallPosition d)
        \<longrightarrow> heading (relPlayingPose (mirrorDataSet d)) = - heading (relPlayingPose d))
   \<and> (y (relBallPosition d) = 0 \<and> x (relBallPosition d) < 0
        \<longrightarrow> heading (relPlayingPose (mirrorDataSet d)) = heading (relPlayingPose d))"
  unfolding relPlayingPose_def relBallAngle_def relBallPosition_def
  by (simp add: fieldToRobot_mirror atan2_mirror_ahead)

theorem relPlayingPose_mirror_witness:
  "heading (relPlayingPose (mirrorDataSet
       \<lparr>robotPosition = \<lparr>Pose.position = \<lparr>x = 1, y = 1\<rparr>, heading = 0\<rparr>,
        teamBallModel = \<lparr>TeamBallModel.position = \<lparr>x = 1, y = 2\<rparr>\<rparr>,
        bishopPosition = \<lparr>BishopPosition.position = \<lparr>x = 0, y = 0\<rparr>\<rparr>\<rparr>)) = - (pi / 2)"
  using relPlayingPose_mirror [of
       "\<lparr>robotPosition = \<lparr>Pose.position = \<lparr>x = 1, y = 1\<rparr>, heading = 0\<rparr>,
         teamBallModel = \<lparr>TeamBallModel.position = \<lparr>x = 1, y = 2\<rparr>\<rparr>,
         bishopPosition = \<lparr>BishopPosition.position = \<lparr>x = 0, y = 0\<rparr>\<rparr>\<rparr>"]
  by (simp add: relBallAngle_def relBallPosition_def geom_defs)

section \<open>Refinement of the specification in the complex plane\<close>

text \<open>
  C8. The target pose refines the specification in the complex plane: read as
  complex numbers, the position of \<open>relPlayingPose\<close> is \<open>standSpec\<close> of the robot
  pose and the assigned position, and its heading is \<open>bearingSpec\<close> of the robot
  pose and the ball.
\<close>

theorem bishop_refines_plane_spec:
  "toComplex (Pose.position (relPlayingPose d))
     = standSpec (toComplex (Pose.position (robotPosition d))) (heading (robotPosition d))
         (toComplex (BishopPosition.position (bishopPosition d)))
   \<and> heading (relPlayingPose d)
     = bearingSpec (toComplex (Pose.position (robotPosition d))) (heading (robotPosition d))
         (toComplex (TeamBallModel.position (teamBallModel d)))"
  unfolding relPlayingPose_def relBallAngle_def relBallPosition_def standSpec_def bearingSpec_def
  by (simp add: atan2_Arg toComplex_fieldToRobot flip: toComplex_def)

section \<open>The bearing along a ray\<close>

lemma relBallPosition_ballOnRay:
  "x (relBallPosition (ballOnRay k d)) = k * x (relBallPosition d)"
  "y (relBallPosition (ballOnRay k d)) = k * y (relBallPosition d)"
  by (simp_all add: ballOnRay_def relBallPosition_def frame_simps algebra_simps)

lemma relBallAngle_ballOnRay: "relBallAngle (ballOnRay k d) = relBallAngle d" if "0 < k"
  using that unfolding relBallAngle_def by (simp add: relBallPosition_ballOnRay atan2_scale)

lemma toComplex_relBallPosition_ballOnRay:
  "toComplex (relBallPosition (ballOnRay k d)) = of_real k * toComplex (relBallPosition d)"
  by (simp add: complex_eq_iff relBallPosition_ballOnRay)

lemma same_direction: "w = of_real (norm w / norm z) * z" if "sgn w = sgn z" for w z :: complex
proof -
  have "of_real (norm w / norm z) * z = of_real (norm w) * sgn z"
    by (simp add: sgn_eq)
  also have "\<dots> = of_real (norm w) * sgn w"
    by (simp only: that)
  also have "\<dots> = w"
    by (simp add: sgn_eq)
  finally show ?thesis
    by (rule sym)
qed

text \<open>
  C20. The bearing tells the direction of the ball and nothing else: for two
  ball positions, neither at the robot's position, \<open>relBallAngle\<close> is the same
  exactly when the second lies on the ray from the robot through the first,
  at some positive multiple of its distance.
\<close>

theorem relBallAngle_same_iff_ray:
  assumes "TeamBallModel.position (teamBallModel d) \<noteq> Pose.position (robotPosition d)"
    and "b \<noteq> Pose.position (robotPosition d)"
  shows "relBallAngle (d\<lparr>teamBallModel := \<lparr>TeamBallModel.position = b\<rparr>\<rparr>) = relBallAngle d
       \<longleftrightarrow> (\<exists>k>0. teamBallModel (ballOnRay k d) = \<lparr>TeamBallModel.position = b\<rparr>)"
proof
  define d' where "d' = d\<lparr>teamBallModel := \<lparr>TeamBallModel.position = b\<rparr>\<rparr>"
  define w z where "w = toComplex (relBallPosition d')" and "z = toComplex (relBallPosition d)"
  define k where "k = norm w / norm z"
  assume "relBallAngle (d\<lparr>teamBallModel := \<lparr>TeamBallModel.position = b\<rparr>\<rparr>) = relBallAngle d"
  then have "sgn w = sgn z"
    using assms cis_relBallAngle [of d] cis_relBallAngle [of d'] by (simp add: w_def z_def d'_def)
  then have "w = of_real k * z"
    unfolding k_def by (rule same_direction)
  moreover have "0 < k"
    using assms unfolding k_def w_def z_def d'_def relBallPosition_def
    by (simp add: toComplex_fieldToRobot)
  ultimately have "relBallPosition d' = relBallPosition (ballOnRay k d)"
    by (simp add: w_def z_def toComplex_relBallPosition_ballOnRay flip: toComplex_inj)
  then have "teamBallModel (ballOnRay k d) = \<lparr>TeamBallModel.position = b\<rparr>"
    unfolding relBallPosition_def d'_def by (simp add: ballOnRay_def)
  with \<open>0 < k\<close> show "\<exists>k>0. teamBallModel (ballOnRay k d) = \<lparr>TeamBallModel.position = b\<rparr>"
    by blast
next
  assume "\<exists>k>0. teamBallModel (ballOnRay k d) = \<lparr>TeamBallModel.position = b\<rparr>"
  then obtain k where "0 < k" and "d\<lparr>teamBallModel := \<lparr>TeamBallModel.position = b\<rparr>\<rparr> = ballOnRay k d"
    by (auto simp: ballOnRay_def)
  then show "relBallAngle (d\<lparr>teamBallModel := \<lparr>TeamBallModel.position = b\<rparr>\<rparr>) = relBallAngle d"
    unfolding relBallAngle_def by (simp add: relBallPosition_ballOnRay atan2_scale)
qed

theorem relBallAngle_same_iff_ray_witness:
  "relBallAngle
       \<lparr>robotPosition = \<lparr>Pose.position = \<lparr>x = 1, y = 1\<rparr>, heading = 0\<rparr>,
        teamBallModel = \<lparr>TeamBallModel.position = \<lparr>x = 1, y = 4\<rparr>\<rparr>,
        bishopPosition = \<lparr>BishopPosition.position = \<lparr>x = 0, y = 0\<rparr>\<rparr>\<rparr>
     = relBallAngle
       \<lparr>robotPosition = \<lparr>Pose.position = \<lparr>x = 1, y = 1\<rparr>, heading = 0\<rparr>,
        teamBallModel = \<lparr>TeamBallModel.position = \<lparr>x = 1, y = 2\<rparr>\<rparr>,
        bishopPosition = \<lparr>BishopPosition.position = \<lparr>x = 0, y = 0\<rparr>\<rparr>\<rparr>
   \<and> \<not> (\<exists>k>0. teamBallModel (ballOnRay k
       \<lparr>robotPosition = \<lparr>Pose.position = \<lparr>x = 1, y = 1\<rparr>, heading = 0\<rparr>,
        teamBallModel = \<lparr>TeamBallModel.position = \<lparr>x = 1, y = 2\<rparr>\<rparr>,
        bishopPosition = \<lparr>BishopPosition.position = \<lparr>x = 0, y = 0\<rparr>\<rparr>\<rparr>)
         = \<lparr>TeamBallModel.position = \<lparr>x = 2, y = 1\<rparr>\<rparr>)"
  using relBallAngle_same_iff_ray [of
       "\<lparr>robotPosition = \<lparr>Pose.position = \<lparr>x = 1, y = 1\<rparr>, heading = 0\<rparr>,
         teamBallModel = \<lparr>TeamBallModel.position = \<lparr>x = 1, y = 2\<rparr>\<rparr>,
         bishopPosition = \<lparr>BishopPosition.position = \<lparr>x = 0, y = 0\<rparr>\<rparr>\<rparr>" "\<lparr>x = 1, y = 4\<rparr>"]
    relBallAngle_same_iff_ray [of
       "\<lparr>robotPosition = \<lparr>Pose.position = \<lparr>x = 1, y = 1\<rparr>, heading = 0\<rparr>,
         teamBallModel = \<lparr>TeamBallModel.position = \<lparr>x = 1, y = 2\<rparr>\<rparr>,
         bishopPosition = \<lparr>BishopPosition.position = \<lparr>x = 0, y = 0\<rparr>\<rparr>\<rparr>" "\<lparr>x = 2, y = 1\<rparr>"]
  by (simp add: ballOnRay_def relBallAngle_def relBallPosition_def geom_defs)

end
